theory Spec2Isabelle
  imports Complex_Main "HOL-Library.Sublist"
begin

section \<open>Value types of the host and of the scene description\<close>

text \<open>
  The host's \<open>double\<close> values are modelled as reals; the narrowing to \<open>float\<close> and
  \<open>GfHalf\<close> storage is taken to be exact, the narrowing to \<open>int32_t\<close> truncates
  towards zero. \<open>MPoint\<close> always carries \<open>w = 1\<close> in this code and is modelled by
  its cartesian part, so it shares the type of \<open>MVector\<close>.
\<close>

datatype MVector = MVector (vx: real) (vy: real) (vz: real)

instantiation MVector :: "{plus, minus}"
begin

definition plus_MVector :: "MVector \<Rightarrow> MVector \<Rightarrow> MVector" where
  "plus_MVector a b = MVector (vx a + vx b) (vy a + vy b) (vz a + vz b)"

definition minus_MVector :: "MVector \<Rightarrow> MVector \<Rightarrow> MVector" where
  "minus_MVector a b = MVector (vx a - vx b) (vy a - vy b) (vz a - vz b)"

instance ..

end

type_synonym MPoint = MVector

datatype RotationOrder = kXYZ | kYZX | kZXY | kXZY | kYXZ | kZYX

record MEulerRotation =
  ex :: real
  ey :: real
  ez :: real
  order :: RotationOrder

datatype MQuaternion = MQuaternion (qx: real) (qy: real) (qz: real) (qw: real)



text \<open>A 4x4 matrix, row by row; \<open>MMatrix\<close> and \<open>GfMatrix4d\<close> share their layout.\<close>

datatype MRow = MRow real real real real
datatype GfMatrix4d = GfMatrix4d MRow MRow MRow MRow

type_synonym MMatrix = GfMatrix4d

datatype UsdTimeCode = DefaultTime | TimeCode real

datatype UsdDataType =
  kVec3d | kVec3f | kVec3h | kVec3i | kDouble | kFloat | kHalf | kInt | kMatrix4d | kUnknown

datatype VtValue =
  VtVec3 MVector
  | VtVec3i int int int
  | VtReal real
  | VtInt int
  | VtMatrix GfMatrix4d

definition trunc_int :: "real \<Rightarrow> int" where
  "trunc_int x = (if 0 \<le> x then \<lfloor>x\<rfloor> else \<lceil>x\<rceil>)"

datatype XformOpType =
  TypeInvalid | TypeTranslate | TypeScale | TypeRotateX | TypeRotateY | TypeRotateZ
  | TypeRotateXYZ | TypeRotateXZY | TypeRotateYXZ | TypeRotateYZX | TypeRotateZXY
  | TypeRotateZYX | TypeOrient | TypeTransform

datatype Precision = PrecisionDouble | PrecisionFloat | PrecisionHalf

datatype TfToken =
  Tok_translate | Tok_rotatePivotTranslate | Tok_rotatePivot | Tok_rotate | Tok_rotateAxis
  | Tok_scalePivotTranslate | Tok_scalePivot | Tok_shear | Tok_scale | Tok_pivot
  | Tok_transform | Tok_other string

section \<open>The scene description: attributes, operations, the prim\<close>

text \<open>
  Modelled from the spec: the scene-description collaborator of section 6 (typed get and set
  of a value at a time, the number of time samples, the ordered operation list, adding an
  operation). An attribute is named by the operation type and the name suffix. \<open>valueAt\<close>
  is the value the attribute resolves to at each time code; a store of a value of the
  attribute's type writes the value at the given time code and records an authored sample
  time, a store of any other type is refused.
\<close>

type_synonym AttrName = "XformOpType \<times> TfToken"

record UsdAttribute =
  typeName :: UsdDataType
  valueAt :: "UsdTimeCode \<Rightarrow> VtValue option"
  timeSamples :: "real list"

record UsdGeomXformOp =
  opAttr :: AttrName
  isInverseOp :: bool

record UsdPrim =
  IsValid :: bool
  attrs :: "AttrName \<Rightarrow> UsdAttribute option"
  xformOpOrder :: "UsdGeomXformOp list"
  resetsXformStack :: bool

definition GetOpType :: "UsdGeomXformOp \<Rightarrow> XformOpType" where
  "GetOpType op = fst (opAttr op)"

definition GetTypeName :: "UsdPrim \<Rightarrow> UsdGeomXformOp \<Rightarrow> UsdDataType" where
  "GetTypeName prim op = (case attrs prim (opAttr op) of None \<Rightarrow> kUnknown | Some a \<Rightarrow> typeName a)"

definition GetNumTimeSamples :: "UsdPrim \<Rightarrow> UsdGeomXformOp \<Rightarrow> nat" where
  "GetNumTimeSamples prim op =
     (case attrs prim (opAttr op) of None \<Rightarrow> 0 | Some a \<Rightarrow> length (timeSamples a))"

definition op_Get :: "UsdPrim \<Rightarrow> UsdGeomXformOp \<Rightarrow> UsdTimeCode \<Rightarrow> VtValue option" where
  "op_Get prim op t = (case attrs prim (opAttr op) of None \<Rightarrow> None | Some a \<Rightarrow> valueAt a t)"

definition addSample :: "UsdTimeCode \<Rightarrow> real list \<Rightarrow> real list" where
  "addSample t ts = (case t of DefaultTime \<Rightarrow> ts | TimeCode r \<Rightarrow> List.insert r ts)"

definition attr_Set :: "VtValue \<Rightarrow> UsdTimeCode \<Rightarrow> UsdAttribute \<Rightarrow> UsdAttribute" where
  "attr_Set v t a = a\<lparr>valueAt := (valueAt a)(t := Some v), timeSamples := addSample t (timeSamples a)\<rparr>"

definition valueFits :: "UsdDataType \<Rightarrow> VtValue \<Rightarrow> bool" where
  "valueFits ty v =
     (case v of
        VtVec3 a \<Rightarrow> ty = kVec3d \<or> ty = kVec3f \<or> ty = kVec3h
      | VtVec3i x y z \<Rightarrow> ty = kVec3i
      | VtReal r \<Rightarrow> ty = kDouble \<or> ty = kFloat \<or> ty = kHalf
      | VtInt n \<Rightarrow> ty = kInt
      | VtMatrix m \<Rightarrow> ty = kMatrix4d)"

definition op_Set :: "UsdPrim \<Rightarrow> UsdGeomXformOp \<Rightarrow> VtValue \<Rightarrow> UsdTimeCode \<Rightarrow> UsdPrim" where
  "op_Set prim op v t =
     (case attrs prim (opAttr op) of
        None \<Rightarrow> prim
      | Some a \<Rightarrow> if valueFits (typeName a) v
                  then prim\<lparr>attrs := (attrs prim)(opAttr op \<mapsto> attr_Set v t a)\<rparr>
                  else prim)"

text \<open>
  The codec writes read the old value into an uninitialised local and store when the new
  value differs from it. When the read fails the local keeps no stored value; the model
  takes it to differ from the new value, so the store happens.
\<close>

definition set_if_changed :: "UsdPrim \<Rightarrow> UsdGeomXformOp \<Rightarrow> VtValue \<Rightarrow> UsdTimeCode \<Rightarrow> UsdTimeCode \<Rightarrow> UsdPrim" where
  "set_if_changed prim op v readTime writeTime =
     (if Some v \<noteq> op_Get prim op readTime then op_Set prim op v writeTime else prim)"

section \<open>Op value codec\<close>

definition getVec3 :: "UsdPrim \<Rightarrow> UsdGeomXformOp \<Rightarrow> UsdTimeCode \<Rightarrow> MVector option" where
  "getVec3 prim op t = (case op_Get prim op t of Some (VtVec3 v) \<Rightarrow> Some v | _ \<Rightarrow> None)"

definition getVec3i :: "UsdPrim \<Rightarrow> UsdGeomXformOp \<Rightarrow> UsdTimeCode \<Rightarrow> MVector option" where
  "getVec3i prim op t =
     (case op_Get prim op t of
        Some (VtVec3i x y z) \<Rightarrow> Some (MVector (real_of_int x) (real_of_int y) (real_of_int z))
      | _ \<Rightarrow> None)"

definition readVector :: "MVector \<Rightarrow> UsdPrim \<Rightarrow> UsdGeomXformOp \<Rightarrow> UsdTimeCode \<Rightarrow> bool \<times> MVector" where
  "readVector result prim op timeCode =
     (case GetTypeName prim op of
        kVec3d \<Rightarrow> (case getVec3 prim op timeCode of None \<Rightarrow> (False, result) | Some v \<Rightarrow> (True, v))
      | kVec3f \<Rightarrow> (case getVec3 prim op timeCode of None \<Rightarrow> (False, result) | Some v \<Rightarrow> (True, v))
      | kVec3h \<Rightarrow> (case getVec3 prim op timeCode of None \<Rightarrow> (False, result) | Some v \<Rightarrow> (True, v))
      | kVec3i \<Rightarrow> (case getVec3i prim op timeCode of None \<Rightarrow> (False, result) | Some v \<Rightarrow> (True, v))
      | _ \<Rightarrow> (False, result))"

definition pushVector :: "MVector \<Rightarrow> UsdPrim \<Rightarrow> UsdGeomXformOp \<Rightarrow> UsdTimeCode \<Rightarrow> bool \<times> UsdPrim" where
  "pushVector result prim op timeCode =
     (case GetTypeName prim op of
        kVec3d \<Rightarrow> (True, set_if_changed prim op (VtVec3 result) timeCode timeCode)
      | kVec3f \<Rightarrow> (True, set_if_changed prim op (VtVec3 result) timeCode timeCode)
      | kVec3h \<Rightarrow> (True, set_if_changed prim op (VtVec3 result) timeCode timeCode)
      | kVec3i \<Rightarrow> (True, set_if_changed prim op
                     (VtVec3i (trunc_int (vx result)) (trunc_int (vy result)) (trunc_int (vz result)))
                     timeCode timeCode)
      | _ \<Rightarrow> (False, prim))"

definition shearMatrix :: "MVector \<Rightarrow> GfMatrix4d" where
  "shearMatrix result = GfMatrix4d
     (MRow 1 0 0 0)
     (MRow (vx result) 1 0 0)
     (MRow (vy result) (vz result) 1 0)
     (MRow 0 0 0 1)"

definition pushShear :: "MVector \<Rightarrow> UsdPrim \<Rightarrow> UsdGeomXformOp \<Rightarrow> UsdTimeCode \<Rightarrow> bool \<times> UsdPrim" where
  "pushShear result prim op timeCode =
     (case GetTypeName prim op of
        kMatrix4d \<Rightarrow> (False, set_if_changed prim op (VtMatrix (shearMatrix result)) timeCode timeCode)
      | _ \<Rightarrow> (False, prim))"

definition getMatrix :: "UsdPrim \<Rightarrow> UsdGeomXformOp \<Rightarrow> UsdTimeCode \<Rightarrow> GfMatrix4d option" where
  "getMatrix prim op t = (case op_Get prim op t of Some (VtMatrix m) \<Rightarrow> Some m | _ \<Rightarrow> None)"

fun shearOfMatrix :: "GfMatrix4d \<Rightarrow> MVector" where
  "shearOfMatrix (GfMatrix4d r0 (MRow a10 a11 a12 a13) (MRow a20 a21 a22 a23) r3) = MVector a10 a20 a21"

definition readShear :: "MVector \<Rightarrow> UsdPrim \<Rightarrow> UsdGeomXformOp \<Rightarrow> UsdTimeCode \<Rightarrow> bool \<times> MVector" where
  "readShear result prim op timeCode =
     (case GetTypeName prim op of
        kMatrix4d \<Rightarrow> (case getMatrix prim op timeCode of
                        None \<Rightarrow> (False, result)
                      | Some m \<Rightarrow> (True, shearOfMatrix m))
      | _ \<Rightarrow> (False, result))"

definition readPoint :: "MPoint \<Rightarrow> UsdPrim \<Rightarrow> UsdGeomXformOp \<Rightarrow> UsdTimeCode \<Rightarrow> bool \<times> MPoint" where
  "readPoint result prim op timeCode =
     (case GetTypeName prim op of
        kVec3d \<Rightarrow> (case getVec3 prim op timeCode of None \<Rightarrow> (False, result) | Some v \<Rightarrow> (True, v))
      | kVec3f \<Rightarrow> (case getVec3 prim op timeCode of None \<Rightarrow> (False, result) | Some v \<Rightarrow> (True, v))
      | kVec3h \<Rightarrow> (case getVec3 prim op timeCode of None \<Rightarrow> (False, result) | Some v \<Rightarrow> (True, v))
      | kVec3i \<Rightarrow> (case getVec3i prim op timeCode of None \<Rightarrow> (False, result) | Some v \<Rightarrow> (True, v))
      | _ \<Rightarrow> (False, result))"

definition readMatrix :: "MMatrix \<Rightarrow> UsdPrim \<Rightarrow> UsdGeomXformOp \<Rightarrow> UsdTimeCode \<Rightarrow> bool \<times> MMatrix" where
  "readMatrix result prim op timeCode =
     (case GetTypeName prim op of
        kMatrix4d \<Rightarrow> (case getMatrix prim op timeCode of
                        None \<Rightarrow> (False, result)
                      | Some m \<Rightarrow> (True, m))
      | _ \<Rightarrow> (False, result))"

definition pushMatrix :: "MMatrix \<Rightarrow> UsdPrim \<Rightarrow> UsdGeomXformOp \<Rightarrow> UsdTimeCode \<Rightarrow> bool \<times> UsdPrim" where
  "pushMatrix result prim op timeCode =
     (case GetTypeName prim op of
        kMatrix4d \<Rightarrow> (True, set_if_changed prim op (VtMatrix result) timeCode timeCode)
      | _ \<Rightarrow> (False, prim))"

definition pushPoint :: "MPoint \<Rightarrow> UsdPrim \<Rightarrow> UsdGeomXformOp \<Rightarrow> UsdTimeCode \<Rightarrow> bool \<times> UsdPrim" where
  "pushPoint result prim op timeCode =
     (case GetTypeName prim op of
        kVec3d \<Rightarrow> (True, set_if_changed prim op (VtVec3 result) timeCode timeCode)
      | kVec3f \<Rightarrow> (True, set_if_changed prim op (VtVec3 result) timeCode timeCode)
      | kVec3h \<Rightarrow> (True, set_if_changed prim op (VtVec3 result) timeCode timeCode)
      | kVec3i \<Rightarrow> (True, set_if_changed prim op
                     (VtVec3i (trunc_int (vx result)) (trunc_int (vy result)) (trunc_int (vz result)))
                     timeCode timeCode)
      | _ \<Rightarrow> (False, prim))"

definition getReal :: "UsdPrim \<Rightarrow> UsdGeomXformOp \<Rightarrow> UsdTimeCode \<Rightarrow> real option" where
  "getReal prim op t = (case op_Get prim op t of Some (VtReal v) \<Rightarrow> Some v | _ \<Rightarrow> None)"

definition getInt :: "UsdPrim \<Rightarrow> UsdGeomXformOp \<Rightarrow> UsdTimeCode \<Rightarrow> real option" where
  "getInt prim op t = (case op_Get prim op t of Some (VtInt v) \<Rightarrow> Some (real_of_int v) | _ \<Rightarrow> None)"

definition readDouble :: "UsdPrim \<Rightarrow> UsdGeomXformOp \<Rightarrow> UsdTimeCode \<Rightarrow> real" where
  "readDouble prim op timeCode =
     (case GetTypeName prim op of
        kHalf \<Rightarrow> (case getReal prim op timeCode of None \<Rightarrow> 0 | Some v \<Rightarrow> v)
      | kFloat \<Rightarrow> (case getReal prim op timeCode of None \<Rightarrow> 0 | Some v \<Rightarrow> v)
      | kDouble \<Rightarrow> (case getReal prim op timeCode of None \<Rightarrow> 0 | Some v \<Rightarrow> v)
      | kInt \<Rightarrow> (case getInt prim op timeCode of None \<Rightarrow> 0 | Some v \<Rightarrow> v)
      | _ \<Rightarrow> 0)"

text \<open>\<open>pushDouble\<close> reads the old value without a time argument, that is at the default time.\<close>

definition pushDouble :: "real \<Rightarrow> UsdPrim \<Rightarrow> UsdGeomXformOp \<Rightarrow> UsdTimeCode \<Rightarrow> UsdPrim" where
  "pushDouble v prim op timeCode =
     (case GetTypeName prim op of
        kHalf \<Rightarrow> set_if_changed prim op (VtReal v) DefaultTime timeCode
      | kFloat \<Rightarrow> set_if_changed prim op (VtReal v) DefaultTime timeCode
      | kDouble \<Rightarrow> set_if_changed prim op (VtReal v) DefaultTime timeCode
      | kInt \<Rightarrow> set_if_changed prim op (VtInt (trunc_int v)) DefaultTime timeCode
      | _ \<Rightarrow> prim)"

definition degToRad :: real where
  "degToRad = 3.141592654 / 180"

definition radToDeg :: real where
  "radToDeg = 180 / 3.141592654"

definition readRotationVec :: "RotationOrder \<Rightarrow> MEulerRotation \<Rightarrow> UsdPrim \<Rightarrow> UsdGeomXformOp \<Rightarrow> UsdTimeCode \<Rightarrow> bool \<times> MEulerRotation" where
  "readRotationVec ord result prim op timeCode =
     (case readVector (MVector 0 0 0) prim op timeCode of
        (True, v) \<Rightarrow> (True, \<lparr>ex = vx v * degToRad, ey = vy v * degToRad, ez = vz v * degToRad, order = ord\<rparr>)
      | (False, v) \<Rightarrow> (False, result))"

definition readRotation :: "MEulerRotation \<Rightarrow> UsdPrim \<Rightarrow> UsdGeomXformOp \<Rightarrow> UsdTimeCode \<Rightarrow> bool \<times> MEulerRotation" where
  "readRotation result prim op timeCode =
     (case GetOpType op of
        TypeRotateX \<Rightarrow> (True, \<lparr>ex = readDouble prim op timeCode * degToRad, ey = 0, ez = 0, order = kXYZ\<rparr>)
      | TypeRotateY \<Rightarrow> (True, \<lparr>ex = 0, ey = readDouble prim op timeCode * degToRad, ez = 0, order = kXYZ\<rparr>)
      | TypeRotateZ \<Rightarrow> (True, \<lparr>ex = 0, ey = 0, ez = readDouble prim op timeCode * degToRad, order = kXYZ\<rparr>)
      | TypeRotateXYZ \<Rightarrow> readRotationVec kXYZ result prim op timeCode
      | TypeRotateXZY \<Rightarrow> readRotationVec kXZY result prim op timeCode
      | TypeRotateYXZ \<Rightarrow> readRotationVec kYXZ result prim op timeCode
      | TypeRotateYZX \<Rightarrow> readRotationVec kYZX result prim op timeCode
      | TypeRotateZXY \<Rightarrow> readRotationVec kZXY result prim op timeCode
      | TypeRotateZYX \<Rightarrow> readRotationVec kZYX result prim op timeCode
      | _ \<Rightarrow> (False, result))"

definition pushRotationVec :: "MEulerRotation \<Rightarrow> UsdPrim \<Rightarrow> UsdGeomXformOp \<Rightarrow> UsdTimeCode \<Rightarrow> bool \<times> UsdPrim" where
  "pushRotationVec v prim op timeCode =
     pushVector (MVector (ex v * radToDeg) (ey v * radToDeg) (ez v * radToDeg)) prim op timeCode"

definition pushRotation :: "MEulerRotation \<Rightarrow> UsdPrim \<Rightarrow> UsdGeomXformOp \<Rightarrow> UsdTimeCode \<Rightarrow> bool \<times> UsdPrim" where
  "pushRotation v prim op timeCode =
     (case GetOpType op of
        TypeRotateX \<Rightarrow> (True, pushDouble (ex v * radToDeg) prim op timeCode)
      | TypeRotateY \<Rightarrow> (True, pushDouble (ey v * radToDeg) prim op timeCode)
      | TypeRotateZ \<Rightarrow> (True, pushDouble (ez v * radToDeg) prim op timeCode)
      | TypeRotateXYZ \<Rightarrow> pushRotationVec v prim op timeCode
      | TypeRotateXZY \<Rightarrow> pushRotationVec v prim op timeCode
      | TypeRotateYXZ \<Rightarrow> pushRotationVec v prim op timeCode
      | TypeRotateYZX \<Rightarrow> pushRotationVec v prim op timeCode
      | TypeRotateZYX \<Rightarrow> pushRotationVec v prim op timeCode
      | TypeRotateZXY \<Rightarrow> pushRotationVec v prim op timeCode
      | _ \<Rightarrow> (False, prim))"


section \<open>Schemas\<close>

record UsdMayaXformOpClassification =
  GetName :: TfToken
  clsOpType :: XformOpType
  IsInvertedTwin :: bool

record UsdMayaXformStack =
  GetOps :: "UsdMayaXformOpClassification list"
  inversionTwins :: "(nat \<times> nat) list"

definition opClass :: "TfToken \<Rightarrow> XformOpType \<Rightarrow> bool \<Rightarrow> UsdMayaXformOpClassification" where
  "opClass n t i = \<lparr>GetName = n, clsOpType = t, IsInvertedTwin = i\<rparr>"

definition MayaSinglePivotStack :: UsdMayaXformStack where
  "MayaSinglePivotStack = \<lparr>GetOps =
     [opClass Tok_translate TypeTranslate False,
      opClass Tok_rotatePivotTranslate TypeTranslate False,
      opClass Tok_pivot TypeTranslate False,
      opClass Tok_rotate TypeRotateXYZ False,
      opClass Tok_rotateAxis TypeRotateXYZ False,
      opClass Tok_scalePivotTranslate TypeTranslate False,
      opClass Tok_shear TypeTransform False,
      opClass Tok_scale TypeScale False,
      opClass Tok_pivot TypeTranslate True],
     inversionTwins = [(2, 8)]\<rparr>"

text \<open>
  Modelled from the spec: the full host-equivalent stack and the bare-matrix stack of section 3,
  whose tables are declared outside the sources at hand. The full stack holds the rotate pivot and
  the scale pivot each with its inverted twin; the comments of \<open>buildOrderedOpMayaIndices\<close>
  place the plain \<open>rotatePivot\<close> and the inverted \<open>scalePivot\<close> in it.
\<close>

definition MayaStack :: UsdMayaXformStack where
  "MayaStack = \<lparr>GetOps =
     [opClass Tok_translate TypeTranslate False,
      opClass Tok_rotatePivotTranslate TypeTranslate False,
      opClass Tok_rotatePivot TypeTranslate False,
      opClass Tok_rotate TypeRotateXYZ False,
      opClass Tok_rotateAxis TypeRotateXYZ False,
      opClass Tok_rotatePivot TypeTranslate True,
      opClass Tok_scalePivotTranslate TypeTranslate False,
      opClass Tok_scalePivot TypeTranslate False,
      opClass Tok_shear TypeTransform False,
      opClass Tok_scale TypeScale False,
      opClass Tok_scalePivot TypeTranslate True],
     inversionTwins = [(2, 5), (7, 10)]\<rparr>"

definition MatrixStack :: UsdMayaXformStack where
  "MatrixStack = \<lparr>GetOps = [opClass Tok_transform TypeTransform False], inversionTwins = []\<rparr>"

definition NO_INDEX :: nat where
  "NO_INDEX = 18446744073709551615"

text \<open>
  Modelled from the spec: the name-to-role lookup of section 4.2, "find role's forward/inverse
  index pair" and "find schema position index for a role".
\<close>

fun indicesOf :: "TfToken \<Rightarrow> nat \<Rightarrow> UsdMayaXformOpClassification list \<Rightarrow> nat list" where
  "indicesOf n i [] = []"
| "indicesOf n i (c # cs) = (if GetName c = n then i # indicesOf n (Suc i) cs else indicesOf n (Suc i) cs)"

definition FindOpIndexPair :: "UsdMayaXformStack \<Rightarrow> TfToken \<Rightarrow> nat \<times> nat" where
  "FindOpIndexPair stack n =
     (case indicesOf n 0 (GetOps stack) of
        [] \<Rightarrow> (NO_INDEX, NO_INDEX)
      | [i] \<Rightarrow> (i, NO_INDEX)
      | i # j # r \<Rightarrow> (i, j))"

definition FindOpIndex :: "UsdMayaXformStack \<Rightarrow> TfToken \<Rightarrow> bool \<Rightarrow> nat" where
  "FindOpIndex stack n isInvertedTwin =
     (let p = FindOpIndexPair stack n in
      if fst p = NO_INDEX then NO_INDEX
      else if IsInvertedTwin (GetOps stack ! fst p)
           then (if isInvertedTwin then fst p else snd p)
           else (if isInvertedTwin then snd p else fst p))"

section \<open>The transform entity state\<close>

datatype Flags =
  kAnimatedScale | kAnimatedRotation | kAnimatedTranslation | kAnimatedMatrix | kAnimatedShear
  | kFromMatrix | kFromMayaSchema | kSinglePivotSchema
  | kPrimHasScale | kPrimHasRotation | kPrimHasTranslation | kPrimHasShear
  | kPrimHasScalePivot | kPrimHasScalePivotTranslate | kPrimHasRotatePivot
  | kPrimHasRotatePivotTranslate | kPrimHasRotateAxes | kPrimHasPivot | kPrimHasTransform
  | kPushToPrimEnabled | kInheritsTransform | kPushPrimToMatrix | kReadAnimatedValues

text \<open>
  Modelled from the spec: the flag masks, declared outside the sources at hand. Section 4.3:
  any animated translate, rotate, scale, shear or matrix component makes the entity animated;
  section 3 names the three schemas.
\<close>

definition kAnimationMask :: "Flags set" where
  "kAnimationMask = {kAnimatedShear, kAnimatedScale, kAnimatedRotation, kAnimatedTranslation, kAnimatedMatrix}"

definition kAnyKnownSchema :: "Flags set" where
  "kAnyKnownSchema = {kFromMatrix, kFromMayaSchema, kSinglePivotSchema}"

text \<open>The component values held by the host's base class.\<close>

record MPxTransformationMatrix =
  scaleValue :: MVector
  rotationValue :: MEulerRotation
  translationValue :: MVector
  shearValue :: MVector
  scalePivotValue :: MPoint
  scalePivotTranslationValue :: MVector
  rotatePivotValue :: MPoint
  rotatePivotTranslationValue :: MVector
  rotateOrientationValue :: MQuaternion

record TweakValues =
  m_scaleTweak :: MVector
  m_rotationTweak :: MEulerRotation
  m_translationTweak :: MVector
  m_shearTweak :: MVector
  m_scalePivotTweak :: MPoint
  m_scalePivotTranslationTweak :: MVector
  m_rotatePivotTweak :: MPoint
  m_rotatePivotTranslationTweak :: MVector
  m_rotateOrientationTweak :: MQuaternion

record FromUsdValues =
  m_scaleFromUsd :: MVector
  m_rotationFromUsd :: MEulerRotation
  m_translationFromUsd :: MVector
  m_shearFromUsd :: MVector
  m_scalePivotFromUsd :: MPoint
  m_scalePivotTranslationFromUsd :: MVector
  m_rotatePivotFromUsd :: MPoint
  m_rotatePivotTranslationFromUsd :: MVector
  m_rotateOrientationFromUsd :: MQuaternion

text \<open>
  Modelled from the spec: the lock-state queries of section 6, answered by the host's
  transform node.
\<close>

record TransformNode =
  isTranslateLocked :: bool
  isRotateLocked :: bool
  isScaleLocked :: bool

record TransformationMatrix =
  base :: MPxTransformationMatrix
  m_prim :: UsdPrim
  m_xformops :: "UsdGeomXformOp list"
  m_orderedOps :: "UsdMayaXformOpClassification list"
  m_orderedOpMayaIndices :: "nat list"
  m_time :: UsdTimeCode
  tweak :: TweakValues
  fromUsd :: FromUsdValues
  m_flags :: "Flags set"
  m_transformNode :: TransformNode

text \<open>
  The host's math library and the schema matcher of the scene-description plugin are
  outside the repository; the functions below take them as parameters.
\<close>

record Externals =
  asQuaternion :: "MEulerRotation \<Rightarrow> MQuaternion"
  asEulerRotation :: "MQuaternion \<Rightarrow> MEulerRotation"
  decomposeMatrix :: "MMatrix \<Rightarrow> MPxTransformationMatrix \<Rightarrow> MPxTransformationMatrix"
  asMatrix :: "MPxTransformationMatrix \<Rightarrow> MMatrix"
  matrixToMTransformationMatrix :: "GfMatrix4d \<Rightarrow> MEulerRotation \<times> MVector \<times> MVector \<times> MVector"
  uninitialisedMatrix :: GfMatrix4d
  MatchingSubstack :: "UsdMayaXformStack \<Rightarrow> UsdGeomXformOp list \<Rightarrow> UsdMayaXformOpClassification list"

text \<open>
  Modelled from the spec: the inline accessors of the class declaration. Reads and writes
  use the current time when animated values are read, and the default time otherwise.
\<close>

definition pushToPrimEnabled :: "TransformationMatrix \<Rightarrow> bool" where
  "pushToPrimEnabled s = (kPushToPrimEnabled \<in> m_flags s)"

definition pushToPrimAvailable :: "TransformationMatrix \<Rightarrow> bool" where
  "pushToPrimAvailable s = (pushToPrimEnabled s \<and> IsValid (m_prim s))"

definition pushPrimToMatrix :: "TransformationMatrix \<Rightarrow> bool" where
  "pushPrimToMatrix s = (kPushPrimToMatrix \<in> m_flags s)"

definition readAnimatedValues :: "TransformationMatrix \<Rightarrow> bool" where
  "readAnimatedValues s = (kReadAnimatedValues \<in> m_flags s)"

definition hasAnimation :: "TransformationMatrix \<Rightarrow> bool" where
  "hasAnimation s = (m_flags s \<inter> kAnimationMask \<noteq> {})"

definition getTimeCode :: "TransformationMatrix \<Rightarrow> UsdTimeCode" where
  "getTimeCode s = (if readAnimatedValues s then m_time s else DefaultTime)"

definition setFlag :: "Flags \<Rightarrow> TransformationMatrix \<Rightarrow> TransformationMatrix" where
  "setFlag f s = s\<lparr>m_flags := insert f (m_flags s)\<rparr>"

definition clearFlag :: "Flags \<Rightarrow> TransformationMatrix \<Rightarrow> TransformationMatrix" where
  "clearFlag f s = s\<lparr>m_flags := m_flags s - {f}\<rparr>"

definition identityMatrix :: MMatrix where
  "identityMatrix = GfMatrix4d (MRow 1 0 0 0) (MRow 0 1 0 0) (MRow 0 0 1 0) (MRow 0 0 0 1)"


definition internal_readVector :: "TransformationMatrix \<Rightarrow> MVector \<Rightarrow> UsdGeomXformOp \<Rightarrow> MVector" where
  "internal_readVector s result op = snd (readVector result (m_prim s) op (getTimeCode s))"

definition internal_readPoint :: "TransformationMatrix \<Rightarrow> MPoint \<Rightarrow> UsdGeomXformOp \<Rightarrow> MPoint" where
  "internal_readPoint s result op = snd (readPoint result (m_prim s) op (getTimeCode s))"

definition internal_readShear :: "TransformationMatrix \<Rightarrow> MVector \<Rightarrow> UsdGeomXformOp \<Rightarrow> MVector" where
  "internal_readShear s result op = snd (readShear result (m_prim s) op (getTimeCode s))"

definition internal_readRotation :: "TransformationMatrix \<Rightarrow> MEulerRotation \<Rightarrow> UsdGeomXformOp \<Rightarrow> MEulerRotation" where
  "internal_readRotation s result op = snd (readRotation result (m_prim s) op (getTimeCode s))"

definition internal_readMatrix :: "TransformationMatrix \<Rightarrow> MMatrix \<Rightarrow> UsdGeomXformOp \<Rightarrow> MMatrix" where
  "internal_readMatrix s result op = snd (readMatrix result (m_prim s) op (getTimeCode s))"

definition internal_pushVector :: "MVector \<Rightarrow> UsdGeomXformOp \<Rightarrow> TransformationMatrix \<Rightarrow> TransformationMatrix" where
  "internal_pushVector v op s = s\<lparr>m_prim := snd (pushVector v (m_prim s) op (getTimeCode s))\<rparr>"

definition internal_pushPoint :: "MPoint \<Rightarrow> UsdGeomXformOp \<Rightarrow> TransformationMatrix \<Rightarrow> TransformationMatrix" where
  "internal_pushPoint v op s = s\<lparr>m_prim := snd (pushPoint v (m_prim s) op (getTimeCode s))\<rparr>"

definition internal_pushShear :: "MVector \<Rightarrow> UsdGeomXformOp \<Rightarrow> TransformationMatrix \<Rightarrow> TransformationMatrix" where
  "internal_pushShear v op s = s\<lparr>m_prim := snd (pushShear v (m_prim s) op (getTimeCode s))\<rparr>"

definition internal_pushRotation :: "MEulerRotation \<Rightarrow> UsdGeomXformOp \<Rightarrow> TransformationMatrix \<Rightarrow> TransformationMatrix" where
  "internal_pushRotation v op s = s\<lparr>m_prim := snd (pushRotation v (m_prim s) op (getTimeCode s))\<rparr>"

section \<open>Initialisation\<close>

definition stackFlagPairs :: "(UsdMayaXformStack \<times> Flags) list" where
  "stackFlagPairs =
     [(MayaStack, kFromMayaSchema), (MayaSinglePivotStack, kSinglePivotSchema), (MatrixStack, kFromMatrix)]"

text \<open>The loop over the schemas: the first non-empty matching substack wins.\<close>

fun matchStacks :: "Externals \<Rightarrow> (UsdMayaXformStack \<times> Flags) list \<Rightarrow> TransformationMatrix \<Rightarrow> TransformationMatrix" where
  "matchStacks ext [] s = s"
| "matchStacks ext ((stack, flag) # rest) s =
     (let s1 = s\<lparr>m_orderedOps := MatchingSubstack ext stack (m_xformops s)\<rparr>
      in if m_orderedOps s1 \<noteq> [] then setFlag flag s1 else matchStacks ext rest s1)"

definition animatedIf :: "Flags \<Rightarrow> UsdGeomXformOp \<Rightarrow> TransformationMatrix \<Rightarrow> TransformationMatrix" where
  "animatedIf f op s = (if GetNumTimeSamples (m_prim s) op > 1 then setFlag f s else s)"

text \<open>
  The body of the loop of \<open>initialiseToPrim\<close> for one operation and its classification.
  The mirroring of the values into the plugs of the transform node is host state and is left out.
\<close>

definition initialiseOp :: "Externals \<Rightarrow> bool \<Rightarrow> UsdGeomXformOp \<Rightarrow> UsdMayaXformOpClassification
    \<Rightarrow> TransformationMatrix \<Rightarrow> TransformationMatrix" where
  "initialiseOp ext readFromPrim op opCl s =
     (if IsInvertedTwin opCl then s
      else let opName = GetName opCl in
      if opName = Tok_translate then
        (let s1 = animatedIf kAnimatedTranslation op (setFlag kPrimHasTranslation s) in
         if readFromPrim
         then s1\<lparr>fromUsd := (fromUsd s1)\<lparr>m_translationFromUsd :=
                 internal_readVector s1 (m_translationFromUsd (fromUsd s1)) op\<rparr>\<rparr>
         else s1)
      else if opName = Tok_pivot then
        (let s1 = setFlag kPrimHasPivot s in
         if readFromPrim
         then (let p = internal_readPoint s1 (m_scalePivotFromUsd (fromUsd s1)) op in
               s1\<lparr>fromUsd := (fromUsd s1)\<lparr>m_scalePivotFromUsd := p, m_rotatePivotFromUsd := p\<rparr>\<rparr>)
         else s1)
      else if opName = Tok_rotatePivotTranslate then
        (let s1 = setFlag kPrimHasRotatePivotTranslate s in
         if readFromPrim
         then s1\<lparr>fromUsd := (fromUsd s1)\<lparr>m_rotatePivotTranslationFromUsd :=
                 internal_readVector s1 (m_rotatePivotTranslationFromUsd (fromUsd s1)) op\<rparr>\<rparr>
         else s1)
      else if opName = Tok_rotatePivot then
        (let s1 = setFlag kPrimHasRotatePivot s in
         if readFromPrim
         then s1\<lparr>fromUsd := (fromUsd s1)\<lparr>m_rotatePivotFromUsd :=
                 internal_readPoint s1 (m_rotatePivotFromUsd (fromUsd s1)) op\<rparr>\<rparr>
         else s1)
      else if opName = Tok_rotate then
        (let s1 = animatedIf kAnimatedRotation op (setFlag kPrimHasRotation s) in
         if readFromPrim
         then s1\<lparr>fromUsd := (fromUsd s1)\<lparr>m_rotationFromUsd :=
                 internal_readRotation s1 (m_rotationFromUsd (fromUsd s1)) op\<rparr>\<rparr>
         else s1)
      else if opName = Tok_rotateAxis then
        (let s1 = setFlag kPrimHasRotateAxes s in
         if readFromPrim
         then (let vec = internal_readVector s1 (MVector 0 0 0) op;
                   eulers = \<lparr>ex = vx vec, ey = vy vec, ez = vz vec, order = kXYZ\<rparr> in
               s1\<lparr>fromUsd := (fromUsd s1)\<lparr>m_rotateOrientationFromUsd := asQuaternion ext eulers\<rparr>\<rparr>)
         else s1)
      else if opName = Tok_scalePivotTranslate then
        (let s1 = setFlag kPrimHasScalePivotTranslate s in
         if readFromPrim
         then s1\<lparr>fromUsd := (fromUsd s1)\<lparr>m_scalePivotTranslationFromUsd :=
                 internal_readVector s1 (m_scalePivotTranslationFromUsd (fromUsd s1)) op\<rparr>\<rparr>
         else s1)
      else if opName = Tok_scalePivot then
        (let s1 = setFlag kPrimHasScalePivot s in
         if readFromPrim
         then s1\<lparr>fromUsd := (fromUsd s1)\<lparr>m_scalePivotFromUsd :=
                 internal_readPoint s1 (m_scalePivotFromUsd (fromUsd s1)) op\<rparr>\<rparr>
         else s1)
      else if opName = Tok_shear then
        (let s1 = animatedIf kAnimatedShear op (setFlag kPrimHasShear s) in
         if readFromPrim
         then s1\<lparr>fromUsd := (fromUsd s1)\<lparr>m_shearFromUsd :=
                 internal_readShear s1 (m_shearFromUsd (fromUsd s1)) op\<rparr>\<rparr>
         else s1)
      else if opName = Tok_scale then
        (let s1 = animatedIf kAnimatedScale op (setFlag kPrimHasScale s) in
         if readFromPrim
         then s1\<lparr>fromUsd := (fromUsd s1)\<lparr>m_scaleFromUsd :=
                 internal_readVector s1 (m_scaleFromUsd (fromUsd s1)) op\<rparr>\<rparr>
         else s1)
      else if opName = Tok_transform then
        (let s1 = animatedIf kAnimatedMatrix op
                    (setFlag kPushPrimToMatrix (setFlag kFromMatrix (setFlag kPrimHasTransform s))) in
         if readFromPrim
         then (case m_xformops s1 of
                 [] \<Rightarrow> s1
               | op0 # rest \<Rightarrow>
                   (let m = internal_readMatrix s1 identityMatrix op0;
                        b = decomposeMatrix ext m (base s1) in
                    s1\<lparr>base := b,
                       fromUsd := \<lparr>m_scaleFromUsd = scaleValue b,
                                   m_rotationFromUsd = rotationValue b,
                                   m_translationFromUsd = translationValue b,
                                   m_shearFromUsd = shearValue b,
                                   m_scalePivotFromUsd = scalePivotValue b,
                                   m_scalePivotTranslationFromUsd = scalePivotTranslationValue b,
                                   m_rotatePivotFromUsd = rotatePivotValue b,
                                   m_rotatePivotTranslationFromUsd = rotatePivotTranslationValue b,
                                   m_rotateOrientationFromUsd = rotateOrientationValue b\<rparr>\<rparr>))
         else s1)
      else s)"

text \<open>
  The loop walks the operations and the classifications in lockstep; running off the end of the
  classification list is an out-of-range read, the value \<open>None\<close>.
\<close>

fun initialiseLoop :: "Externals \<Rightarrow> bool \<Rightarrow> UsdGeomXformOp list \<Rightarrow> UsdMayaXformOpClassification list
    \<Rightarrow> TransformationMatrix \<Rightarrow> TransformationMatrix option" where
  "initialiseLoop ext r [] cs s = Some s"
| "initialiseLoop ext r (op # ops) [] s = None"
| "initialiseLoop ext r (op # ops) (c # cs) s = initialiseLoop ext r ops cs (initialiseOp ext r op c s)"

definition animationLock :: "TransformationMatrix \<Rightarrow> TransformationMatrix" where
  "animationLock s =
     (if m_flags s \<inter> kAnimationMask \<noteq> {}
      then setFlag kReadAnimatedValues (clearFlag kPushToPrimEnabled s)
      else s)"

definition initialiseToPrim :: "Externals \<Rightarrow> bool \<Rightarrow> TransformationMatrix \<Rightarrow> TransformationMatrix option" where
  "initialiseToPrim ext readFromPrim s =
     (if \<not> IsValid (m_prim s) then Some s
      else
        let s1 = s\<lparr>m_xformops := xformOpOrder (m_prim s), m_orderedOps := [], m_orderedOpMayaIndices := []\<rparr>;
            s2 = (if \<not> resetsXformStack (m_prim s) then setFlag kInheritsTransform s1 else s1);
            s3 = (if m_xformops s2 = [] then setFlag kFromMayaSchema s2
                  else matchStacks ext stackFlagPairs s2)
        in if m_flags s3 \<inter> kAnyKnownSchema \<noteq> {}
           then (case initialiseLoop ext readFromPrim (m_xformops s3) (m_orderedOps s3) s3 of
                   None \<Rightarrow> None
                 | Some s4 \<Rightarrow> Some (animationLock s4))
           else Some (animationLock s3))"

section \<open>Time advance\<close>

definition addTweak :: "MEulerRotation \<Rightarrow> MEulerRotation \<Rightarrow> MEulerRotation \<Rightarrow> MEulerRotation" where
  "addTweak r f t = r\<lparr>ex := ex f + ex t, ey := ey f + ey t, ez := ez f + ez t\<rparr>"

definition updateOp :: "Externals \<Rightarrow> UsdGeomXformOp \<Rightarrow> UsdMayaXformOpClassification
    \<Rightarrow> TransformationMatrix \<Rightarrow> TransformationMatrix" where
  "updateOp ext op opCl s =
     (let opName = GetName opCl in
      if opName = Tok_translate then
        (if kAnimatedTranslation \<in> m_flags s
         then (let v = internal_readVector s (m_translationFromUsd (fromUsd s)) op in
               s\<lparr>fromUsd := (fromUsd s)\<lparr>m_translationFromUsd := v\<rparr>,
                 base := (base s)\<lparr>translationValue := v + m_translationTweak (tweak s)\<rparr>\<rparr>)
         else s)
      else if opName = Tok_rotate then
        (if kAnimatedRotation \<in> m_flags s
         then (let v = internal_readRotation s (m_rotationFromUsd (fromUsd s)) op in
               s\<lparr>fromUsd := (fromUsd s)\<lparr>m_rotationFromUsd := v\<rparr>,
                 base := (base s)\<lparr>rotationValue := addTweak v v (m_rotationTweak (tweak s))\<rparr>\<rparr>)
         else s)
      else if opName = Tok_scale then
        (if kAnimatedScale \<in> m_flags s
         then (let v = internal_readVector s (m_scaleFromUsd (fromUsd s)) op in
               s\<lparr>fromUsd := (fromUsd s)\<lparr>m_scaleFromUsd := v\<rparr>,
                 base := (base s)\<lparr>scaleValue := v + m_scaleTweak (tweak s)\<rparr>\<rparr>)
         else s)
      else if opName = Tok_shear then
        (if kAnimatedShear \<in> m_flags s
         then (let v = internal_readShear s (m_shearFromUsd (fromUsd s)) op in
               s\<lparr>fromUsd := (fromUsd s)\<lparr>m_shearFromUsd := v\<rparr>,
                 base := (base s)\<lparr>shearValue := v + m_shearTweak (tweak s)\<rparr>\<rparr>)
         else s)
      else if opName = Tok_transform then
        (if kAnimatedMatrix \<in> m_flags s
         then (let matrix = (case getMatrix (m_prim s) op (getTimeCode s) of
                               None \<Rightarrow> uninitialisedMatrix ext | Some m \<Rightarrow> m)
               in case matrixToMTransformationMatrix ext matrix of
                    (r, t, sc, sh) \<Rightarrow>
                      s\<lparr>fromUsd := (fromUsd s)\<lparr>m_rotationFromUsd := r, m_translationFromUsd := t,
                                               m_scaleFromUsd := sc, m_shearFromUsd := sh\<rparr>,
                        base := (base s)\<lparr>rotationValue :=
                                            addTweak (rotationValue (base s)) r (m_rotationTweak (tweak s)),
                                         translationValue := t + m_translationTweak (tweak s),
                                         scaleValue := sc + m_scaleTweak (tweak s),
                                         shearValue := sh + m_shearTweak (tweak s)\<rparr>\<rparr>)
         else s)
      else s)"

fun updateLoop :: "Externals \<Rightarrow> UsdGeomXformOp list \<Rightarrow> UsdMayaXformOpClassification list
    \<Rightarrow> TransformationMatrix \<Rightarrow> TransformationMatrix option" where
  "updateLoop ext [] cs s = Some s"
| "updateLoop ext (op # ops) [] s = None"
| "updateLoop ext (op # ops) (c # cs) s = updateLoop ext ops cs (updateOp ext op c s)"

definition updateToTime :: "Externals \<Rightarrow> UsdTimeCode \<Rightarrow> TransformationMatrix \<Rightarrow> TransformationMatrix option" where
  "updateToTime ext time s =
     (if \<not> IsValid (m_prim s) then Some s
      else if m_time s \<noteq> time
      then (let s1 = s\<lparr>m_time := time\<rparr> in
            if hasAnimation s1 then updateLoop ext (m_xformops s1) (m_orderedOps s1) s1 else Some s1)
      else Some s)"


section \<open>Inserting and removing operations\<close>

datatype MStatus = kSuccess | kFailure

text \<open>
  Modelled from the spec: adding an operation and setting the operation order (section 6).
  Adding fails when the prim is invalid, when the operation is already in the order (the
  duplicate name collision of section 7), when the operation type has no value type at the
  requested precision, or when the attribute exists with another value type; otherwise the
  attribute is created if need be and the operation is appended to the order.
\<close>

definition valueTypeName :: "XformOpType \<Rightarrow> Precision \<Rightarrow> UsdDataType" where
  "valueTypeName ty pr =
     (if ty = TypeTransform then (if pr = PrecisionDouble then kMatrix4d else kUnknown)
      else if ty = TypeRotateX \<or> ty = TypeRotateY \<or> ty = TypeRotateZ
      then (case pr of PrecisionDouble \<Rightarrow> kDouble | PrecisionFloat \<Rightarrow> kFloat | PrecisionHalf \<Rightarrow> kHalf)
      else if ty = TypeInvalid \<or> ty = TypeOrient then kUnknown
      else (case pr of PrecisionDouble \<Rightarrow> kVec3d | PrecisionFloat \<Rightarrow> kVec3f | PrecisionHalf \<Rightarrow> kVec3h))"

definition AddXformOp :: "UsdPrim \<Rightarrow> XformOpType \<Rightarrow> Precision \<Rightarrow> TfToken \<Rightarrow> bool
    \<Rightarrow> (UsdGeomXformOp \<times> UsdPrim) option" where
  "AddXformOp prim ty pr opName isInv =
     (let op = \<lparr>opAttr = (ty, opName), isInverseOp = isInv\<rparr>; vt = valueTypeName ty pr in
      if op \<in> set (xformOpOrder prim) \<or> vt = kUnknown \<or> \<not> IsValid prim then None
      else case attrs prim (ty, opName) of
             Some a \<Rightarrow> if typeName a = vt
                       then Some (op, prim\<lparr>xformOpOrder := xformOpOrder prim @ [op]\<rparr>)
                       else None
           | None \<Rightarrow> Some (op, prim\<lparr>attrs := (attrs prim)((ty, opName) \<mapsto>
                                     \<lparr>typeName = vt, valueAt = (\<lambda>t. None), timeSamples = []\<rparr>),
                                   xformOpOrder := xformOpOrder prim @ [op]\<rparr>))"

definition SetXformOpOrder :: "UsdPrim \<Rightarrow> UsdGeomXformOp list \<Rightarrow> bool \<Rightarrow> UsdPrim" where
  "SetXformOpOrder prim ops resetXformStack =
     (if IsValid prim then prim\<lparr>xformOpOrder := ops, resetsXformStack := resetXformStack\<rparr> else prim)"

definition buildOrderedOpMayaIndices :: "TransformationMatrix \<Rightarrow> TransformationMatrix" where
  "buildOrderedOpMayaIndices s =
     (if m_orderedOpMayaIndices s = [] \<and> m_orderedOps s \<noteq> []
      then (if kFromMayaSchema \<in> m_flags s
            then s\<lparr>m_orderedOpMayaIndices :=
                     map (\<lambda>op. FindOpIndex MayaStack (GetName op) (IsInvertedTwin op)) (m_orderedOps s)\<rparr>
            else if kSinglePivotSchema \<in> m_flags s
            then s\<lparr>m_orderedOpMayaIndices :=
                     map (\<lambda>op. let isInverted = IsInvertedTwin op;
                                    name = (if GetName op = Tok_pivot
                                            then (if isInverted then Tok_scalePivot else Tok_rotatePivot)
                                            else GetName op)
                                in FindOpIndex MayaStack name isInverted) (m_orderedOps s)\<rparr>
            else s)
      else s)"

definition erase :: "nat \<Rightarrow> 'a list \<Rightarrow> 'a list" where
  "erase i xs = take i xs @ drop (Suc i) xs"

definition insert_at :: "nat \<Rightarrow> 'a \<Rightarrow> 'a list \<Rightarrow> 'a list" where
  "insert_at i x xs = take i xs @ x # drop i xs"

definition eraseFromLists :: "nat \<Rightarrow> TransformationMatrix \<Rightarrow> TransformationMatrix" where
  "eraseFromLists i s =
     s\<lparr>m_orderedOps := erase i (m_orderedOps s),
       m_xformops := erase i (m_xformops s),
       m_orderedOpMayaIndices :=
         (if m_orderedOpMayaIndices s \<noteq> [] then erase i (m_orderedOpMayaIndices s)
          else m_orderedOpMayaIndices s)\<rparr>"

text \<open>
  The backwards scan of \<open>removeOp\<close> from index \<open>i\<close>, with the \<open>foundOne\<close> flag. An index
  outside one of the lists it reads or erases from is an out-of-range access, the value
  \<open>None\<close>.
\<close>

fun removeLoop :: "TfToken \<Rightarrow> nat \<Rightarrow> bool \<Rightarrow> TransformationMatrix \<Rightarrow> (bool \<times> TransformationMatrix) option" where
  "removeLoop opName 0 foundOne s =
     (if 0 \<ge> length (m_orderedOps s) then None
      else if opName = GetName (m_orderedOps s ! 0)
      then (if 0 \<ge> length (m_xformops s) then None
            else Some (True, eraseFromLists 0 s))
      else Some (foundOne, s))"
| "removeLoop opName (Suc i) foundOne s =
     (if Suc i \<ge> length (m_orderedOps s) then None
      else if opName = GetName (m_orderedOps s ! Suc i)
      then (if Suc i \<ge> length (m_xformops s)
               \<or> (m_orderedOpMayaIndices s \<noteq> [] \<and> Suc i \<ge> length (m_orderedOpMayaIndices s))
            then None
            else if foundOne then Some (True, eraseFromLists (Suc i) s)
            else removeLoop opName i True (eraseFromLists (Suc i) s))
      else removeLoop opName i foundOne s)"

definition removeOp :: "TfToken \<Rightarrow> Flags \<Rightarrow> TransformationMatrix \<Rightarrow> (MStatus \<times> TransformationMatrix) option" where
  "removeOp opName oldFlag s =
     (if m_orderedOps s = [] then None
      else case removeLoop opName (length (m_orderedOps s) - 1) False s of
             None \<Rightarrow> None
           | Some (foundOne, s1) \<Rightarrow>
               (let s2 = clearFlag oldFlag s1 in
                if \<not> foundOne then Some (kFailure, s2)
                else Some (kSuccess,
                       s2\<lparr>m_prim := SetXformOpOrder (m_prim s2) (m_xformops s2)
                                      (kInheritsTransform \<notin> m_flags s2)\<rparr>)))"

text \<open>\<open>std::lower_bound\<close> on the index table: the first position whose entry is not below the index.\<close>

definition findOpInsertPos :: "TransformationMatrix \<Rightarrow> nat \<Rightarrow> nat" where
  "findOpInsertPos s opIndex = length (takeWhile (\<lambda>i. i < opIndex) (m_orderedOpMayaIndices s))"

text \<open>
  The lambda \<open>addOp\<close> of \<open>insertOp\<close>; the result \<open>-1\<close> reports that the scene description
  refused the operation. An index outside the schema table, or an insertion position beyond the
  end of a list, is an out-of-range access, the value \<open>None\<close>.
\<close>

definition addOp :: "XformOpType \<Rightarrow> Precision \<Rightarrow> TfToken \<Rightarrow> nat \<Rightarrow> bool \<Rightarrow> TransformationMatrix
    \<Rightarrow> (int \<times> TransformationMatrix) option" where
  "addOp opType precision opName opIndex insertAtBeginning s =
     (if opIndex \<ge> length (GetOps MayaStack) then None
      else let opCl = GetOps MayaStack ! opIndex in
        case AddXformOp (m_prim s) opType precision opName (IsInvertedTwin opCl) of
          None \<Rightarrow> Some (- 1, s)
        | Some (op, prim) \<Rightarrow>
            (let insertIndex = (if insertAtBeginning then 0 else findOpInsertPos s opIndex) in
             if insertIndex > length (m_orderedOps s) \<or> insertIndex > length (m_xformops s) then None
             else Some (int insertIndex,
                    s\<lparr>m_prim := prim,
                      m_orderedOps := insert_at insertIndex opCl (m_orderedOps s),
                      m_xformops := insert_at insertIndex op (m_xformops s),
                      m_orderedOpMayaIndices := insert_at insertIndex opIndex (m_orderedOpMayaIndices s)\<rparr>)))"

definition insertOp :: "XformOpType \<Rightarrow> Precision \<Rightarrow> TfToken \<Rightarrow> Flags \<Rightarrow> bool \<Rightarrow> TransformationMatrix
    \<Rightarrow> (MStatus \<times> TransformationMatrix) option" where
  "insertOp opType precision opName newFlag insertAtBeginning s0 =
     (let s = buildOrderedOpMayaIndices s0;
          opPair = FindOpIndexPair MayaStack opName
      in case (if snd opPair \<noteq> NO_INDEX
               then addOp opType precision opName (snd opPair) insertAtBeginning s
               else Some (- 1, s)) of
           None \<Rightarrow> None
         | Some (secondPos, s1) \<Rightarrow>
             if snd opPair \<noteq> NO_INDEX \<and> secondPos = - 1 then Some (kFailure, s1)
             else (case addOp opType precision opName (fst opPair) insertAtBeginning s1 of
                     None \<Rightarrow> None
                   | Some (firstPos, s2) \<Rightarrow>
                       if firstPos = - 1
                       then (if snd opPair \<noteq> NO_INDEX \<and> secondPos \<noteq> - 1
                             then Some (kFailure,
                                    s2\<lparr>m_orderedOps := erase (nat secondPos) (m_orderedOps s2),
                                       m_xformops := erase (nat secondPos) (m_xformops s2),
                                       m_orderedOpMayaIndices :=
                                         erase (nat secondPos) (m_orderedOpMayaIndices s2)\<rparr>)
                             else Some (kFailure, s2))
                       else Some (kSuccess,
                              setFlag newFlag
                                (s2\<lparr>m_prim := SetXformOpOrder (m_prim s2) (m_xformops s2)
                                                (kInheritsTransform \<notin> m_flags s2)\<rparr>))))"

definition insertTranslateOp :: "TransformationMatrix \<Rightarrow> (MStatus \<times> TransformationMatrix) option" where
  "insertTranslateOp = insertOp TypeTranslate PrecisionFloat Tok_translate kPrimHasTranslation True"

definition insertScaleOp :: "TransformationMatrix \<Rightarrow> (MStatus \<times> TransformationMatrix) option" where
  "insertScaleOp = insertOp TypeScale PrecisionFloat Tok_scale kPrimHasScale False"




definition insertRotateOp :: "TransformationMatrix \<Rightarrow> (MStatus \<times> TransformationMatrix) option" where
  "insertRotateOp s =
     insertOp (case order (rotationValue (base s)) of
                 kXYZ \<Rightarrow> TypeRotateXYZ | kXZY \<Rightarrow> TypeRotateXZY | kYXZ \<Rightarrow> TypeRotateYXZ
               | kYZX \<Rightarrow> TypeRotateYZX | kZXY \<Rightarrow> TypeRotateZXY | kZYX \<Rightarrow> TypeRotateZYX)
       PrecisionFloat Tok_rotate kPrimHasRotation False s"


subsection \<open>Flags after an insertion or a removal\<close>

lemma removeLoop_flags: "removeLoop n i f s = Some (b, s') \<Longrightarrow> m_flags s' = m_flags s"
  by (induction n i f s arbitrary: b s' rule: removeLoop.induct)
     (auto simp: eraseFromLists_def split: if_splits)

lemma removeOp_clears: "removeOp n f s = Some (st, s') \<Longrightarrow> f \<notin> m_flags s'"
  unfolding removeOp_def Let_def
  by (auto simp: clearFlag_def split: if_splits option.splits prod.splits dest!: removeLoop_flags)

lemma buildOrderedOpMayaIndices_flags [simp]: "m_flags (buildOrderedOpMayaIndices s) = m_flags s"
  by (simp add: buildOrderedOpMayaIndices_def)

lemma addOp_flags: "addOp t p n i b s = Some (r, s') \<Longrightarrow> m_flags s' = m_flags s"
  unfolding addOp_def Let_def
  by (auto split: if_splits option.splits prod.splits)


lemma insertOp_single:
  assumes "insertOp t p n f b s = Some (st, s')" and "snd (FindOpIndexPair MayaStack n) = NO_INDEX"
  shows "\<exists>r s2. addOp t p n (fst (FindOpIndexPair MayaStack n)) b (buildOrderedOpMayaIndices s) = Some (r, s2)
           \<and> (if r = - 1 then st = kFailure \<and> s' = s2
               else st = kSuccess \<and> s' = setFlag f (s2\<lparr>m_prim := SetXformOpOrder (m_prim s2) (m_xformops s2)
                                                (kInheritsTransform \<notin> m_flags s2)\<rparr>))"
  using assms unfolding insertOp_def Let_def
  by (auto split: option.splits prod.splits if_splits)

lemma insertOp_pair:
  assumes "insertOp t p n f b s = Some (st, s')" and "snd (FindOpIndexPair MayaStack n) \<noteq> NO_INDEX"
  shows "\<exists>r1 s1. addOp t p n (snd (FindOpIndexPair MayaStack n)) b (buildOrderedOpMayaIndices s) = Some (r1, s1)
           \<and> (if r1 = - 1 then st = kFailure \<and> s' = s1
               else \<exists>r2 s2. addOp t p n (fst (FindOpIndexPair MayaStack n)) b s1 = Some (r2, s2)
                 \<and> (if r2 = - 1
                     then st = kFailure
                          \<and> s' = s2\<lparr>m_orderedOps := erase (nat r1) (m_orderedOps s2),
                                    m_xformops := erase (nat r1) (m_xformops s2),
                                    m_orderedOpMayaIndices := erase (nat r1) (m_orderedOpMayaIndices s2)\<rparr>
                     else st = kSuccess
                          \<and> s' = setFlag f (s2\<lparr>m_prim := SetXformOpOrder (m_prim s2) (m_xformops s2)
                                                (kInheritsTransform \<notin> m_flags s2)\<rparr>)))"
  using assms unfolding insertOp_def Let_def
  by (auto split: option.splits prod.splits if_splits)

lemma insertOp_flags:
  assumes "insertOp t p n f b s = Some (st, s')"
  shows "m_flags s' \<subseteq> insert f (m_flags s)"
proof (cases "snd (FindOpIndexPair MayaStack n) = NO_INDEX")
  case True
  from insertOp_single[OF assms True] obtain r s2 where
    a: "addOp t p n (fst (FindOpIndexPair MayaStack n)) b (buildOrderedOpMayaIndices s) = Some (r, s2)"
    and c: "if r = - 1 then st = kFailure \<and> s' = s2
               else st = kSuccess \<and> s' = setFlag f (s2\<lparr>m_prim := SetXformOpOrder (m_prim s2) (m_xformops s2)
                                                (kInheritsTransform \<notin> m_flags s2)\<rparr>)" by blast
  from addOp_flags[OF a] have "m_flags s2 = m_flags s" by simp
  with c show ?thesis by (cases "r = - 1") (auto simp: setFlag_def)
next
  case False
  from insertOp_pair[OF assms False] obtain r1 s1 where
    a: "addOp t p n (snd (FindOpIndexPair MayaStack n)) b (buildOrderedOpMayaIndices s) = Some (r1, s1)"
    and c: "if r1 = - 1 then st = kFailure \<and> s' = s1
               else \<exists>r2 s2. addOp t p n (fst (FindOpIndexPair MayaStack n)) b s1 = Some (r2, s2)
                 \<and> (if r2 = - 1
                     then st = kFailure
                          \<and> s' = s2\<lparr>m_orderedOps := erase (nat r1) (m_orderedOps s2),
                                    m_xformops := erase (nat r1) (m_xformops s2),
                                    m_orderedOpMayaIndices := erase (nat r1) (m_orderedOpMayaIndices s2)\<rparr>
                     else st = kSuccess
                          \<and> s' = setFlag f (s2\<lparr>m_prim := SetXformOpOrder (m_prim s2) (m_xformops s2)
                                                (kInheritsTransform \<notin> m_flags s2)\<rparr>))" by blast
  from addOp_flags[OF a] have f1: "m_flags s1 = m_flags s" by simp
  show ?thesis
  proof (cases "r1 = - 1")
    case True
    with c f1 show ?thesis by auto
  next
    case False
    with c obtain r2 s2 where a2: "addOp t p n (fst (FindOpIndexPair MayaStack n)) b s1 = Some (r2, s2)"
      and c2: "if r2 = - 1
                     then st = kFailure
                          \<and> s' = s2\<lparr>m_orderedOps := erase (nat r1) (m_orderedOps s2),
                                    m_xformops := erase (nat r1) (m_xformops s2),
                                    m_orderedOpMayaIndices := erase (nat r1) (m_orderedOpMayaIndices s2)\<rparr>
                     else st = kSuccess
                          \<and> s' = setFlag f (s2\<lparr>m_prim := SetXformOpOrder (m_prim s2) (m_xformops s2)
                                                (kInheritsTransform \<notin> m_flags s2)\<rparr>)" by auto
    from addOp_flags[OF a2] f1 have "m_flags s2 = m_flags s" by simp
    with c2 show ?thesis by (cases "r2 = - 1") (auto simp: setFlag_def)
  qed
qed

section \<open>Pivot splitting\<close>

text \<open>
  \<open>splitPivotIfNeeded\<close>, \<open>insertRotatePivotOp\<close> and \<open>insertScalePivotOp\<close> call one
  another. They are one function here, with a tag for the callee. The boolean of the result is
  the return value of \<open>splitPivotIfNeeded\<close>, and for the two insertions whether the
  status is success. The recursion ends because \<open>removeOp\<close> clears the flag of the
  combined pivot, so the nested calls leave \<open>splitPivotIfNeeded\<close> at its first check.
\<close>

datatype PivotCall = SplitPivot | InsertRotatePivot | InsertScalePivot

function pivotOp :: "PivotCall \<Rightarrow> TransformationMatrix \<Rightarrow> (bool \<times> TransformationMatrix) option" where
  "pivotOp SplitPivot s =
     (if kPrimHasPivot \<notin> m_flags s then Some (False, s)
      else if scalePivotValue (base s) = rotatePivotValue (base s) then Some (True, s)
      else case removeOp Tok_pivot kPrimHasPivot s of
             None \<Rightarrow> None
           | Some (kFailure, s1) \<Rightarrow> Some (True, s1)
           | Some (kSuccess, s1) \<Rightarrow>
               (case pivotOp InsertRotatePivot s1 of
                  None \<Rightarrow> None
                | Some (False, s2) \<Rightarrow> Some (True, s2)
                | Some (True, s2) \<Rightarrow>
                    (case pivotOp InsertScalePivot s2 of
                       None \<Rightarrow> None
                     | Some (ok, s3) \<Rightarrow> Some (True, s3))))"
| "pivotOp InsertRotatePivot s =
     (case pivotOp SplitPivot s of
        None \<Rightarrow> None
      | Some (True, s1) \<Rightarrow> Some (True, s1)
      | Some (False, s1) \<Rightarrow>
          (case insertOp TypeTranslate PrecisionFloat Tok_rotatePivot kPrimHasRotatePivot False s1 of
             None \<Rightarrow> None
           | Some (st, s2) \<Rightarrow> Some (st = kSuccess, s2)))"
| "pivotOp InsertScalePivot s =
     (case pivotOp SplitPivot s of
        None \<Rightarrow> None
      | Some (True, s1) \<Rightarrow> Some (True, s1)
      | Some (False, s1) \<Rightarrow>
          (case insertOp TypeTranslate PrecisionFloat Tok_scalePivot kPrimHasScalePivot False s1 of
             None \<Rightarrow> None
           | Some (st, s2) \<Rightarrow> Some (st = kSuccess, s2)))"
  by pat_completeness auto

lemma pivotOp_keeps_clear:
  "pivotOp_dom (c, s) \<Longrightarrow> kPrimHasPivot \<notin> m_flags s \<Longrightarrow> pivotOp c s = Some (b, s')
     \<Longrightarrow> kPrimHasPivot \<notin> m_flags s'"
proof (induction c s arbitrary: b s' rule: pivotOp.pinduct)
  case (1 s)
  then show ?case by (simp add: pivotOp.psimps)
next
  case (2 s)
  note ih = 2(2)[OF 2(3)]
  from 2(4) have eq: "(case pivotOp SplitPivot s of
        None \<Rightarrow> None
      | Some (True, s1) \<Rightarrow> Some (True, s1)
      | Some (False, s1) \<Rightarrow>
          (case insertOp TypeTranslate PrecisionFloat Tok_rotatePivot kPrimHasRotatePivot False s1 of
             None \<Rightarrow> None
           | Some (st, s2) \<Rightarrow> Some (st = kSuccess, s2))) = Some (b, s')"
    by (simp add: pivotOp.psimps(2)[OF 2(1)])
  then obtain b1 s1 where sp: "pivotOp SplitPivot s = Some (b1, s1)"
    by (cases "pivotOp SplitPivot s") auto
  from ih[OF sp] have c1: "kPrimHasPivot \<notin> m_flags s1" .
  show ?case
  proof (cases b1)
    case True
    with eq sp have "s' = s1" by simp
    with c1 show ?thesis by simp
  next
    case False
    with eq sp obtain st where
      "insertOp TypeTranslate PrecisionFloat Tok_rotatePivot kPrimHasRotatePivot False s1 = Some (st, s')"
      by (auto split: option.splits)
    from insertOp_flags[OF this] c1 show ?thesis by auto
  qed
next
  case (3 s)
  note ih = 3(2)[OF 3(3)]
  from 3(4) have eq: "(case pivotOp SplitPivot s of
        None \<Rightarrow> None
      | Some (True, s1) \<Rightarrow> Some (True, s1)
      | Some (False, s1) \<Rightarrow>
          (case insertOp TypeTranslate PrecisionFloat Tok_scalePivot kPrimHasScalePivot False s1 of
             None \<Rightarrow> None
           | Some (st, s2) \<Rightarrow> Some (st = kSuccess, s2))) = Some (b, s')"
    by (simp add: pivotOp.psimps(3)[OF 3(1)])
  then obtain b1 s1 where sp: "pivotOp SplitPivot s = Some (b1, s1)"
    by (cases "pivotOp SplitPivot s") auto
  from ih[OF sp] have c1: "kPrimHasPivot \<notin> m_flags s1" .
  show ?case
  proof (cases b1)
    case True
    with eq sp have "s' = s1" by simp
    with c1 show ?thesis by simp
  next
    case False
    with eq sp obtain st where
      "insertOp TypeTranslate PrecisionFloat Tok_scalePivot kPrimHasScalePivot False s1 = Some (st, s')"
      by (auto split: option.splits)
    from insertOp_flags[OF this] c1 show ?thesis by auto
  qed
qed

termination pivotOp
proof (relation "measure (\<lambda>(c, s). (if kPrimHasPivot \<in> m_flags s then 2 else 0) + (if c = SplitPivot then 0 else (1::nat)))", goal_cases)
  case 1
  show ?case by simp
next
  case (2 s x2 x y)
  then have "kPrimHasPivot \<notin> m_flags y" using removeOp_clears[of Tok_pivot kPrimHasPivot s kSuccess y] by simp
  with 2 show ?case by simp
next
  case (3 s x2 x y x2a xa ya)
  then have "kPrimHasPivot \<notin> m_flags y" using removeOp_clears[of Tok_pivot kPrimHasPivot s kSuccess y] by simp
  with 3 have "kPrimHasPivot \<notin> m_flags ya" using pivotOp_keeps_clear[of InsertRotatePivot y True ya] by simp
  with 3 show ?case by simp
next
  case 4 show ?case by simp
next
  case 5 show ?case by simp
qed


definition splitPivotIfNeeded :: "TransformationMatrix \<Rightarrow> (bool \<times> TransformationMatrix) option" where
  "splitPivotIfNeeded s = pivotOp SplitPivot s"

definition statusOf :: "(bool \<times> TransformationMatrix) option \<Rightarrow> (MStatus \<times> TransformationMatrix) option" where
  "statusOf r = (case r of None \<Rightarrow> None | Some (ok, s) \<Rightarrow> Some (if ok then kSuccess else kFailure, s))"


definition insertScalePivotOp :: "TransformationMatrix \<Rightarrow> (MStatus \<times> TransformationMatrix) option" where
  "insertScalePivotOp s = statusOf (pivotOp InsertScalePivot s)"

section \<open>Push to prim\<close>

definition zeroEuler :: MEulerRotation where
  "zeroEuler = \<lparr>ex = 0, ey = 0, ez = 0, order = kXYZ\<rparr>"

text \<open>
  The body of the loop of \<open>pushToPrim\<close> for one operation and its classification. The
  redraw notification to the proxy shape is host state and is left out.
\<close>

definition pushOp :: "Externals \<Rightarrow> UsdGeomXformOp \<Rightarrow> UsdMayaXformOpClassification
    \<Rightarrow> TransformationMatrix \<Rightarrow> TransformationMatrix" where
  "pushOp ext op opCl s =
     (if IsInvertedTwin opCl then s
      else let opName = GetName opCl; b = base s in
      if opName = Tok_translate then
        (let s1 = internal_pushVector (translationValue b) op s in
         s1\<lparr>fromUsd := (fromUsd s1)\<lparr>m_translationFromUsd := translationValue b\<rparr>,
            tweak := (tweak s1)\<lparr>m_translationTweak := MVector 0 0 0\<rparr>\<rparr>)
      else if opName = Tok_pivot then
        (let s1 = internal_pushPoint (rotatePivotValue b) op s in
         s1\<lparr>fromUsd := (fromUsd s1)\<lparr>m_rotatePivotFromUsd := rotatePivotValue b,
                                     m_scalePivotFromUsd := scalePivotValue b\<rparr>,
            tweak := (tweak s1)\<lparr>m_rotatePivotTweak := MVector 0 0 0,
                                 m_scalePivotTweak := MVector 0 0 0\<rparr>\<rparr>)
      else if opName = Tok_rotatePivotTranslate then
        (let s1 = internal_pushPoint (rotatePivotTranslationValue b) op s in
         s1\<lparr>fromUsd := (fromUsd s1)\<lparr>m_rotatePivotTranslationFromUsd := rotatePivotTranslationValue b\<rparr>,
            tweak := (tweak s1)\<lparr>m_rotatePivotTranslationTweak := MVector 0 0 0\<rparr>\<rparr>)
      else if opName = Tok_rotatePivot then
        (let s1 = internal_pushPoint (rotatePivotValue b) op s in
         s1\<lparr>fromUsd := (fromUsd s1)\<lparr>m_rotatePivotFromUsd := rotatePivotValue b\<rparr>,
            tweak := (tweak s1)\<lparr>m_rotatePivotTweak := MVector 0 0 0\<rparr>\<rparr>)
      else if opName = Tok_rotate then
        (let s1 = internal_pushRotation (rotationValue b) op s in
         s1\<lparr>fromUsd := (fromUsd s1)\<lparr>m_rotationFromUsd := rotationValue b\<rparr>,
            tweak := (tweak s1)\<lparr>m_rotationTweak := zeroEuler\<rparr>\<rparr>)
      else if opName = Tok_rotateAxis then
        (let e = asEulerRotation ext (m_rotateOrientationFromUsd (fromUsd s));
             vec = MVector (ex e * radToDeg) (ey e * radToDeg) (ez e * radToDeg)
         in internal_pushVector vec op s)
      else if opName = Tok_scalePivotTranslate then
        (let s1 = internal_pushVector (scalePivotTranslationValue b) op s in
         s1\<lparr>fromUsd := (fromUsd s1)\<lparr>m_scalePivotTranslationFromUsd := scalePivotTranslationValue b\<rparr>,
            tweak := (tweak s1)\<lparr>m_scalePivotTranslationTweak := MVector 0 0 0\<rparr>\<rparr>)
      else if opName = Tok_scalePivot then
        (let s1 = internal_pushPoint (scalePivotValue b) op s in
         s1\<lparr>fromUsd := (fromUsd s1)\<lparr>m_scalePivotFromUsd := scalePivotValue b\<rparr>,
            tweak := (tweak s1)\<lparr>m_scalePivotTweak := MVector 0 0 0\<rparr>\<rparr>)
      else if opName = Tok_shear then
        (let s1 = internal_pushShear (shearValue b) op s in
         s1\<lparr>fromUsd := (fromUsd s1)\<lparr>m_shearFromUsd := shearValue b\<rparr>,
            tweak := (tweak s1)\<lparr>m_shearTweak := MVector 0 0 0\<rparr>\<rparr>)
      else if opName = Tok_scale then
        (let s1 = internal_pushVector (scaleValue b) op s in
         s1\<lparr>fromUsd := (fromUsd s1)\<lparr>m_scaleFromUsd := scaleValue b\<rparr>,
            tweak := (tweak s1)\<lparr>m_scaleTweak := MVector 0 0 0\<rparr>\<rparr>)
      else if opName = Tok_transform then
        (if pushPrimToMatrix s
         then s\<lparr>m_prim := op_Set (m_prim s) op (VtMatrix (asMatrix ext b)) (getTimeCode s)\<rparr>
         else s)
      else s)"

fun pushLoop :: "Externals \<Rightarrow> UsdGeomXformOp list \<Rightarrow> UsdMayaXformOpClassification list
    \<Rightarrow> TransformationMatrix \<Rightarrow> TransformationMatrix option" where
  "pushLoop ext [] cs s = Some s"
| "pushLoop ext (op # ops) [] s = None"
| "pushLoop ext (op # ops) (c # cs) s = pushLoop ext ops cs (pushOp ext op c s)"

definition pushToPrim :: "Externals \<Rightarrow> TransformationMatrix \<Rightarrow> TransformationMatrix option" where
  "pushToPrim ext s =
     (if \<not> IsValid (m_prim s) then Some s
      else pushLoop ext (m_xformops s) (m_orderedOps s) s)"

section \<open>Setting a component\<close>

text \<open>
  Modelled from the spec: the host's base class, which stores the component value it is given
  and reports success (object space, no pivot balancing).
\<close>

definition MPx_set :: "(MPxTransformationMatrix \<Rightarrow> MPxTransformationMatrix) \<Rightarrow> TransformationMatrix
    \<Rightarrow> MStatus \<times> TransformationMatrix" where
  "MPx_set upd s = (kSuccess, s\<lparr>base := upd (base s)\<rparr>)"

text \<open>
  The tail shared by the set operations: with push to prim available, insert the operation when
  the prim has none, the source is not a matrix and the value is not the default; then push.
  Modelled from the spec: the error-check macro around the insertion, declared outside the
  sources at hand: an insertion failure is returned to the caller and the push is skipped
  (section 7).
\<close>

definition thenPush :: "Externals \<Rightarrow> MStatus \<Rightarrow> TransformationMatrix \<Rightarrow> (MStatus \<times> TransformationMatrix) option" where
  "thenPush ext status s = (case pushToPrim ext s of None \<Rightarrow> None | Some s' \<Rightarrow> Some (status, s'))"

definition pushAfterEdit :: "Externals \<Rightarrow> MStatus \<Rightarrow> Flags \<Rightarrow> bool
    \<Rightarrow> (TransformationMatrix \<Rightarrow> (MStatus \<times> TransformationMatrix) option)
    \<Rightarrow> TransformationMatrix \<Rightarrow> (MStatus \<times> TransformationMatrix) option" where
  "pushAfterEdit ext status primHas nonDefault insertFn s =
     (if pushToPrimAvailable s
      then (if primHas \<in> m_flags s then thenPush ext status s
            else if \<not> pushPrimToMatrix s \<and> nonDefault
            then (case insertFn s of
                    None \<Rightarrow> None
                  | Some (kFailure, s1) \<Rightarrow> Some (kFailure, s1)
                  | Some (kSuccess, s1) \<Rightarrow> thenPush ext status s1)
            else thenPush ext status s)
      else Some (status, s))"

definition translateTo :: "Externals \<Rightarrow> MVector \<Rightarrow> TransformationMatrix \<Rightarrow> (MStatus \<times> TransformationMatrix) option" where
  "translateTo ext vector s =
     (if isTranslateLocked (m_transformNode s) then Some (kSuccess, s)
      else case MPx_set (\<lambda>b. b\<lparr>translationValue := vector\<rparr>) s of
        (status, s1) \<Rightarrow>
          (let s2 = (if status = kSuccess
                     then s1\<lparr>tweak := (tweak s1)\<lparr>m_translationTweak :=
                            translationValue (base s1) - m_translationFromUsd (fromUsd s1)\<rparr>\<rparr>
                     else s1)
           in pushAfterEdit ext status kPrimHasTranslation (vector \<noteq> MVector 0 0 0) insertTranslateOp s2))"

definition scaleTo :: "Externals \<Rightarrow> MVector \<Rightarrow> TransformationMatrix \<Rightarrow> (MStatus \<times> TransformationMatrix) option" where
  "scaleTo ext scale s =
     (if isScaleLocked (m_transformNode s) then Some (kSuccess, s)
      else case MPx_set (\<lambda>b. b\<lparr>scaleValue := scale\<rparr>) s of
        (status, s1) \<Rightarrow>
          (let s2 = (if status = kSuccess
                     then s1\<lparr>tweak := (tweak s1)\<lparr>m_scaleTweak :=
                            scaleValue (base s1) - m_scaleFromUsd (fromUsd s1)\<rparr>\<rparr>
                     else s1)
           in pushAfterEdit ext status kPrimHasScale (scale \<noteq> MVector 1 1 1) insertScaleOp s2))"


definition setScalePivot :: "Externals \<Rightarrow> MPoint \<Rightarrow> TransformationMatrix \<Rightarrow> (MStatus \<times> TransformationMatrix) option" where
  "setScalePivot ext sp s =
     (case MPx_set (\<lambda>b. b\<lparr>scalePivotValue := sp\<rparr>) s of
        (status, s1) \<Rightarrow>
          (let s2 = (if status = kSuccess
                     then s1\<lparr>tweak := (tweak s1)\<lparr>m_scalePivotTweak :=
                            scalePivotValue (base s1) - m_scalePivotFromUsd (fromUsd s1)\<rparr>\<rparr>
                     else s1)
           in pushAfterEdit ext status kPrimHasScalePivot (sp \<noteq> MVector 0 0 0) insertScalePivotOp s2))"




definition rotationTweakOf :: "TransformationMatrix \<Rightarrow> MEulerRotation" where
  "rotationTweakOf s = (m_rotationTweak (tweak s))
     \<lparr>ex := ex (rotationValue (base s)) - ex (m_rotationFromUsd (fromUsd s)),
      ey := ey (rotationValue (base s)) - ey (m_rotationFromUsd (fromUsd s)),
      ez := ez (rotationValue (base s)) - ez (m_rotationFromUsd (fromUsd s))\<rparr>"

text \<open>The two overloads of \<open>rotateTo\<close>: by quaternion and by Euler rotation.\<close>

definition rotateTo_q :: "Externals \<Rightarrow> MQuaternion \<Rightarrow> TransformationMatrix \<Rightarrow> (MStatus \<times> TransformationMatrix) option" where
  "rotateTo_q ext q s =
     (if isRotateLocked (m_transformNode s) then Some (kSuccess, s)
      else case MPx_set (\<lambda>b. b\<lparr>rotationValue := asEulerRotation ext q\<rparr>) s of
        (status, s1) \<Rightarrow>
          (let s2 = (if status = kSuccess
                     then s1\<lparr>tweak := (tweak s1)\<lparr>m_rotationTweak := rotationTweakOf s1\<rparr>\<rparr>
                     else s1)
           in pushAfterEdit ext status kPrimHasRotation (q \<noteq> MQuaternion 0 0 0 1) insertRotateOp s2))"

definition rotateTo :: "Externals \<Rightarrow> MEulerRotation \<Rightarrow> TransformationMatrix \<Rightarrow> (MStatus \<times> TransformationMatrix) option" where
  "rotateTo ext e s =
     (if isRotateLocked (m_transformNode s) then Some (kSuccess, s)
      else case MPx_set (\<lambda>b. b\<lparr>rotationValue := e\<rparr>) s of
        (status, s1) \<Rightarrow>
          (let s2 = (if status = kSuccess
                     then s1\<lparr>tweak := (tweak s1)\<lparr>m_rotationTweak := rotationTweakOf s1\<rparr>\<rparr>
                     else s1)
           in pushAfterEdit ext status kPrimHasRotation (e \<noteq> zeroEuler) insertRotateOp s2))"



text \<open>The part of \<open>initialiseToPrim\<close> that follows the schema matching, named for the proofs.\<close>

definition matched :: "Externals \<Rightarrow> bool \<Rightarrow> TransformationMatrix \<Rightarrow> TransformationMatrix option" where
  "matched ext r s3 =
     (if m_flags s3 \<inter> kAnyKnownSchema \<noteq> {}
      then (case initialiseLoop ext r (m_xformops s3) (m_orderedOps s3) s3 of
              None \<Rightarrow> None
            | Some s4 \<Rightarrow> Some (animationLock s4))
      else Some (animationLock s3))"

section \<open>One push step as an update of one attribute\<close>

text \<open>
  Named for the proofs about \<open>pushToPrim\<close>: the change a codec write makes to the attribute
  of its operation, and the change one step of the loop makes to the from-source values and to the
  tweaks. \<open>pushOp\<close> is shown below to be the composition of the three.
\<close>

definition updAttr :: "AttrName \<Rightarrow> (UsdAttribute \<Rightarrow> UsdAttribute) \<Rightarrow> UsdPrim \<Rightarrow> UsdPrim" where
  "updAttr k w prim = (case attrs prim k of None \<Rightarrow> prim | Some a \<Rightarrow> prim\<lparr>attrs := (attrs prim)(k \<mapsto> w a)\<rparr>)"

definition storeIfChanged :: "VtValue \<Rightarrow> UsdTimeCode \<Rightarrow> UsdTimeCode \<Rightarrow> UsdAttribute \<Rightarrow> UsdAttribute" where
  "storeIfChanged v readTime writeTime a =
     (if Some v \<noteq> valueAt a readTime \<and> valueFits (typeName a) v then attr_Set v writeTime a else a)"

definition writeVector :: "MVector \<Rightarrow> UsdTimeCode \<Rightarrow> UsdAttribute \<Rightarrow> UsdAttribute" where
  "writeVector v tc a =
     (if typeName a = kVec3d \<or> typeName a = kVec3f \<or> typeName a = kVec3h
      then storeIfChanged (VtVec3 v) tc tc a
      else if typeName a = kVec3i
      then storeIfChanged (VtVec3i (trunc_int (vx v)) (trunc_int (vy v)) (trunc_int (vz v))) tc tc a
      else a)"

definition writeShear :: "MVector \<Rightarrow> UsdTimeCode \<Rightarrow> UsdAttribute \<Rightarrow> UsdAttribute" where
  "writeShear v tc a =
     (if typeName a = kMatrix4d then storeIfChanged (VtMatrix (shearMatrix v)) tc tc a else a)"

definition writeDouble :: "real \<Rightarrow> UsdTimeCode \<Rightarrow> UsdAttribute \<Rightarrow> UsdAttribute" where
  "writeDouble v tc a =
     (if typeName a = kHalf \<or> typeName a = kFloat \<or> typeName a = kDouble
      then storeIfChanged (VtReal v) DefaultTime tc a
      else if typeName a = kInt then storeIfChanged (VtInt (trunc_int v)) DefaultTime tc a
      else a)"

definition writeRotation :: "MEulerRotation \<Rightarrow> XformOpType \<Rightarrow> UsdTimeCode \<Rightarrow> UsdAttribute \<Rightarrow> UsdAttribute" where
  "writeRotation v ty tc =
     (if ty = TypeRotateX then writeDouble (ex v * radToDeg) tc
      else if ty = TypeRotateY then writeDouble (ey v * radToDeg) tc
      else if ty = TypeRotateZ then writeDouble (ez v * radToDeg) tc
      else if ty \<in> {TypeRotateXYZ, TypeRotateXZY, TypeRotateYXZ, TypeRotateYZX, TypeRotateZYX, TypeRotateZXY}
      then writeVector (MVector (ex v * radToDeg) (ey v * radToDeg) (ez v * radToDeg)) tc
      else (\<lambda>a. a))"

definition attrWrite :: "Externals \<Rightarrow> UsdGeomXformOp \<Rightarrow> UsdMayaXformOpClassification
    \<Rightarrow> TransformationMatrix \<Rightarrow> UsdAttribute \<Rightarrow> UsdAttribute" where
  "attrWrite ext op opCl s =
     (if IsInvertedTwin opCl then (\<lambda>a. a)
      else let opName = GetName opCl; b = base s; tc = getTimeCode s in
      if opName = Tok_translate then writeVector (translationValue b) tc
      else if opName = Tok_pivot then writeVector (rotatePivotValue b) tc
      else if opName = Tok_rotatePivotTranslate then writeVector (rotatePivotTranslationValue b) tc
      else if opName = Tok_rotatePivot then writeVector (rotatePivotValue b) tc
      else if opName = Tok_rotate then writeRotation (rotationValue b) (GetOpType op) tc
      else if opName = Tok_rotateAxis then
        (let e = asEulerRotation ext (m_rotateOrientationFromUsd (fromUsd s))
         in writeVector (MVector (ex e * radToDeg) (ey e * radToDeg) (ez e * radToDeg)) tc)
      else if opName = Tok_scalePivotTranslate then writeVector (scalePivotTranslationValue b) tc
      else if opName = Tok_scalePivot then writeVector (scalePivotValue b) tc
      else if opName = Tok_shear then writeShear (shearValue b) tc
      else if opName = Tok_scale then writeVector (scaleValue b) tc
      else if opName = Tok_transform \<and> pushPrimToMatrix s then
        (\<lambda>a. if valueFits (typeName a) (VtMatrix (asMatrix ext b))
             then attr_Set (VtMatrix (asMatrix ext b)) tc a else a)
      else (\<lambda>a. a))"

definition fromAfter :: "UsdMayaXformOpClassification \<Rightarrow> MPxTransformationMatrix
    \<Rightarrow> FromUsdValues \<Rightarrow> FromUsdValues" where
  "fromAfter opCl b f =
     (if IsInvertedTwin opCl then f
      else let opName = GetName opCl in
      if opName = Tok_translate then f\<lparr>m_translationFromUsd := translationValue b\<rparr>
      else if opName = Tok_pivot
      then f\<lparr>m_rotatePivotFromUsd := rotatePivotValue b, m_scalePivotFromUsd := scalePivotValue b\<rparr>
      else if opName = Tok_rotatePivotTranslate
      then f\<lparr>m_rotatePivotTranslationFromUsd := rotatePivotTranslationValue b\<rparr>
      else if opName = Tok_rotatePivot then f\<lparr>m_rotatePivotFromUsd := rotatePivotValue b\<rparr>
      else if opName = Tok_rotate then f\<lparr>m_rotationFromUsd := rotationValue b\<rparr>
      else if opName = Tok_rotateAxis then f
      else if opName = Tok_scalePivotTranslate
      then f\<lparr>m_scalePivotTranslationFromUsd := scalePivotTranslationValue b\<rparr>
      else if opName = Tok_scalePivot then f\<lparr>m_scalePivotFromUsd := scalePivotValue b\<rparr>
      else if opName = Tok_shear then f\<lparr>m_shearFromUsd := shearValue b\<rparr>
      else if opName = Tok_scale then f\<lparr>m_scaleFromUsd := scaleValue b\<rparr>
      else f)"

definition tweakAfter :: "UsdMayaXformOpClassification \<Rightarrow> TweakValues \<Rightarrow> TweakValues" where
  "tweakAfter opCl t =
     (if IsInvertedTwin opCl then t
      else let opName = GetName opCl in
      if opName = Tok_translate then t\<lparr>m_translationTweak := MVector 0 0 0\<rparr>
      else if opName = Tok_pivot
      then t\<lparr>m_rotatePivotTweak := MVector 0 0 0, m_scalePivotTweak := MVector 0 0 0\<rparr>
      else if opName = Tok_rotatePivotTranslate
      then t\<lparr>m_rotatePivotTranslationTweak := MVector 0 0 0\<rparr>
      else if opName = Tok_rotatePivot then t\<lparr>m_rotatePivotTweak := MVector 0 0 0\<rparr>
      else if opName = Tok_rotate then t\<lparr>m_rotationTweak := zeroEuler\<rparr>
      else if opName = Tok_rotateAxis then t
      else if opName = Tok_scalePivotTranslate
      then t\<lparr>m_scalePivotTranslationTweak := MVector 0 0 0\<rparr>
      else if opName = Tok_scalePivot then t\<lparr>m_scalePivotTweak := MVector 0 0 0\<rparr>
      else if opName = Tok_shear then t\<lparr>m_shearTweak := MVector 0 0 0\<rparr>
      else if opName = Tok_scale then t\<lparr>m_scaleTweak := MVector 0 0 0\<rparr>
      else t)"

definition writers :: "UsdGeomXformOp list \<Rightarrow> UsdMayaXformOpClassification list \<Rightarrow> AttrName list" where
  "writers ops cs = map (\<lambda>p. opAttr (fst p)) (filter (\<lambda>p. \<not> IsInvertedTwin (snd p)) (zip ops cs))"

section \<open>The older copy of the engine\<close>

text \<open>
  The source file holds a second, older copy of the class after the first. Its codec reads and
  the loop bodies of \<open>initialiseToPrim\<close> and \<open>pushToPrim\<close> are those of the newer copy
  word for word; the parts that differ, and that the properties below speak of, are embedded
  here under the source's names with the suffix \<open>_old\<close>. The codec writes of the older copy
  store without comparing.
\<close>

definition pushVector_old :: "MVector \<Rightarrow> UsdPrim \<Rightarrow> UsdGeomXformOp \<Rightarrow> UsdTimeCode \<Rightarrow> bool \<times> UsdPrim" where
  "pushVector_old result prim op timeCode =
     (case GetTypeName prim op of
        kVec3d \<Rightarrow> (True, op_Set prim op (VtVec3 result) timeCode)
      | kVec3f \<Rightarrow> (True, op_Set prim op (VtVec3 result) timeCode)
      | kVec3h \<Rightarrow> (True, op_Set prim op (VtVec3 result) timeCode)
      | kVec3i \<Rightarrow> (True, op_Set prim op
                     (VtVec3i (trunc_int (vx result)) (trunc_int (vy result)) (trunc_int (vz result)))
                     timeCode)
      | _ \<Rightarrow> (False, prim))"

definition pushShear_old :: "MVector \<Rightarrow> UsdPrim \<Rightarrow> UsdGeomXformOp \<Rightarrow> UsdTimeCode \<Rightarrow> bool \<times> UsdPrim" where
  "pushShear_old result prim op timeCode =
     (case GetTypeName prim op of
        kMatrix4d \<Rightarrow> (False, op_Set prim op (VtMatrix (shearMatrix result)) timeCode)
      | _ \<Rightarrow> (False, prim))"

definition pushPoint_old :: "MPoint \<Rightarrow> UsdPrim \<Rightarrow> UsdGeomXformOp \<Rightarrow> UsdTimeCode \<Rightarrow> bool \<times> UsdPrim" where
  "pushPoint_old result prim op timeCode =
     (case GetTypeName prim op of
        kVec3d \<Rightarrow> (True, op_Set prim op (VtVec3 result) timeCode)
      | kVec3f \<Rightarrow> (True, op_Set prim op (VtVec3 result) timeCode)
      | kVec3h \<Rightarrow> (True, op_Set prim op (VtVec3 result) timeCode)
      | kVec3i \<Rightarrow> (True, op_Set prim op
                     (VtVec3i (trunc_int (vx result)) (trunc_int (vy result)) (trunc_int (vz result)))
                     timeCode)
      | _ \<Rightarrow> (False, prim))"

definition pushDouble_old :: "real \<Rightarrow> UsdPrim \<Rightarrow> UsdGeomXformOp \<Rightarrow> UsdTimeCode \<Rightarrow> UsdPrim" where
  "pushDouble_old v prim op timeCode =
     (case GetTypeName prim op of
        kHalf \<Rightarrow> op_Set prim op (VtReal v) timeCode
      | kFloat \<Rightarrow> op_Set prim op (VtReal v) timeCode
      | kDouble \<Rightarrow> op_Set prim op (VtReal v) timeCode
      | kInt \<Rightarrow> op_Set prim op (VtInt (trunc_int v)) timeCode
      | _ \<Rightarrow> prim)"

definition pushRotationVec_old :: "MEulerRotation \<Rightarrow> UsdPrim \<Rightarrow> UsdGeomXformOp \<Rightarrow> UsdTimeCode \<Rightarrow> bool \<times> UsdPrim" where
  "pushRotationVec_old v prim op timeCode =
     pushVector_old (MVector (ex v * radToDeg) (ey v * radToDeg) (ez v * radToDeg)) prim op timeCode"

definition pushRotation_old :: "MEulerRotation \<Rightarrow> UsdPrim \<Rightarrow> UsdGeomXformOp \<Rightarrow> UsdTimeCode \<Rightarrow> bool \<times> UsdPrim" where
  "pushRotation_old v prim op timeCode =
     (case GetOpType op of
        TypeRotateX \<Rightarrow> (True, pushDouble_old (ex v * radToDeg) prim op timeCode)
      | TypeRotateY \<Rightarrow> (True, pushDouble_old (ey v * radToDeg) prim op timeCode)
      | TypeRotateZ \<Rightarrow> (True, pushDouble_old (ez v * radToDeg) prim op timeCode)
      | TypeRotateXYZ \<Rightarrow> pushRotationVec_old v prim op timeCode
      | TypeRotateXZY \<Rightarrow> pushRotationVec_old v prim op timeCode
      | TypeRotateYXZ \<Rightarrow> pushRotationVec_old v prim op timeCode
      | TypeRotateYZX \<Rightarrow> pushRotationVec_old v prim op timeCode
      | TypeRotateZYX \<Rightarrow> pushRotationVec_old v prim op timeCode
      | TypeRotateZXY \<Rightarrow> pushRotationVec_old v prim op timeCode
      | _ \<Rightarrow> (False, prim))"

definition internal_pushVector_old :: "MVector \<Rightarrow> UsdGeomXformOp \<Rightarrow> TransformationMatrix \<Rightarrow> TransformationMatrix" where
  "internal_pushVector_old v op s = s\<lparr>m_prim := snd (pushVector_old v (m_prim s) op (getTimeCode s))\<rparr>"

definition internal_pushPoint_old :: "MPoint \<Rightarrow> UsdGeomXformOp \<Rightarrow> TransformationMatrix \<Rightarrow> TransformationMatrix" where
  "internal_pushPoint_old v op s = s\<lparr>m_prim := snd (pushPoint_old v (m_prim s) op (getTimeCode s))\<rparr>"

definition internal_pushShear_old :: "MVector \<Rightarrow> UsdGeomXformOp \<Rightarrow> TransformationMatrix \<Rightarrow> TransformationMatrix" where
  "internal_pushShear_old v op s = s\<lparr>m_prim := snd (pushShear_old v (m_prim s) op (getTimeCode s))\<rparr>"

definition internal_pushRotation_old :: "MEulerRotation \<Rightarrow> UsdGeomXformOp \<Rightarrow> TransformationMatrix \<Rightarrow> TransformationMatrix" where
  "internal_pushRotation_old v op s = s\<lparr>m_prim := snd (pushRotation_old v (m_prim s) op (getTimeCode s))\<rparr>"


text \<open>The body of the loop of the older \<open>pushToPrim\<close>, with the older codec writes.\<close>

definition pushOp_old :: "Externals \<Rightarrow> UsdGeomXformOp \<Rightarrow> UsdMayaXformOpClassification
    \<Rightarrow> TransformationMatrix \<Rightarrow> TransformationMatrix" where
  "pushOp_old ext op opCl s =
     (if IsInvertedTwin opCl then s
      else let opName = GetName opCl; b = base s in
      if opName = Tok_translate then
        (let s1 = internal_pushVector_old (translationValue b) op s in
         s1\<lparr>fromUsd := (fromUsd s1)\<lparr>m_translationFromUsd := translationValue b\<rparr>,
            tweak := (tweak s1)\<lparr>m_translationTweak := MVector 0 0 0\<rparr>\<rparr>)
      else if opName = Tok_pivot then
        (let s1 = internal_pushPoint_old (rotatePivotValue b) op s in
         s1\<lparr>fromUsd := (fromUsd s1)\<lparr>m_rotatePivotFromUsd := rotatePivotValue b,
                                     m_scalePivotFromUsd := scalePivotValue b\<rparr>,
            tweak := (tweak s1)\<lparr>m_rotatePivotTweak := MVector 0 0 0,
                                 m_scalePivotTweak := MVector 0 0 0\<rparr>\<rparr>)
      else if opName = Tok_rotatePivotTranslate then
        (let s1 = internal_pushPoint_old (rotatePivotTranslationValue b) op s in
         s1\<lparr>fromUsd := (fromUsd s1)\<lparr>m_rotatePivotTranslationFromUsd := rotatePivotTranslationValue b\<rparr>,
            tweak := (tweak s1)\<lparr>m_rotatePivotTranslationTweak := MVector 0 0 0\<rparr>\<rparr>)
      else if opName = Tok_rotatePivot then
        (let s1 = internal_pushPoint_old (rotatePivotValue b) op s in
         s1\<lparr>fromUsd := (fromUsd s1)\<lparr>m_rotatePivotFromUsd := rotatePivotValue b\<rparr>,
            tweak := (tweak s1)\<lparr>m_rotatePivotTweak := MVector 0 0 0\<rparr>\<rparr>)
      else if opName = Tok_rotate then
        (let s1 = internal_pushRotation_old (rotationValue b) op s in
         s1\<lparr>fromUsd := (fromUsd s1)\<lparr>m_rotationFromUsd := rotationValue b\<rparr>,
            tweak := (tweak s1)\<lparr>m_rotationTweak := zeroEuler\<rparr>\<rparr>)
      else if opName = Tok_rotateAxis then
        (let e = asEulerRotation ext (m_rotateOrientationFromUsd (fromUsd s));
             vec = MVector (ex e * radToDeg) (ey e * radToDeg) (ez e * radToDeg)
         in internal_pushVector_old vec op s)
      else if opName = Tok_scalePivotTranslate then
        (let s1 = internal_pushVector_old (scalePivotTranslationValue b) op s in
         s1\<lparr>fromUsd := (fromUsd s1)\<lparr>m_scalePivotTranslationFromUsd := scalePivotTranslationValue b\<rparr>,
            tweak := (tweak s1)\<lparr>m_scalePivotTranslationTweak := MVector 0 0 0\<rparr>\<rparr>)
      else if opName = Tok_scalePivot then
        (let s1 = internal_pushPoint_old (scalePivotValue b) op s in
         s1\<lparr>fromUsd := (fromUsd s1)\<lparr>m_scalePivotFromUsd := scalePivotValue b\<rparr>,
            tweak := (tweak s1)\<lparr>m_scalePivotTweak := MVector 0 0 0\<rparr>\<rparr>)
      else if opName = Tok_shear then
        (let s1 = internal_pushShear_old (shearValue b) op s in
         s1\<lparr>fromUsd := (fromUsd s1)\<lparr>m_shearFromUsd := shearValue b\<rparr>,
            tweak := (tweak s1)\<lparr>m_shearTweak := MVector 0 0 0\<rparr>\<rparr>)
      else if opName = Tok_scale then
        (let s1 = internal_pushVector_old (scaleValue b) op s in
         s1\<lparr>fromUsd := (fromUsd s1)\<lparr>m_scaleFromUsd := scaleValue b\<rparr>,
            tweak := (tweak s1)\<lparr>m_scaleTweak := MVector 0 0 0\<rparr>\<rparr>)
      else if opName = Tok_transform then
        (if pushPrimToMatrix s
         then s\<lparr>m_prim := op_Set (m_prim s) op (VtMatrix (asMatrix ext b)) (getTimeCode s)\<rparr>
         else s)
      else s)"

fun pushLoop_old :: "Externals \<Rightarrow> UsdGeomXformOp list \<Rightarrow> UsdMayaXformOpClassification list
    \<Rightarrow> TransformationMatrix \<Rightarrow> TransformationMatrix option" where
  "pushLoop_old ext [] cs s = Some s"
| "pushLoop_old ext (op # ops) [] s = None"
| "pushLoop_old ext (op # ops) (c # cs) s = pushLoop_old ext ops cs (pushOp_old ext op c s)"

definition pushToPrim_old :: "Externals \<Rightarrow> TransformationMatrix \<Rightarrow> TransformationMatrix option" where
  "pushToPrim_old ext s =
     (if \<not> IsValid (m_prim s) then Some s
      else pushLoop_old ext (m_xformops s) (m_orderedOps s) s)"

text \<open>
  The older \<open>insertOp\<close> has no index table. Its lambda \<open>findOpInsertPos\<close> returns the first
  position of the classification list whose entry equals an entry of the full stack at or after
  the given index, the end of the list when there is none. Its lambda \<open>addOp\<close> returns the
  position it inserted at, and the end of the classification list when the scene description
  refused the operation; positions are list indices here, the end being the length.
\<close>

definition findOpInsertPos_old :: "TransformationMatrix \<Rightarrow> nat \<Rightarrow> nat" where
  "findOpInsertPos_old s opIndex =
     length (takeWhile (\<lambda>c. c \<notin> set (drop opIndex (GetOps MayaStack))) (m_orderedOps s))"

definition addOp_old :: "XformOpType \<Rightarrow> Precision \<Rightarrow> TfToken \<Rightarrow> nat \<Rightarrow> bool \<Rightarrow> TransformationMatrix
    \<Rightarrow> (nat \<times> TransformationMatrix) option" where
  "addOp_old opType precision opName opIndex insertAtBeginning s =
     (if opIndex \<ge> length (GetOps MayaStack) then None
      else let opCl = GetOps MayaStack ! opIndex in
        case AddXformOp (m_prim s) opType precision opName (IsInvertedTwin opCl) of
          None \<Rightarrow> Some (length (m_orderedOps s), s)
        | Some (op, prim) \<Rightarrow>
            (let posInOps = (if insertAtBeginning then 0 else findOpInsertPos_old s opIndex) in
             if posInOps > length (m_xformops s) then None
             else Some (posInOps,
                    s\<lparr>m_prim := prim,
                      m_xformops := insert_at posInOps op (m_xformops s),
                      m_orderedOps := insert_at posInOps opCl (m_orderedOps s)\<rparr>)))"

definition insertOp_old :: "XformOpType \<Rightarrow> Precision \<Rightarrow> TfToken \<Rightarrow> Flags \<Rightarrow> bool \<Rightarrow> TransformationMatrix
    \<Rightarrow> (MStatus \<times> TransformationMatrix) option" where
  "insertOp_old opType precision opName newFlag insertAtBeginning s =
     (let opPair = FindOpIndexPair MayaStack opName
      in case (if snd opPair \<noteq> NO_INDEX
               then addOp_old opType precision opName (snd opPair) insertAtBeginning s
               else Some (length (m_orderedOps s), s)) of
           None \<Rightarrow> None
         | Some (secondPos, s1) \<Rightarrow>
             if snd opPair \<noteq> NO_INDEX \<and> secondPos = length (m_orderedOps s1) then Some (kFailure, s1)
             else (case addOp_old opType precision opName (fst opPair) insertAtBeginning s1 of
                     None \<Rightarrow> None
                   | Some (firstPos, s2) \<Rightarrow>
                       if firstPos = length (m_orderedOps s2)
                       then (if snd opPair \<noteq> NO_INDEX \<and> secondPos \<noteq> length (m_orderedOps s2)
                             then Some (kFailure,
                                    s2\<lparr>m_orderedOps := erase secondPos (m_orderedOps s2)\<rparr>)
                             else Some (kFailure, s2))
                       else Some (kSuccess,
                              setFlag newFlag
                                (s2\<lparr>m_prim := SetXformOpOrder (m_prim s2) (m_xformops s2)
                                                (kInheritsTransform \<notin> m_flags s2)\<rparr>))))"

definition insertShearOp_old :: "TransformationMatrix \<Rightarrow> (MStatus \<times> TransformationMatrix) option" where
  "insertShearOp_old = insertOp_old TypeTransform PrecisionDouble Tok_shear kPrimHasShear False"

text \<open>
  The older \<open>shearTo\<close>: the difference between the host shear and the from-source shear is
  assigned to the tweak of the scale. It tests that push to prim is enabled, not that the prim is
  valid, and inserts the operation whatever the value.
\<close>

definition thenPush_old :: "Externals \<Rightarrow> MStatus \<Rightarrow> TransformationMatrix \<Rightarrow> (MStatus \<times> TransformationMatrix) option" where
  "thenPush_old ext status s = (case pushToPrim_old ext s of None \<Rightarrow> None | Some s' \<Rightarrow> Some (status, s'))"

definition shearTo_old :: "Externals \<Rightarrow> MVector \<Rightarrow> TransformationMatrix \<Rightarrow> (MStatus \<times> TransformationMatrix) option" where
  "shearTo_old ext shear s =
     (case MPx_set (\<lambda>b. b\<lparr>shearValue := shear\<rparr>) s of
        (status, s1) \<Rightarrow>
          (let s2 = (if status = kSuccess
                     then s1\<lparr>tweak := (tweak s1)\<lparr>m_scaleTweak :=
                            shearValue (base s1) - m_shearFromUsd (fromUsd s1)\<rparr>\<rparr>
                     else s1)
           in if pushToPrimEnabled s2
              then (if kPrimHasShear \<in> m_flags s2 then thenPush_old ext status s2
                    else if \<not> pushPrimToMatrix s2
                    then (case insertShearOp_old s2 of
                            None \<Rightarrow> None
                          | Some (kFailure, s3) \<Rightarrow> Some (kFailure, s3)
                          | Some (kSuccess, s3) \<Rightarrow> thenPush_old ext status s3)
                    else thenPush_old ext status s2)
              else Some (status, s2)))"

text \<open>
  The older \<open>initialiseToPrim\<close>. It asks the plugin once for the first matching substack among
  the full stack, the common stack and the matrix stack; that function is outside the repository
  and is the parameter \<open>FirstMatchingSubstack\<close> here. Any match is marked as coming from the
  host's schema, and an empty answer sets no schema flag.
\<close>

definition initialiseToPrim_old :: "Externals \<Rightarrow> (UsdGeomXformOp list \<Rightarrow> UsdMayaXformOpClassification list)
    \<Rightarrow> bool \<Rightarrow> TransformationMatrix \<Rightarrow> TransformationMatrix option" where
  "initialiseToPrim_old ext FirstMatchingSubstack readFromPrim s =
     (if \<not> IsValid (m_prim s) then Some s
      else
        let s1 = s\<lparr>m_xformops := xformOpOrder (m_prim s), m_orderedOps := []\<rparr>;
            s2 = (if \<not> resetsXformStack (m_prim s) then setFlag kInheritsTransform s1 else s1);
            s3 = s2\<lparr>m_orderedOps := FirstMatchingSubstack (m_xformops s2)\<rparr>
        in if m_orderedOps s3 \<noteq> []
           then (case initialiseLoop ext readFromPrim (m_xformops s3) (m_orderedOps s3)
                        (setFlag kFromMayaSchema s3) of
                   None \<Rightarrow> None
                 | Some s4 \<Rightarrow> Some (animationLock s4))
           else Some (animationLock s3))"

section \<open>Scenarios\<close>

text \<open>The scenario of the tweak conservation property: set the translation, then advance the time.\<close>

definition translateThenAdvance :: "Externals \<Rightarrow> MVector \<Rightarrow> UsdTimeCode \<Rightarrow> TransformationMatrix
    \<Rightarrow> TransformationMatrix option" where
  "translateThenAdvance ext v T s =
     (case translateTo ext v s of None \<Rightarrow> None | Some (status, s1) \<Rightarrow> updateToTime ext T s1)"

definition hostTranslation :: "TransformationMatrix option \<Rightarrow> MVector option" where
  "hostTranslation r = map_option (\<lambda>s. translationValue (base s)) r"


section \<open>Concrete states for the witnesses\<close>

definition newAttr :: "UsdDataType \<Rightarrow> UsdAttribute" where
  "newAttr ty = \<lparr>typeName = ty, valueAt = (\<lambda>t. None), timeSamples = []\<rparr>"

definition identityBase :: MPxTransformationMatrix where
  "identityBase = \<lparr>scaleValue = MVector 1 1 1, rotationValue = zeroEuler,
     translationValue = MVector 0 0 0, shearValue = MVector 0 0 0,
     scalePivotValue = MVector 0 0 0, scalePivotTranslationValue = MVector 0 0 0,
     rotatePivotValue = MVector 0 0 0, rotatePivotTranslationValue = MVector 0 0 0,
     rotateOrientationValue = MQuaternion 0 0 0 1\<rparr>"

definition zeroTweak :: TweakValues where
  "zeroTweak = \<lparr>m_scaleTweak = MVector 0 0 0, m_rotationTweak = zeroEuler,
     m_translationTweak = MVector 0 0 0, m_shearTweak = MVector 0 0 0,
     m_scalePivotTweak = MVector 0 0 0, m_scalePivotTranslationTweak = MVector 0 0 0,
     m_rotatePivotTweak = MVector 0 0 0, m_rotatePivotTranslationTweak = MVector 0 0 0,
     m_rotateOrientationTweak = MQuaternion 0 0 0 1\<rparr>"

definition identityFromUsd :: FromUsdValues where
  "identityFromUsd = \<lparr>m_scaleFromUsd = MVector 1 1 1, m_rotationFromUsd = zeroEuler,
     m_translationFromUsd = MVector 0 0 0, m_shearFromUsd = MVector 0 0 0,
     m_scalePivotFromUsd = MVector 0 0 0, m_scalePivotTranslationFromUsd = MVector 0 0 0,
     m_rotatePivotFromUsd = MVector 0 0 0, m_rotatePivotTranslationFromUsd = MVector 0 0 0,
     m_rotateOrientationFromUsd = MQuaternion 0 0 0 1\<rparr>"

definition unlocked :: TransformNode where
  "unlocked = \<lparr>isTranslateLocked = False, isRotateLocked = False, isScaleLocked = False\<rparr>"

definition emptyPrim :: UsdPrim where
  "emptyPrim = \<lparr>IsValid = True, attrs = (\<lambda>n. None), xformOpOrder = [], resetsXformStack = False\<rparr>"

text \<open>A freshly bound entity over a prim without operations: the state after the constructor.\<close>

definition freshState :: TransformationMatrix where
  "freshState = \<lparr>base = identityBase, m_prim = emptyPrim, m_xformops = [], m_orderedOps = [],
     m_orderedOpMayaIndices = [], m_time = DefaultTime, tweak = zeroTweak, fromUsd = identityFromUsd,
     m_flags = {kInheritsTransform, kFromMayaSchema}, m_transformNode = unlocked\<rparr>"

text \<open>Stand-ins for the host's math library, used only to run the model on concrete states.\<close>

definition plainExt :: Externals where
  "plainExt = \<lparr>asQuaternion = (\<lambda>e. MQuaternion 0 0 0 1),
     asEulerRotation = (\<lambda>q. zeroEuler),
     decomposeMatrix = (\<lambda>m b. b),
     asMatrix = (\<lambda>b. identityMatrix),
     matrixToMTransformationMatrix = (\<lambda>m. (zeroEuler, MVector 0 0 0, MVector 1 1 1, MVector 0 0 0)),
     uninitialisedMatrix = identityMatrix,
     MatchingSubstack = (\<lambda>stack ops. [])\<rparr>"

definition shearOp :: UsdGeomXformOp where
  "shearOp = \<lparr>opAttr = (TypeTransform, Tok_shear), isInverseOp = False\<rparr>"

definition shearPrim :: UsdPrim where
  "shearPrim = \<lparr>IsValid = True,
     attrs = (\<lambda>n. if n = (TypeTransform, Tok_shear) then Some (newAttr kMatrix4d) else None),
     xformOpOrder = [shearOp], resetsXformStack = False\<rparr>"

definition lockedState :: TransformationMatrix where
  "lockedState = freshState\<lparr>m_transformNode :=
     \<lparr>isTranslateLocked = True, isRotateLocked = True, isScaleLocked = True\<rparr>\<rparr>"

text \<open>An entity over a prim with one animated translate operation, read at the current time.\<close>

definition translateOp :: UsdGeomXformOp where
  "translateOp = \<lparr>opAttr = (TypeTranslate, Tok_translate), isInverseOp = False\<rparr>"

definition animatedPrim :: UsdPrim where
  "animatedPrim = \<lparr>IsValid = True,
     attrs = (\<lambda>n. if n = (TypeTranslate, Tok_translate)
                  then Some \<lparr>typeName = kVec3d,
                              valueAt = (\<lambda>t. if t = TimeCode 5 then Some (VtVec3 (MVector 10 0 0))
                                             else Some (VtVec3 (MVector 0 0 0))),
                              timeSamples = [1, 5]\<rparr>
                  else None),
     xformOpOrder = [translateOp], resetsXformStack = False\<rparr>"

definition animatedState :: TransformationMatrix where
  "animatedState = freshState\<lparr>m_prim := animatedPrim, m_xformops := [translateOp],
     m_orderedOps := [opClass Tok_translate TypeTranslate False],
     m_flags := {kInheritsTransform, kFromMayaSchema, kPrimHasTranslation, kAnimatedTranslation,
                 kReadAnimatedValues}\<rparr>"

text \<open>A matcher that recognises the single translate operation against the full stack, and an
  entity about to be bound to the animated prim, with push to prim enabled.\<close>

definition matcherExt :: Externals where
  "matcherExt = plainExt\<lparr>MatchingSubstack :=
     (\<lambda>stack ops. if stack = MayaStack \<and> ops = [translateOp]
                   then [opClass Tok_translate TypeTranslate False] else [])\<rparr>"

definition unboundState :: TransformationMatrix where
  "unboundState = freshState\<lparr>m_prim := animatedPrim, m_flags := {kPushToPrimEnabled}\<rparr>"

text \<open>The animated entity with the flag of a combined pivot set, though its stack has no pivot.\<close>

definition staleFlagState :: TransformationMatrix where
  "staleFlagState = animatedState\<lparr>m_flags := insert kPrimHasPivot (m_flags animatedState)\<rparr>"

text \<open>An entity over a prim whose stack is one combined pivot with its inverted twin, matched
  against the single-pivot schema, with push to prim enabled; and the operations a split creates.\<close>

definition pivotOp_fwd :: UsdGeomXformOp where
  "pivotOp_fwd = \<lparr>opAttr = (TypeTranslate, Tok_pivot), isInverseOp = False\<rparr>"

definition pivotOp_inv :: UsdGeomXformOp where
  "pivotOp_inv = \<lparr>opAttr = (TypeTranslate, Tok_pivot), isInverseOp = True\<rparr>"

definition pivotPrim :: "MVector \<Rightarrow> UsdPrim" where
  "pivotPrim p = \<lparr>IsValid = True,
     attrs = (\<lambda>n. if n = (TypeTranslate, Tok_pivot)
                  then Some \<lparr>typeName = kVec3f, valueAt = (\<lambda>t. Some (VtVec3 p)), timeSamples = []\<rparr>
                  else None),
     xformOpOrder = [pivotOp_fwd, pivotOp_inv], resetsXformStack = False\<rparr>"

definition pivotScene :: "MVector \<Rightarrow> TransformationMatrix" where
  "pivotScene p = \<lparr>base = identityBase\<lparr>rotatePivotValue := p, scalePivotValue := p\<rparr>,
     m_prim = pivotPrim p, m_xformops = [pivotOp_fwd, pivotOp_inv],
     m_orderedOps = [opClass Tok_pivot TypeTranslate False, opClass Tok_pivot TypeTranslate True],
     m_orderedOpMayaIndices = [], m_time = DefaultTime, tweak = zeroTweak,
     fromUsd = identityFromUsd\<lparr>m_rotatePivotFromUsd := p, m_scalePivotFromUsd := p\<rparr>,
     m_flags = {kInheritsTransform, kSinglePivotSchema, kPrimHasPivot, kPushToPrimEnabled},
     m_transformNode = unlocked\<rparr>"

definition rotatePivotOp_fwd :: UsdGeomXformOp where
  "rotatePivotOp_fwd = \<lparr>opAttr = (TypeTranslate, Tok_rotatePivot), isInverseOp = False\<rparr>"

definition rotatePivotOp_inv :: UsdGeomXformOp where
  "rotatePivotOp_inv = \<lparr>opAttr = (TypeTranslate, Tok_rotatePivot), isInverseOp = True\<rparr>"

definition scalePivotOp_fwd :: UsdGeomXformOp where
  "scalePivotOp_fwd = \<lparr>opAttr = (TypeTranslate, Tok_scalePivot), isInverseOp = False\<rparr>"

definition scalePivotOp_inv :: UsdGeomXformOp where
  "scalePivotOp_inv = \<lparr>opAttr = (TypeTranslate, Tok_scalePivot), isInverseOp = True\<rparr>"

text \<open>A prim whose order already holds the plain rotate pivot, unknown to the entity: the second
  insertion of the pair is refused.\<close>

definition rollbackState :: TransformationMatrix where
  "rollbackState = freshState\<lparr>m_prim := emptyPrim\<lparr>xformOpOrder := [rotatePivotOp_fwd]\<rparr>\<rparr>"

text \<open>
  A single-axis rotate operation with double storage, with the value it resolves to at each time
  code and its authored sample times as parameters: one whose authored sample at time 5 (45)
  differs from its default value (90), one that holds 90 at every time from a sample at time 1
  while its default value is 0. And an entity at time 5, reading animated values, with push to
  prim enabled and a host rotation of 90 degrees about x.
\<close>

definition rotateXOp :: UsdGeomXformOp where
  "rotateXOp = \<lparr>opAttr = (TypeRotateX, Tok_rotate), isInverseOp = False\<rparr>"

definition rotateXPrim :: "(UsdTimeCode \<Rightarrow> VtValue option) \<Rightarrow> real list \<Rightarrow> UsdPrim" where
  "rotateXPrim values samples = \<lparr>IsValid = True,
     attrs = (\<lambda>n. if n = (TypeRotateX, Tok_rotate)
                  then Some \<lparr>typeName = kDouble, valueAt = values, timeSamples = samples\<rparr>
                  else None),
     xformOpOrder = [rotateXOp], resetsXformStack = False\<rparr>"

definition staleSample :: "UsdTimeCode \<Rightarrow> VtValue option" where
  "staleSample t = (if t = TimeCode 5 then Some (VtReal 45) else Some (VtReal 90))"

definition heldSample :: "UsdTimeCode \<Rightarrow> VtValue option" where
  "heldSample t = (if t = DefaultTime then Some (VtReal 0) else Some (VtReal 90))"

definition rotatedState :: TransformationMatrix where
  "rotatedState = freshState\<lparr>
     base := identityBase\<lparr>rotationValue := \<lparr>ex = 90 * degToRad, ey = 0, ez = 0, order = kXYZ\<rparr>\<rparr>,
     m_prim := rotateXPrim staleSample [5], m_xformops := [rotateXOp],
     m_orderedOps := [opClass Tok_rotate TypeRotateXYZ False], m_time := TimeCode 5,
     m_flags := {kInheritsTransform, kFromMayaSchema, kPrimHasRotation, kPushToPrimEnabled,
                 kReadAnimatedValues}\<rparr>"

text \<open>A prim whose scale operation comes before its animated translate operation, out of the
  order of every schema, and an entity about to be bound to it with push to prim enabled.\<close>

definition scaleOp :: UsdGeomXformOp where
  "scaleOp = \<lparr>opAttr = (TypeScale, Tok_scale), isInverseOp = False\<rparr>"

definition unorderedPrim :: UsdPrim where
  "unorderedPrim = animatedPrim\<lparr>
     attrs := (attrs animatedPrim)((TypeScale, Tok_scale) \<mapsto> newAttr kVec3f),
     xformOpOrder := [scaleOp, translateOp]\<rparr>"

definition unorderedState :: TransformationMatrix where
  "unorderedState = freshState\<lparr>m_prim := unorderedPrim, m_flags := {kPushToPrimEnabled}\<rparr>"

text \<open>The animated entity with the reading of animated values switched off, and with its
  translation locked.\<close>

definition notReadingState :: TransformationMatrix where
  "notReadingState = animatedState\<lparr>m_flags := m_flags animatedState - {kReadAnimatedValues}\<rparr>"

definition lockedAnimatedState :: TransformationMatrix where
  "lockedAnimatedState = animatedState\<lparr>m_transformNode := unlocked\<lparr>isTranslateLocked := True\<rparr>\<rparr>"

text \<open>An entity without flags over a valid prim without operations, and a matcher that never matches.\<close>

definition unflaggedState :: TransformationMatrix where
  "unflaggedState = freshState\<lparr>m_flags := {}\<rparr>"

definition noMatch :: "UsdGeomXformOp list \<Rightarrow> UsdMayaXformOpClassification list" where
  "noMatch ops = []"

text \<open>A matcher that answers the full stack with one classification for two operations.\<close>

definition partialExt :: Externals where
  "partialExt = plainExt\<lparr>MatchingSubstack :=
     (\<lambda>stack ops. if stack = MayaStack then [opClass Tok_translate TypeTranslate False] else [])\<rparr>"

definition orderedPrim :: UsdPrim where
  "orderedPrim = unorderedPrim\<lparr>xformOpOrder := [translateOp, scaleOp]\<rparr>"

definition twoOpState :: TransformationMatrix where
  "twoOpState = freshState\<lparr>m_prim := orderedPrim, m_xformops := [translateOp, scaleOp], m_flags := {}\<rparr>"



section \<open>The codec's report on a shear write\<close>

text \<open>
  C9. A codec write should return false only when the storage type cannot hold the kind written;
  \<open>pushShear\<close> on an operation with 4x4 double-matrix storage should store and return true.
  Evaluated on a matrix-typed shear operation, the code stores the shear matrix and returns
  false.
\<close>

theorem pushShear_matrix_returns_false:
  "fst (pushShear (MVector 0.25 0.5 0.75) shearPrim shearOp DefaultTime) = False
   \<and> op_Get (snd (pushShear (MVector 0.25 0.5 0.75) shearPrim shearOp DefaultTime)) shearOp DefaultTime
       = Some (VtMatrix (shearMatrix (MVector 0.25 0.5 0.75)))
   \<and> GetTypeName shearPrim shearOp = kMatrix4d"
  by (simp add: pushShear_def GetTypeName_def shearPrim_def shearOp_def newAttr_def
      set_if_changed_def op_Get_def op_Set_def valueFits_def attr_Set_def)

section \<open>Locked components\<close>

text \<open>
  C10. When the host reports the translate, rotate or scale component as locked, the matching
  set call (\<open>translateTo\<close>, either overload of \<open>rotateTo\<close>, \<open>scaleTo\<close>) returns success
  and leaves the whole entity state as it was: host values, tweaks, operation stack and prim.
\<close>

theorem locked_set_changes_nothing:
  "(isTranslateLocked (m_transformNode s) \<longrightarrow> translateTo ext v s = Some (kSuccess, s))
   \<and> (isRotateLocked (m_transformNode s) \<longrightarrow>
        rotateTo ext e s = Some (kSuccess, s) \<and> rotateTo_q ext q s = Some (kSuccess, s))
   \<and> (isScaleLocked (m_transformNode s) \<longrightarrow> scaleTo ext v s = Some (kSuccess, s))"
  by (simp add: translateTo_def rotateTo_def rotateTo_q_def scaleTo_def)

theorem locked_set_changes_nothing_witness:
  "isTranslateLocked (m_transformNode lockedState)
   \<and> isRotateLocked (m_transformNode lockedState)
   \<and> isScaleLocked (m_transformNode lockedState)
   \<and> translateTo plainExt (MVector 1 2 3) lockedState = Some (kSuccess, lockedState)
   \<and> rotateTo plainExt zeroEuler lockedState = Some (kSuccess, lockedState)
   \<and> rotateTo_q plainExt (MQuaternion 0 0 0 1) lockedState = Some (kSuccess, lockedState)
   \<and> scaleTo plainExt (MVector 1 2 3) lockedState = Some (kSuccess, lockedState)"
  using locked_set_changes_nothing [of lockedState plainExt "MVector 1 2 3" zeroEuler "MQuaternion 0 0 0 1"]
  by (simp add: lockedState_def)

section \<open>Tweaks under the set operations\<close>





text \<open>
  The older \<open>shearTo\<close> with push to prim disabled: the host shear is stored, and the difference
  to the from-source shear goes to the tweak of the scale; the tweak of the shear stays.
\<close>

lemma shearTo_old_writes_scale_tweak:
  "\<not> pushToPrimEnabled s \<Longrightarrow>
     shearTo_old ext v s = Some (kSuccess,
       s\<lparr>base := (base s)\<lparr>shearValue := v\<rparr>,
         tweak := (tweak s)\<lparr>m_scaleTweak := v - m_shearFromUsd (fromUsd s)\<rparr>\<rparr>)"
  by (simp add: shearTo_old_def MPx_set_def pushToPrimEnabled_def Let_def)

text \<open>
  On the fresh entity the older \<open>shearTo\<close> leaves the tweak of the shear at zero beside a host
  shear of (1,0,0), and a tweak of the scale of (1,0,0) beside an unchanged host scale of (1,1,1).
\<close>

lemma shearTo_old_on_freshState:
  "shearTo_old plainExt (MVector 1 0 0) freshState = Some (kSuccess,
       freshState\<lparr>base := identityBase\<lparr>shearValue := MVector 1 0 0\<rparr>,
                   tweak := zeroTweak\<lparr>m_scaleTweak := MVector 1 0 0\<rparr>\<rparr>)
   \<and> m_shearTweak zeroTweak = MVector 0 0 0
   \<and> scaleValue identityBase = MVector 1 1 1
   \<and> m_scaleFromUsd (fromUsd freshState) + MVector 1 0 0 = MVector 2 1 1"
  using shearTo_old_writes_scale_tweak [of freshState plainExt "MVector 1 0 0"]
  by (simp add: pushToPrimEnabled_def freshState_def identityFromUsd_def identityBase_def zeroTweak_def
      minus_MVector_def plus_MVector_def)

section \<open>Tweaks across a time change\<close>

lemma readVector_result_indep:
  "readVector r prim op t = (True, v) \<Longrightarrow> readVector r' prim op t = (True, v)"
  by (auto simp: readVector_def split: UsdDataType.splits option.splits)

lemma updateOp_frame:
  "m_prim (updateOp ext op c s) = m_prim s \<and> m_flags (updateOp ext op c s) = m_flags s
   \<and> m_time (updateOp ext op c s) = m_time s \<and> tweak (updateOp ext op c s) = tweak s"
  by (simp add: updateOp_def Let_def split: prod.splits)

lemma updateLoop_frame:
  "updateLoop ext ops cs s = Some s' \<Longrightarrow>
     m_prim s' = m_prim s \<and> m_flags s' = m_flags s \<and> m_time s' = m_time s \<and> tweak s' = tweak s"
  by (induction ext ops cs s rule: updateLoop.induct) (simp_all add: updateOp_frame)

lemma updateLoop_append:
  "length ops1 = length cs1 \<Longrightarrow>
     updateLoop ext (ops1 @ ops2) (cs1 @ cs2) s =
       (case updateLoop ext ops1 cs1 s of None \<Rightarrow> None | Some s1 \<Rightarrow> updateLoop ext ops2 cs2 s1)"
  by (induction ops1 cs1 arbitrary: s rule: list_induct2) simp_all

lemma updateLoop_total:
  "length ops = length cs \<Longrightarrow> \<exists>s'. updateLoop ext ops cs s = Some s'"
  by (induction ops cs arbitrary: s rule: list_induct2) simp_all

lemma updateOp_keeps_translation:
  "GetName c \<noteq> Tok_translate \<Longrightarrow> GetName c \<noteq> Tok_transform \<Longrightarrow>
     translationValue (base (updateOp ext op c s)) = translationValue (base s)"
  by (simp add: updateOp_def Let_def)

lemma updateLoop_keeps_translation:
  "length ops = length cs \<Longrightarrow> \<forall>c \<in> set cs. GetName c \<noteq> Tok_translate \<and> GetName c \<noteq> Tok_transform \<Longrightarrow>
     updateLoop ext ops cs s = Some s' \<Longrightarrow> translationValue (base s') = translationValue (base s)"
  by (induction ops cs arbitrary: s rule: list_induct2) (simp_all add: updateOp_keeps_translation)

lemma updateOp_translate:
  assumes "GetName c = Tok_translate" "kAnimatedTranslation \<in> m_flags s"
    and "readVector r (m_prim s) op (getTimeCode s) = (True, sv)"
  shows "translationValue (base (updateOp ext op c s)) = sv + m_translationTweak (tweak s)"
  using assms readVector_result_indep[OF assms(3), of "m_translationFromUsd (fromUsd s)"]
  by (simp add: updateOp_def Let_def internal_readVector_def)


text \<open>
  C4 (as amended). With push to prim disabled, an unlocked translate component, an animated translate
  operation in the aligned stack (the only one to drive the translation) and animated values
  being read: \<open>translateTo v\<close> followed by \<open>updateToTime T\<close>, where the operation reads
  \<open>sv\<close> at \<open>T\<close>, leaves the host translation at \<open>sv\<close> plus the tweak computed at edit
  time, \<open>v\<close> minus the from-source value before the edit; the tweak itself is unchanged. And
  \<open>updateToTime\<close> at the current time changes nothing.
\<close>

theorem tweak_survives_time_change:
  assumes np: "\<not> pushToPrimEnabled s" and nl: "\<not> isTranslateLocked (m_transformNode s)"
    and valid: "IsValid (m_prim s)"
    and anim: "kAnimatedTranslation \<in> m_flags s" and ra: "readAnimatedValues s"
    and T: "m_time s \<noteq> T"
    and ops: "m_xformops s = ops1 @ op # ops2" and cs: "m_orderedOps s = cs1 @ c # cs2"
    and l1: "length ops1 = length cs1" and l2: "length ops2 = length cs2"
    and c: "GetName c = Tok_translate"
    and rest: "\<forall>c' \<in> set cs2. GetName c' \<noteq> Tok_translate \<and> GetName c' \<noteq> Tok_transform"
    and src: "readVector r (m_prim s) op T = (True, sv)"
  shows "(\<exists>s1 s2. translateTo ext v s = Some (kSuccess, s1) \<and> updateToTime ext T s1 = Some s2
            \<and> translationValue (base s2) = sv + (v - m_translationFromUsd (fromUsd s))
            \<and> m_translationTweak (tweak s2) = v - m_translationFromUsd (fromUsd s))
         \<and> updateToTime ext (m_time s) s = Some s"
proof
  define s1 where "s1 = s\<lparr>base := (base s)\<lparr>translationValue := v\<rparr>,
      tweak := (tweak s)\<lparr>m_translationTweak := v - m_translationFromUsd (fromUsd s)\<rparr>\<rparr>"
  have t1: "translateTo ext v s = Some (kSuccess, s1)"
    using np nl by (simp add: translateTo_def MPx_set_def pushAfterEdit_def pushToPrimAvailable_def pushToPrimEnabled_def s1_def)
  define s1a where "s1a = s1\<lparr>m_time := T\<rparr>"
  have tc: "getTimeCode s1a = T" and fl: "m_flags s1a = m_flags s" and pr: "m_prim s1a = m_prim s"
    and tw: "m_translationTweak (tweak s1a) = v - m_translationFromUsd (fromUsd s)"
    using ra by (simp_all add: s1a_def s1_def getTimeCode_def readAnimatedValues_def)
  have upd: "updateToTime ext T s1 = updateLoop ext (ops1 @ op # ops2) (cs1 @ c # cs2) s1a"
    using valid T anim ops cs
    by (auto simp: updateToTime_def s1_def s1a_def Let_def hasAnimation_def kAnimationMask_def)
  obtain sA where A: "updateLoop ext ops1 cs1 s1a = Some sA"
    using updateLoop_total[OF l1] by blast
  note fA = updateLoop_frame[OF A]
  define sB where "sB = updateOp ext op c sA"
  obtain s2 where B: "updateLoop ext ops2 cs2 sB = Some s2"
    using updateLoop_total[OF l2] by blast
  have loop: "updateLoop ext (ops1 @ op # ops2) (cs1 @ c # cs2) s1a = Some s2"
    using A B by (simp add: updateLoop_append[OF l1] sB_def)
  have "getTimeCode sA = getTimeCode s1a" using fA by (simp add: getTimeCode_def readAnimatedValues_def)
  with tc have "getTimeCode sA = T" by simp
  with src fA pr have rd: "readVector r (m_prim sA) op (getTimeCode sA) = (True, sv)" by simp
  have "kAnimatedTranslation \<in> m_flags sA" using fA fl anim by simp
  from updateOp_translate[OF c this rd, of ext]
  have "translationValue (base sB) = sv + (v - m_translationFromUsd (fromUsd s))"
    using fA tw by (simp add: sB_def)
  moreover have "translationValue (base s2) = translationValue (base sB)"
    using updateLoop_keeps_translation[OF l2 rest B] .
  moreover have "tweak s2 = tweak s1a"
    using updateLoop_frame[OF B] updateOp_frame[of ext op c sA] fA by (simp add: sB_def)
  ultimately show "\<exists>s1 s2. translateTo ext v s = Some (kSuccess, s1) \<and> updateToTime ext T s1 = Some s2
            \<and> translationValue (base s2) = sv + (v - m_translationFromUsd (fromUsd s))
            \<and> m_translationTweak (tweak s2) = v - m_translationFromUsd (fromUsd s)"
    using t1 upd loop tw by auto
next
  show "updateToTime ext (m_time s) s = Some s" by (simp add: updateToTime_def)
qed


theorem tweak_survives_time_change_witness:
  "\<not> pushToPrimEnabled animatedState
   \<and> kAnimatedTranslation \<in> m_flags animatedState
   \<and> readVector (MVector 0 0 0) (m_prim animatedState) translateOp (TimeCode 5) = (True, MVector 10 0 0)
   \<and> (\<exists>s1 s2. translateTo plainExt (MVector 1 2 3) animatedState = Some (kSuccess, s1)
         \<and> updateToTime plainExt (TimeCode 5) s1 = Some s2
         \<and> translationValue (base s2) = MVector 11 2 3)"
  using tweak_survives_time_change [where s = animatedState and T = "TimeCode 5" and ?ops1.0 = "[]"
      and op = translateOp and ?ops2.0 = "[]" and ?cs1.0 = "[]"
      and c = "opClass Tok_translate TypeTranslate False" and ?cs2.0 = "[]"
      and r = "MVector 0 0 0" and sv = "MVector 10 0 0" and ext = plainExt and v = "MVector 1 2 3"]
  by (auto simp add: animatedState_def animatedPrim_def translateOp_def freshState_def opClass_def
      pushToPrimEnabled_def readAnimatedValues_def unlocked_def emptyPrim_def
      readVector_def GetTypeName_def getVec3_def op_Get_def identityFromUsd_def
      plus_MVector_def minus_MVector_def)

text \<open>
  C4 as stated fails when animated values are not being read, and when the translation is locked.
  On the animated entity, from-source translation (0,0,0), source translation (10,0,0) at time 5:
  \<open>translateTo (1,2,3)\<close> followed by \<open>updateToTime 5\<close> leaves the host translation at
  (1,2,3) with the reading of animated values off (the operation is read at the default time), and
  at (10,0,0) with the translation locked (the edit is refused); the claim gives (11,2,3).
\<close>

theorem tweak_survives_time_change_counterexample:
  "\<not> pushToPrimEnabled notReadingState
   \<and> kAnimatedTranslation \<in> m_flags notReadingState
   \<and> m_translationFromUsd (fromUsd notReadingState) = MVector 0 0 0
   \<and> readVector (MVector 0 0 0) (m_prim notReadingState) translateOp (TimeCode 5) = (True, MVector 10 0 0)
   \<and> hostTranslation (translateThenAdvance plainExt (MVector 1 2 3) (TimeCode 5) notReadingState)
       = Some (MVector 1 2 3)
   \<and> \<not> pushToPrimEnabled lockedAnimatedState
   \<and> kAnimatedTranslation \<in> m_flags lockedAnimatedState
   \<and> m_translationFromUsd (fromUsd lockedAnimatedState) = MVector 0 0 0
   \<and> readVector (MVector 0 0 0) (m_prim lockedAnimatedState) translateOp (TimeCode 5) = (True, MVector 10 0 0)
   \<and> hostTranslation (translateThenAdvance plainExt (MVector 1 2 3) (TimeCode 5) lockedAnimatedState)
       = Some (MVector 10 0 0)
   \<and> MVector 10 0 0 + (MVector 1 2 3 - MVector 0 0 0) = MVector 11 2 3"
  by (simp add: notReadingState_def lockedAnimatedState_def animatedState_def animatedPrim_def
      translateOp_def freshState_def opClass_def pushToPrimEnabled_def readAnimatedValues_def
      unlocked_def emptyPrim_def readVector_def GetTypeName_def getVec3_def op_Get_def
      identityFromUsd_def identityBase_def zeroTweak_def plus_MVector_def minus_MVector_def
      translateThenAdvance_def hostTranslation_def translateTo_def MPx_set_def pushAfterEdit_def
      pushToPrimAvailable_def updateToTime_def hasAnimation_def kAnimationMask_def Let_def
      updateOp_def internal_readVector_def getTimeCode_def)

section \<open>Initialisation: schema priority and the animation lock\<close>

lemma initialiseOp_frame:
  "m_prim (initialiseOp ext r op c s) = m_prim s
   \<and> m_orderedOps (initialiseOp ext r op c s) = m_orderedOps s
   \<and> m_xformops (initialiseOp ext r op c s) = m_xformops s"
  by (simp add: initialiseOp_def Let_def setFlag_def animatedIf_def split: list.splits)

lemma initialiseOp_flags_mono: "m_flags s \<subseteq> m_flags (initialiseOp ext r op c s)"
  by (auto simp add: initialiseOp_def Let_def setFlag_def animatedIf_def split: list.splits)

lemma initialiseOp_schema:
  "(kFromMayaSchema \<in> m_flags (initialiseOp ext r op c s)) = (kFromMayaSchema \<in> m_flags s)
   \<and> (kSinglePivotSchema \<in> m_flags (initialiseOp ext r op c s)) = (kSinglePivotSchema \<in> m_flags s)"
  by (simp add: initialiseOp_def Let_def setFlag_def animatedIf_def split: list.splits)

lemma initialiseOp_marks:
  assumes "\<not> IsInvertedTwin c" "GetNumTimeSamples (m_prim s) op > 1"
  shows "(GetName c = Tok_translate \<longrightarrow> kAnimatedTranslation \<in> m_flags (initialiseOp ext r op c s))
       \<and> (GetName c = Tok_rotate \<longrightarrow> kAnimatedRotation \<in> m_flags (initialiseOp ext r op c s))
       \<and> (GetName c = Tok_scale \<longrightarrow> kAnimatedScale \<in> m_flags (initialiseOp ext r op c s))
       \<and> (GetName c = Tok_shear \<longrightarrow> kAnimatedShear \<in> m_flags (initialiseOp ext r op c s))
       \<and> (GetName c = Tok_transform \<longrightarrow> kAnimatedMatrix \<in> m_flags (initialiseOp ext r op c s))"
  using assms
  by (simp add: initialiseOp_def Let_def setFlag_def animatedIf_def split: list.splits)


lemma initialiseLoop_frame:
  "initialiseLoop ext r ops cs s = Some s' \<Longrightarrow>
     m_prim s' = m_prim s \<and> m_orderedOps s' = m_orderedOps s \<and> m_xformops s' = m_xformops s
     \<and> m_flags s \<subseteq> m_flags s'
     \<and> (kFromMayaSchema \<in> m_flags s') = (kFromMayaSchema \<in> m_flags s)
     \<and> (kSinglePivotSchema \<in> m_flags s') = (kSinglePivotSchema \<in> m_flags s)"
proof (induction ext r ops cs s rule: initialiseLoop.induct)
  case (3 ext r op ops c cs s)
  from 3 have "initialiseLoop ext r ops cs (initialiseOp ext r op c s) = Some s'" by simp
  from "3.IH"[OF this] initialiseOp_frame[of ext r op c s] initialiseOp_schema[of ext r op c s]
    initialiseOp_flags_mono[of s ext r op c]
  show ?case by auto
qed simp_all

lemma initialiseLoop_total:
  "length ops = length cs \<Longrightarrow> \<exists>s'. initialiseLoop ext r ops cs s = Some s'"
  by (induction ops cs arbitrary: s rule: list_induct2) simp_all

lemma initialiseLoop_marks:
  assumes "initialiseLoop ext r ops cs s = Some s'" "(op, c) \<in> set (zip ops cs)"
    "\<not> IsInvertedTwin c" "GetNumTimeSamples (m_prim s) op > 1"
  shows "(GetName c = Tok_translate \<longrightarrow> kAnimatedTranslation \<in> m_flags s')
       \<and> (GetName c = Tok_rotate \<longrightarrow> kAnimatedRotation \<in> m_flags s')
       \<and> (GetName c = Tok_scale \<longrightarrow> kAnimatedScale \<in> m_flags s')
       \<and> (GetName c = Tok_shear \<longrightarrow> kAnimatedShear \<in> m_flags s')
       \<and> (GetName c = Tok_transform \<longrightarrow> kAnimatedMatrix \<in> m_flags s')"
  using assms
proof (induction ext r ops cs s rule: initialiseLoop.induct)
  case (3 ext r op' ops c' cs s)
  from 3(2) have run: "initialiseLoop ext r ops cs (initialiseOp ext r op' c' s) = Some s'" by simp
  show ?case
  proof (cases "(op, c) = (op', c')")
    case True
    with initialiseOp_marks[OF 3(4) 3(5), of ext r] initialiseLoop_frame[OF run]
    show ?thesis by auto
  next
    case False
    with 3(3) have "(op, c) \<in> set (zip ops cs)" by auto
    from "3.IH"[OF run this 3(4)] 3(5) initialiseOp_frame[of ext r op' c' s]
    show ?thesis by simp
  qed
qed simp_all

lemma animationLock_frame:
  "m_orderedOps (animationLock s) = m_orderedOps s \<and> m_xformops (animationLock s) = m_xformops s
   \<and> m_prim (animationLock s) = m_prim s
   \<and> (f \<noteq> kPushToPrimEnabled \<longrightarrow> f \<in> m_flags s \<longrightarrow> f \<in> m_flags (animationLock s))
   \<and> (f \<noteq> kReadAnimatedValues \<longrightarrow> f \<notin> m_flags s \<longrightarrow> f \<notin> m_flags (animationLock s))"
  by (simp add: animationLock_def setFlag_def clearFlag_def)

lemma animationLock_locks:
  "m_flags (animationLock s) \<inter> kAnimationMask \<noteq> {} \<Longrightarrow>
     kPushToPrimEnabled \<notin> m_flags (animationLock s) \<and> kReadAnimatedValues \<in> m_flags (animationLock s)"
  by (auto simp add: animationLock_def setFlag_def clearFlag_def kAnimationMask_def split: if_splits)

lemma initialiseToPrim_result:
  assumes "IsValid (m_prim s)" "initialiseToPrim ext r s = Some s'"
  shows "\<exists>s4. s' = animationLock s4 \<and> m_prim s4 = m_prim s"
  using assms
  by (auto simp add: initialiseToPrim_def Let_def setFlag_def stackFlagPairs_def
      split: if_splits option.splits dest!: initialiseLoop_frame)


lemma initialiseToPrim_matched:
  "IsValid (m_prim s) \<Longrightarrow>
   initialiseToPrim ext r s =
     matched ext r
       (let s1 = s\<lparr>m_xformops := xformOpOrder (m_prim s), m_orderedOps := [], m_orderedOpMayaIndices := []\<rparr>;
            s2 = (if \<not> resetsXformStack (m_prim s) then setFlag kInheritsTransform s1 else s1)
        in if m_xformops s2 = [] then setFlag kFromMayaSchema s2
           else matchStacks ext stackFlagPairs s2)"
  by (simp add: initialiseToPrim_def matched_def Let_def)

lemma matched_aligned:
  assumes "length (m_xformops s3) = length (m_orderedOps s3)"
  shows "\<exists>s'. matched ext r s3 = Some s' \<and> m_orderedOps s' = m_orderedOps s3
          \<and> m_xformops s' = m_xformops s3
          \<and> (kFromMayaSchema \<in> m_flags s') = (kFromMayaSchema \<in> m_flags s3)
          \<and> (kSinglePivotSchema \<in> m_flags s') = (kSinglePivotSchema \<in> m_flags s3)
          \<and> (kFromMatrix \<in> m_flags s3 \<longrightarrow> kFromMatrix \<in> m_flags s')"
proof (cases "m_flags s3 \<inter> kAnyKnownSchema \<noteq> {}")
  case True
  obtain s4 where run: "initialiseLoop ext r (m_xformops s3) (m_orderedOps s3) s3 = Some s4"
    using initialiseLoop_total[OF assms] by blast
  from initialiseLoop_frame[OF run] True run
    animationLock_frame[of s4 kFromMayaSchema] animationLock_frame[of s4 kSinglePivotSchema]
    animationLock_frame[of s4 kFromMatrix]
  show ?thesis by (auto simp: matched_def)
next
  case False
  with animationLock_frame[of s3 kFromMayaSchema] animationLock_frame[of s3 kSinglePivotSchema]
    animationLock_frame[of s3 kFromMatrix]
  show ?thesis by (auto simp: matched_def)
qed

lemma matched_unknown:
  assumes "m_flags s3 \<inter> kAnyKnownSchema = {}"
  shows "\<exists>s'. matched ext r s3 = Some s' \<and> m_orderedOps s' = m_orderedOps s3
          \<and> m_xformops s' = m_xformops s3 \<and> m_flags s' \<inter> kAnyKnownSchema = {}"
  using assms animationLock_frame[of s3 kFromMayaSchema] animationLock_frame[of s3 kSinglePivotSchema]
    animationLock_frame[of s3 kFromMatrix]
  by (auto simp: matched_def kAnyKnownSchema_def)

lemma newer_schema_priority:
  assumes valid: "IsValid (m_prim s)" and fresh: "m_flags s \<inter> kAnyKnownSchema = {}"
    and ops: "ops = xformOpOrder (m_prim s)" and M: "M = MatchingSubstack ext"
    and contract: "\<forall>stack \<in> set (map fst stackFlagPairs). M stack ops = [] \<or> length (M stack ops) = length ops"
  shows "\<exists>s'. initialiseToPrim ext r s = Some s' \<and> m_xformops s' = ops
     \<and> (if ops = [] then m_orderedOps s' = [] \<and> kFromMayaSchema \<in> m_flags s'
         else if M MayaStack ops \<noteq> []
         then m_orderedOps s' = M MayaStack ops
              \<and> kFromMayaSchema \<in> m_flags s' \<and> kSinglePivotSchema \<notin> m_flags s'
         else if M MayaSinglePivotStack ops \<noteq> []
         then m_orderedOps s' = M MayaSinglePivotStack ops
              \<and> kSinglePivotSchema \<in> m_flags s' \<and> kFromMayaSchema \<notin> m_flags s'
         else if M MatrixStack ops \<noteq> []
         then m_orderedOps s' = M MatrixStack ops \<and> kFromMatrix \<in> m_flags s'
              \<and> kFromMayaSchema \<notin> m_flags s' \<and> kSinglePivotSchema \<notin> m_flags s'
         else m_orderedOps s' = [] \<and> m_flags s' \<inter> kAnyKnownSchema = {})"
proof -
  define s2 where "s2 = (let s1 = s\<lparr>m_xformops := ops, m_orderedOps := [], m_orderedOpMayaIndices := []\<rparr>
      in if \<not> resetsXformStack (m_prim s) then setFlag kInheritsTransform s1 else s1)"
  have s2: "m_xformops s2 = ops" "m_orderedOps s2 = []" "kFromMayaSchema \<notin> m_flags s2"
    "kSinglePivotSchema \<notin> m_flags s2" "kFromMatrix \<notin> m_flags s2"
    using fresh by (auto simp: s2_def Let_def setFlag_def kAnyKnownSchema_def)
  have init: "initialiseToPrim ext r s =
      matched ext r (if ops = [] then setFlag kFromMayaSchema s2 else matchStacks ext stackFlagPairs s2)"
    using valid s2(1) by (simp add: initialiseToPrim_matched s2_def Let_def ops)
  have c1: "M MayaStack ops = [] \<or> length (M MayaStack ops) = length ops"
    and c2: "M MayaSinglePivotStack ops = [] \<or> length (M MayaSinglePivotStack ops) = length ops"
    and c3: "M MatrixStack ops = [] \<or> length (M MatrixStack ops) = length ops"
    using contract by (simp_all add: stackFlagPairs_def)
  show ?thesis
  proof (cases "ops = []")
    case True
    have "length (m_xformops (setFlag kFromMayaSchema s2)) = length (m_orderedOps (setFlag kFromMayaSchema s2))"
      using s2 True by (simp add: setFlag_def)
    from matched_aligned[OF this, of ext r] init True s2 show ?thesis
      by (auto simp: setFlag_def)
  next
    case nonempty: False
    define s3 where "s3 = matchStacks ext stackFlagPairs s2"
    have s3: "s3 = (if M MayaStack ops \<noteq> [] then setFlag kFromMayaSchema (s2\<lparr>m_orderedOps := M MayaStack ops\<rparr>)
        else if M MayaSinglePivotStack ops \<noteq> []
        then setFlag kSinglePivotSchema (s2\<lparr>m_orderedOps := M MayaSinglePivotStack ops\<rparr>)
        else if M MatrixStack ops \<noteq> []
        then setFlag kFromMatrix (s2\<lparr>m_orderedOps := M MatrixStack ops\<rparr>)
        else s2\<lparr>m_orderedOps := []\<rparr>)"
      using s2(1) by (simp add: s3_def stackFlagPairs_def Let_def M)
    have init': "initialiseToPrim ext r s = matched ext r s3"
      using init nonempty by (simp add: s3_def)
    show ?thesis
    proof (cases "M MayaStack ops = [] \<and> M MayaSinglePivotStack ops = [] \<and> M MatrixStack ops = []")
      case True
      with s3 have e: "s3 = s2\<lparr>m_orderedOps := []\<rparr>" by simp
      have "m_flags s3 \<inter> kAnyKnownSchema = {}"
        using s2 by (auto simp: e kAnyKnownSchema_def)
      from matched_unknown[OF this, of ext r] init' True nonempty s2 e show ?thesis by auto
    next
      case False
      have "length (m_xformops s3) = length (m_orderedOps s3)"
        using False s2 c1 c2 c3 by (auto simp: s3 setFlag_def)
      from matched_aligned[OF this, of ext r] obtain s' where
        r: "matched ext r s3 = Some s'" "m_orderedOps s' = m_orderedOps s3" "m_xformops s' = m_xformops s3"
          "(kFromMayaSchema \<in> m_flags s') = (kFromMayaSchema \<in> m_flags s3)"
          "(kSinglePivotSchema \<in> m_flags s') = (kSinglePivotSchema \<in> m_flags s3)"
          "kFromMatrix \<in> m_flags s3 \<longrightarrow> kFromMatrix \<in> m_flags s'" by blast
      show ?thesis
        using False nonempty init' r s2 by (auto simp: s3 setFlag_def)
    qed
  qed
qed


lemma initialiseToPrim_old_result:
  assumes valid: "IsValid (m_prim s)" and fresh: "m_flags s \<inter> kAnyKnownSchema = {}"
    and ops: "ops = xformOpOrder (m_prim s)"
    and contract: "F ops = [] \<or> length (F ops) = length ops"
  shows "\<exists>s'. initialiseToPrim_old ext F r s = Some s' \<and> m_xformops s' = ops \<and> m_orderedOps s' = F ops
     \<and> (if F ops = [] then m_flags s' \<inter> kAnyKnownSchema = {}
         else kFromMayaSchema \<in> m_flags s' \<and> kSinglePivotSchema \<notin> m_flags s')"
proof -
  define s3 where "s3 = (let s1 = s\<lparr>m_xformops := ops, m_orderedOps := []\<rparr>;
      s2 = (if \<not> resetsXformStack (m_prim s) then setFlag kInheritsTransform s1 else s1)
      in s2\<lparr>m_orderedOps := F ops\<rparr>)"
  have s3: "m_xformops s3 = ops" "m_orderedOps s3 = F ops" "m_flags s3 \<inter> kAnyKnownSchema = {}"
    using fresh by (auto simp: s3_def Let_def setFlag_def kAnyKnownSchema_def)
  show ?thesis
  proof (cases "F ops = []")
    case True
    then have "initialiseToPrim_old ext F r s = Some (animationLock s3)"
      using valid by (simp add: initialiseToPrim_old_def s3_def Let_def ops setFlag_def)
    also have "\<dots> = matched ext r s3" using s3(3) by (simp add: matched_def)
    finally have "initialiseToPrim_old ext F r s = matched ext r s3" .
    with matched_unknown[OF s3(3), of ext r] s3 True show ?thesis by auto
  next
    case False
    define s3' where "s3' = setFlag kFromMayaSchema s3"
    have f: "m_flags s3' \<inter> kAnyKnownSchema \<noteq> {}" "kFromMayaSchema \<in> m_flags s3'"
      "kSinglePivotSchema \<notin> m_flags s3'"
      using s3(3) by (auto simp: s3'_def setFlag_def kAnyKnownSchema_def)
    have l: "m_xformops s3' = ops" "m_orderedOps s3' = F ops"
      using s3 by (simp_all add: s3'_def setFlag_def)
    have "initialiseToPrim_old ext F r s = matched ext r s3'"
      using valid False f(1) l
      by (simp add: initialiseToPrim_old_def matched_def s3'_def s3_def Let_def ops setFlag_def)
    moreover have "length (m_xformops s3') = length (m_orderedOps s3')"
      using False contract l by simp
    from matched_aligned[OF this, of ext r] obtain s' where
      "matched ext r s3' = Some s'" "m_orderedOps s' = m_orderedOps s3'" "m_xformops s' = m_xformops s3'"
      "(kFromMayaSchema \<in> m_flags s') = (kFromMayaSchema \<in> m_flags s3')"
      "(kSinglePivotSchema \<in> m_flags s') = (kSinglePivotSchema \<in> m_flags s3')" by blast
    ultimately show ?thesis using False f l by auto
  qed
qed

text \<open>
  C5 (as amended). Binding an entity whose schema flags are clear to a valid prim, with a matcher
  that answers with either no classification or one per operation (discarding a partial match is
  the matcher's part; the engine adopts whatever non-empty answer it gets). The newer
  \<open>initialiseToPrim\<close> returns, the operation list is the prim's, and the classification list
  is that of the first schema, in the order full stack, single-pivot stack, matrix stack, whose
  matching substack is not empty, with that schema's flag set; when none matches the
  classification list is empty and no schema flag is set; an empty operation list gets the
  full-stack flag and an empty classification list. The older \<open>initialiseToPrim\<close> returns
  with the plugin's first matching substack as classification list, marks any match as the full
  stack's, and sets no schema flag when the answer is empty, as it is for an empty operation list.
\<close>

theorem first_matching_schema_wins:
  assumes valid: "IsValid (m_prim s)" and fresh: "m_flags s \<inter> kAnyKnownSchema = {}"
    and ops: "ops = xformOpOrder (m_prim s)" and M: "M = MatchingSubstack ext"
    and contract: "\<forall>stack \<in> set (map fst stackFlagPairs). M stack ops = [] \<or> length (M stack ops) = length ops"
    and contract_old: "F ops = [] \<or> length (F ops) = length ops"
  shows "(\<exists>s'. initialiseToPrim ext r s = Some s' \<and> m_xformops s' = ops
     \<and> (if ops = [] then m_orderedOps s' = [] \<and> kFromMayaSchema \<in> m_flags s'
         else if M MayaStack ops \<noteq> []
         then m_orderedOps s' = M MayaStack ops
              \<and> kFromMayaSchema \<in> m_flags s' \<and> kSinglePivotSchema \<notin> m_flags s'
         else if M MayaSinglePivotStack ops \<noteq> []
         then m_orderedOps s' = M MayaSinglePivotStack ops
              \<and> kSinglePivotSchema \<in> m_flags s' \<and> kFromMayaSchema \<notin> m_flags s'
         else if M MatrixStack ops \<noteq> []
         then m_orderedOps s' = M MatrixStack ops \<and> kFromMatrix \<in> m_flags s'
              \<and> kFromMayaSchema \<notin> m_flags s' \<and> kSinglePivotSchema \<notin> m_flags s'
         else m_orderedOps s' = [] \<and> m_flags s' \<inter> kAnyKnownSchema = {}))
   \<and> (\<exists>s'. initialiseToPrim_old ext F r s = Some s' \<and> m_xformops s' = ops \<and> m_orderedOps s' = F ops
     \<and> (if F ops = [] then m_flags s' \<inter> kAnyKnownSchema = {}
         else kFromMayaSchema \<in> m_flags s' \<and> kSinglePivotSchema \<notin> m_flags s'))"
proof (rule conjI)
  show "\<exists>s'. initialiseToPrim ext r s = Some s' \<and> m_xformops s' = ops
     \<and> (if ops = [] then m_orderedOps s' = [] \<and> kFromMayaSchema \<in> m_flags s'
         else if M MayaStack ops \<noteq> []
         then m_orderedOps s' = M MayaStack ops
              \<and> kFromMayaSchema \<in> m_flags s' \<and> kSinglePivotSchema \<notin> m_flags s'
         else if M MayaSinglePivotStack ops \<noteq> []
         then m_orderedOps s' = M MayaSinglePivotStack ops
              \<and> kSinglePivotSchema \<in> m_flags s' \<and> kFromMayaSchema \<notin> m_flags s'
         else if M MatrixStack ops \<noteq> []
         then m_orderedOps s' = M MatrixStack ops \<and> kFromMatrix \<in> m_flags s'
              \<and> kFromMayaSchema \<notin> m_flags s' \<and> kSinglePivotSchema \<notin> m_flags s'
         else m_orderedOps s' = [] \<and> m_flags s' \<inter> kAnyKnownSchema = {})"
    by (rule newer_schema_priority[OF valid fresh ops M contract])
  show "\<exists>s'. initialiseToPrim_old ext F r s = Some s' \<and> m_xformops s' = ops \<and> m_orderedOps s' = F ops
     \<and> (if F ops = [] then m_flags s' \<inter> kAnyKnownSchema = {}
         else kFromMayaSchema \<in> m_flags s' \<and> kSinglePivotSchema \<notin> m_flags s')"
    by (rule initialiseToPrim_old_result[where F = F, OF valid fresh ops contract_old])
qed

theorem first_matching_schema_wins_witness:
  "IsValid (m_prim unboundState) \<and> m_flags unboundState \<inter> kAnyKnownSchema = {}
   \<and> xformOpOrder (m_prim unboundState) = [translateOp]
   \<and> MatchingSubstack matcherExt MayaStack [translateOp] = [opClass Tok_translate TypeTranslate False]
   \<and> (\<exists>s'. initialiseToPrim matcherExt True unboundState = Some s'
         \<and> m_orderedOps s' = [opClass Tok_translate TypeTranslate False]
         \<and> kFromMayaSchema \<in> m_flags s' \<and> kSinglePivotSchema \<notin> m_flags s')
   \<and> (\<exists>s'. initialiseToPrim_old matcherExt (MatchingSubstack matcherExt MayaStack) True unboundState = Some s'
         \<and> m_orderedOps s' = [opClass Tok_translate TypeTranslate False]
         \<and> kFromMayaSchema \<in> m_flags s')"
proof -
  have v: "IsValid (m_prim unboundState)" by (simp add: unboundState_def animatedPrim_def)
  have f: "m_flags unboundState \<inter> kAnyKnownSchema = {}"
    by (simp add: unboundState_def kAnyKnownSchema_def)
  have o: "[translateOp] = xformOpOrder (m_prim unboundState)"
    by (simp add: unboundState_def animatedPrim_def)
  have mm: "MatchingSubstack matcherExt MayaStack [translateOp] = [opClass Tok_translate TypeTranslate False]"
    by (simp add: matcherExt_def plainExt_def)
  have c: "\<forall>stack \<in> set (map fst stackFlagPairs).
      MatchingSubstack matcherExt stack [translateOp] = []
      \<or> length (MatchingSubstack matcherExt stack [translateOp]) = length [translateOp]"
    by (simp add: matcherExt_def plainExt_def stackFlagPairs_def)
  have c': "MatchingSubstack matcherExt MayaStack [translateOp] = []
      \<or> length (MatchingSubstack matcherExt MayaStack [translateOp]) = length [translateOp]"
    by (simp add: mm)
  from first_matching_schema_wins [where F = "MatchingSubstack matcherExt MayaStack" and r = True
      and M = "MatchingSubstack matcherExt", OF v f o refl c c'] mm
  have "(\<exists>s'. initialiseToPrim matcherExt True unboundState = Some s'
         \<and> m_orderedOps s' = [opClass Tok_translate TypeTranslate False]
         \<and> kFromMayaSchema \<in> m_flags s' \<and> kSinglePivotSchema \<notin> m_flags s')
      \<and> (\<exists>s'. initialiseToPrim_old matcherExt (MatchingSubstack matcherExt MayaStack) True unboundState = Some s'
         \<and> m_orderedOps s' = [opClass Tok_translate TypeTranslate False]
         \<and> kFromMayaSchema \<in> m_flags s')"
    by auto
  with v f o mm show ?thesis by simp
qed

text \<open>
  C5 as stated fails in the older copy for the empty operation list: no matcher can classify
  anything there, and the older \<open>initialiseToPrim\<close> then sets no schema flag, where the newer
  one sets the flag of the full stack.
\<close>

theorem first_matching_schema_wins_counterexample:
  "IsValid (m_prim unflaggedState) \<and> xformOpOrder (m_prim unflaggedState) = []
   \<and> m_flags unflaggedState = {}
   \<and> map_option m_flags (initialiseToPrim_old plainExt noMatch True unflaggedState)
       = Some {kInheritsTransform}
   \<and> map_option m_flags (initialiseToPrim plainExt True unflaggedState)
       = Some {kInheritsTransform, kFromMayaSchema}"
  by (simp add: unflaggedState_def freshState_def emptyPrim_def noMatch_def plainExt_def
      initialiseToPrim_old_def initialiseToPrim_def Let_def setFlag_def kAnyKnownSchema_def
      animationLock_def kAnimationMask_def insert_commute)

text \<open>
  The engine does not check an answer of the matcher: a classification shorter than the operation
  list is adopted with the schema's flag, and the initialisation loop then reads beyond its end.
\<close>

lemma unchecked_answer_is_adopted:
  "m_orderedOps (matchStacks partialExt stackFlagPairs twoOpState) = [opClass Tok_translate TypeTranslate False]
   \<and> kFromMayaSchema \<in> m_flags (matchStacks partialExt stackFlagPairs twoOpState)
   \<and> initialiseToPrim partialExt False twoOpState = None"
  by (simp add: twoOpState_def orderedPrim_def unorderedPrim_def animatedPrim_def freshState_def
      partialExt_def plainExt_def stackFlagPairs_def setFlag_def Let_def initialiseToPrim_def
      kAnyKnownSchema_def initialiseOp_def animatedIf_def opClass_def GetNumTimeSamples_def
      translateOp_def scaleOp_def)

text \<open>
  C8 (as amended). After an initialisation that returns: every operation that the matched schema
  classified (the pairs of the operation list and the classification list), is not an inverted twin, has more
  than one time sample and is a translate, rotate, scale, shear or matrix operation has its
  component marked animated; and whenever any animated flag is set, push to prim is off and
  read animated values is on, whatever the two flags were before.
\<close>

theorem animated_lock:
  assumes valid: "IsValid (m_prim s)" and init: "initialiseToPrim ext r s = Some s'"
  shows "(m_flags s' \<inter> kAnimationMask \<noteq> {} \<longrightarrow>
            kPushToPrimEnabled \<notin> m_flags s' \<and> kReadAnimatedValues \<in> m_flags s')
     \<and> (\<forall>(op, c) \<in> set (zip (m_xformops s') (m_orderedOps s')).
            \<not> IsInvertedTwin c \<and> GetNumTimeSamples (m_prim s) op > 1 \<longrightarrow>
              (GetName c = Tok_translate \<longrightarrow> kAnimatedTranslation \<in> m_flags s')
              \<and> (GetName c = Tok_rotate \<longrightarrow> kAnimatedRotation \<in> m_flags s')
              \<and> (GetName c = Tok_scale \<longrightarrow> kAnimatedScale \<in> m_flags s')
              \<and> (GetName c = Tok_shear \<longrightarrow> kAnimatedShear \<in> m_flags s')
              \<and> (GetName c = Tok_transform \<longrightarrow> kAnimatedMatrix \<in> m_flags s')
              \<and> (GetName c \<in> {Tok_translate, Tok_rotate, Tok_scale, Tok_shear, Tok_transform} \<longrightarrow>
                    kPushToPrimEnabled \<notin> m_flags s' \<and> kReadAnimatedValues \<in> m_flags s'))"
proof -
  define s3 where "s3 = (let s1 = s\<lparr>m_xformops := xformOpOrder (m_prim s), m_orderedOps := [], m_orderedOpMayaIndices := []\<rparr>;
            s2 = (if \<not> resetsXformStack (m_prim s) then setFlag kInheritsTransform s1 else s1)
        in if m_xformops s2 = [] then setFlag kFromMayaSchema s2
           else matchStacks ext stackFlagPairs s2)"
  have m: "matched ext r s3 = Some s'"
    using init valid by (simp add: initialiseToPrim_matched s3_def)
  have p3: "m_prim s3 = m_prim s"
    by (simp add: s3_def Let_def setFlag_def stackFlagPairs_def)
  have known: "m_orderedOps s3 \<noteq> [] \<Longrightarrow> m_flags s3 \<inter> kAnyKnownSchema \<noteq> {}"
    by (auto simp add: s3_def Let_def setFlag_def stackFlagPairs_def kAnyKnownSchema_def split: if_splits)
  have lock: "m_flags s' \<inter> kAnimationMask \<noteq> {} \<longrightarrow>
            kPushToPrimEnabled \<notin> m_flags s' \<and> kReadAnimatedValues \<in> m_flags s'"
    using m animationLock_locks by (auto simp: matched_def split: if_splits option.splits)
  have marks: "(GetName c = Tok_translate \<longrightarrow> kAnimatedTranslation \<in> m_flags s')
              \<and> (GetName c = Tok_rotate \<longrightarrow> kAnimatedRotation \<in> m_flags s')
              \<and> (GetName c = Tok_scale \<longrightarrow> kAnimatedScale \<in> m_flags s')
              \<and> (GetName c = Tok_shear \<longrightarrow> kAnimatedShear \<in> m_flags s')
              \<and> (GetName c = Tok_transform \<longrightarrow> kAnimatedMatrix \<in> m_flags s')"
    if z: "(op, c) \<in> set (zip (m_xformops s') (m_orderedOps s'))"
      and tw: "\<not> IsInvertedTwin c" and n: "GetNumTimeSamples (m_prim s) op > 1" for op c
  proof (cases "m_flags s3 \<inter> kAnyKnownSchema \<noteq> {}")
    case True
    with m obtain s4 where run: "initialiseLoop ext r (m_xformops s3) (m_orderedOps s3) s3 = Some s4"
      and s': "s' = animationLock s4" by (auto simp: matched_def split: option.splits)
    from initialiseLoop_frame[OF run] z s' animationLock_frame[of s4]
    have z3: "(op, c) \<in> set (zip (m_xformops s3) (m_orderedOps s3))" by simp
    from n p3 have "GetNumTimeSamples (m_prim s3) op > 1" by simp
    from initialiseLoop_marks[OF run z3 tw this]
      animationLock_frame[of s4 kAnimatedTranslation] animationLock_frame[of s4 kAnimatedRotation]
      animationLock_frame[of s4 kAnimatedScale] animationLock_frame[of s4 kAnimatedShear]
      animationLock_frame[of s4 kAnimatedMatrix]
    show ?thesis by (simp add: s')
  next
    case False
    with m have s': "s' = animationLock s3" by (simp add: matched_def)
    from False known have "m_orderedOps s3 = []" by blast
    with z s' animationLock_frame[of s3] show ?thesis by simp
  qed
  have both: "GetName c \<in> {Tok_translate, Tok_rotate, Tok_scale, Tok_shear, Tok_transform} \<longrightarrow>
                    kPushToPrimEnabled \<notin> m_flags s' \<and> kReadAnimatedValues \<in> m_flags s'"
    if z: "(op, c) \<in> set (zip (m_xformops s') (m_orderedOps s'))"
      and tw: "\<not> IsInvertedTwin c" and n: "GetNumTimeSamples (m_prim s) op > 1" for op c
    using marks[OF z tw n] lock by (auto simp: kAnimationMask_def)
  from lock marks both show ?thesis by blast
qed



lemma unboundState_initialises:
  "\<exists>s'. initialiseToPrim matcherExt True unboundState = Some s'
     \<and> m_xformops s' = [translateOp]
     \<and> m_orderedOps s' = [opClass Tok_translate TypeTranslate False]"
proof -
  define s3 where "s3 = setFlag kFromMayaSchema
     (setFlag kInheritsTransform
        (unboundState\<lparr>m_xformops := [translateOp], m_orderedOps := [], m_orderedOpMayaIndices := []\<rparr>)
      \<lparr>m_orderedOps := [opClass Tok_translate TypeTranslate False]\<rparr>)"
  have v: "IsValid (m_prim unboundState)" by (simp add: unboundState_def animatedPrim_def)
  have mm: "MatchingSubstack matcherExt MayaStack [translateOp] = [opClass Tok_translate TypeTranslate False]"
    by (simp add: matcherExt_def plainExt_def)
  have p: "xformOpOrder (m_prim unboundState) = [translateOp]" "\<not> resetsXformStack (m_prim unboundState)"
    by (simp_all add: unboundState_def animatedPrim_def)
  have "initialiseToPrim matcherExt True unboundState = matched matcherExt True s3"
    by (simp add: initialiseToPrim_matched[OF v] p Let_def stackFlagPairs_def mm s3_def setFlag_def)
  moreover have "length (m_xformops s3) = length (m_orderedOps s3)"
    by (simp add: s3_def setFlag_def)
  from matched_aligned[OF this, of matcherExt True]
  obtain s' where "matched matcherExt True s3 = Some s'" "m_orderedOps s' = m_orderedOps s3"
    "m_xformops s' = m_xformops s3" by blast
  ultimately show ?thesis by (auto simp: s3_def setFlag_def)
qed

theorem animated_lock_witness:
  "IsValid (m_prim unboundState) \<and> kPushToPrimEnabled \<in> m_flags unboundState
   \<and> kReadAnimatedValues \<notin> m_flags unboundState
   \<and> GetNumTimeSamples (m_prim unboundState) translateOp = 2
   \<and> (\<exists>s'. initialiseToPrim matcherExt True unboundState = Some s'
         \<and> (translateOp, opClass Tok_translate TypeTranslate False) \<in> set (zip (m_xformops s') (m_orderedOps s'))
         \<and> kAnimatedTranslation \<in> m_flags s'
         \<and> kPushToPrimEnabled \<notin> m_flags s' \<and> kReadAnimatedValues \<in> m_flags s')"
proof -
  obtain s' where run: "initialiseToPrim matcherExt True unboundState = Some s'"
    and lists: "m_xformops s' = [translateOp]" "m_orderedOps s' = [opClass Tok_translate TypeTranslate False]"
    using unboundState_initialises by blast
  have v: "IsValid (m_prim unboundState)" by (simp add: unboundState_def animatedPrim_def)
  have n: "GetNumTimeSamples (m_prim unboundState) translateOp = 2"
    by (simp add: unboundState_def animatedPrim_def GetNumTimeSamples_def translateOp_def)
  have fl: "kPushToPrimEnabled \<in> m_flags unboundState" "kReadAnimatedValues \<notin> m_flags unboundState"
    by (simp_all add: unboundState_def)
  have z: "(translateOp, opClass Tok_translate TypeTranslate False) \<in> set (zip (m_xformops s') (m_orderedOps s'))"
    by (simp add: lists)
  have c: "\<not> IsInvertedTwin (opClass Tok_translate TypeTranslate False)"
    "GetName (opClass Tok_translate TypeTranslate False) = Tok_translate"
    by (simp_all add: opClass_def)
  from animated_lock[OF v run] z c n
  have "kAnimatedTranslation \<in> m_flags s' \<and> kPushToPrimEnabled \<notin> m_flags s' \<and> kReadAnimatedValues \<in> m_flags s'"
    by fastforce
  with v n fl run z show ?thesis by blast
qed

text \<open>
  C8 as stated fails for a stack no schema matches: the loop that marks the animated components
  runs only under a known schema. The translate operation of the prim below has two time samples
  and follows a scale operation, so no schema matches; after initialisation no component is marked
  animated, push to prim is still enabled and read animated values is still off.
\<close>

theorem animated_lock_counterexample:
  "IsValid (m_prim unorderedState)
   \<and> xformOpOrder (m_prim unorderedState) = [scaleOp, translateOp]
   \<and> GetOpType translateOp = TypeTranslate
   \<and> GetNumTimeSamples (m_prim unorderedState) translateOp = 2
   \<and> MatchingSubstack plainExt MayaStack [scaleOp, translateOp] = []
   \<and> MatchingSubstack plainExt MayaSinglePivotStack [scaleOp, translateOp] = []
   \<and> MatchingSubstack plainExt MatrixStack [scaleOp, translateOp] = []
   \<and> map_option m_flags (initialiseToPrim plainExt True unorderedState)
       = Some {kPushToPrimEnabled, kInheritsTransform}"
  by (simp add: unorderedState_def unorderedPrim_def animatedPrim_def freshState_def plainExt_def
      initialiseToPrim_def Let_def setFlag_def stackFlagPairs_def kAnyKnownSchema_def animationLock_def
      kAnimationMask_def GetNumTimeSamples_def translateOp_def GetOpType_def insert_commute)

section \<open>Removing a role that is not in the stack\<close>

lemma removeLoop_no_match:
  "i < length (m_orderedOps s) \<Longrightarrow> \<forall>c \<in> set (m_orderedOps s). GetName c \<noteq> opName \<Longrightarrow>
     removeLoop opName i foundOne s = Some (foundOne, s)"
  by (induction i) auto

text \<open>
  C7 (as amended). Asked to remove a role that no classification of a non-empty stack carries,
  \<open>removeOp\<close> returns failure and leaves the operation list, the classification list, the
  index table and the prim with its operation order as they were; it clears the presence flag
  it was given, so the flags stay as they were exactly when that flag was clear already.
\<close>

theorem removeOp_no_match:
  assumes "m_orderedOps s \<noteq> []" and "\<forall>c \<in> set (m_orderedOps s). GetName c \<noteq> opName"
  shows "removeOp opName oldFlag s = Some (kFailure, s\<lparr>m_flags := m_flags s - {oldFlag}\<rparr>)"
proof -
  from assms(1) have "length (m_orderedOps s) - 1 < length (m_orderedOps s)" by (cases "m_orderedOps s") auto
  from removeLoop_no_match[OF this assms(2)] assms(1) show ?thesis
    by (simp add: removeOp_def clearFlag_def)
qed

text \<open>
  C7 as stated fails on the flags: \<open>removeOp\<close> clears the presence flag before it tests
  whether anything was found, so a failed removal changes the flags when the flag was set.
\<close>

theorem removeOp_no_match_counterexample:
  "Tok_pivot \<notin> set (map GetName (m_orderedOps staleFlagState))
   \<and> removeOp Tok_pivot kPrimHasPivot staleFlagState = Some (kFailure, clearFlag kPrimHasPivot staleFlagState)
   \<and> kPrimHasPivot \<in> m_flags staleFlagState
   \<and> m_flags (clearFlag kPrimHasPivot staleFlagState) \<noteq> m_flags staleFlagState"
  by (auto simp add: staleFlagState_def animatedState_def removeOp_def clearFlag_def opClass_def)

theorem removeOp_no_match_witness:
  "m_orderedOps animatedState \<noteq> []
   \<and> Tok_pivot \<notin> set (map GetName (m_orderedOps animatedState))
   \<and> removeOp Tok_pivot kPrimHasPivot animatedState = Some (kFailure, animatedState)"
proof -
  have a: "m_orderedOps animatedState \<noteq> []" by (simp add: animatedState_def)
  have b: "\<forall>c \<in> set (m_orderedOps animatedState). GetName c \<noteq> Tok_pivot"
    by (simp add: animatedState_def opClass_def)
  have c: "animatedState\<lparr>m_flags := m_flags animatedState - {kPrimHasPivot}\<rparr> = animatedState"
    by (simp add: animatedState_def)
  from removeOp_no_match[OF a b, of kPrimHasPivot] a b c show ?thesis by auto
qed


text \<open>On an empty stack the scan starts at index \<open>size - 1\<close>, which wraps: an out-of-range read.\<close>

lemma removeOp_empty_stack: "m_orderedOps s = [] \<Longrightarrow> removeOp opName oldFlag s = None"
  by (simp add: removeOp_def)

section \<open>The parallel lists under insertion and removal\<close>

lemma FindOpIndexPair_pivots:
  "FindOpIndexPair MayaStack Tok_rotatePivot = (2, 5)"
  "FindOpIndexPair MayaStack Tok_scalePivot = (7, 10)"
  by (simp_all add: FindOpIndexPair_def MayaStack_def opClass_def)

lemma MayaStack_nth:
  "GetOps MayaStack ! 2 = opClass Tok_rotatePivot TypeTranslate False"
  "GetOps MayaStack ! 5 = opClass Tok_rotatePivot TypeTranslate True"
  "GetOps MayaStack ! 7 = opClass Tok_scalePivot TypeTranslate False"
  "GetOps MayaStack ! 10 = opClass Tok_scalePivot TypeTranslate True"
  "length (GetOps MayaStack) = 11"
  by (simp_all add: MayaStack_def)


lemmas scene_defs = pivotScene_def pivotPrim_def pivotOp_fwd_def pivotOp_inv_def opClass_def
  identityBase_def zeroTweak_def identityFromUsd_def unlocked_def
  rotatePivotOp_fwd_def rotatePivotOp_inv_def scalePivotOp_fwd_def scalePivotOp_inv_def

lemmas run_defs = setScalePivot_def MPx_set_def pushAfterEdit_def pushToPrimAvailable_def
  pushToPrimEnabled_def pushPrimToMatrix_def insertScalePivotOp_def statusOf_def
  removeOp_def eraseFromLists_def erase_def clearFlag_def SetXformOpOrder_def insert_Diff_if
  insertOp_def buildOrderedOpMayaIndices_def FindOpIndexPair_pivots MayaStack_nth NO_INDEX_def
  addOp_def AddXformOp_def valueTypeName_def findOpInsertPos_def insert_at_def setFlag_def Let_def
  thenPush_def pushToPrim_def pushOp_def internal_pushPoint_def pushPoint_def GetTypeName_def
  getTimeCode_def readAnimatedValues_def set_if_changed_def op_Get_def op_Set_def valueFits_def
  attr_Set_def addSample_def readPoint_def getVec3_def

lemma zip_insert_at:
  "length xs = length ys \<Longrightarrow>
     zip (insert_at i x xs) (insert_at i y ys) = insert_at i (x, y) (zip xs ys)"
  by (simp add: insert_at_def take_zip drop_zip)

lemma zip_erase:
  "length xs = length ys \<Longrightarrow> zip (erase i xs) (erase i ys) = erase i (zip xs ys)"
  by (simp add: erase_def take_zip drop_zip)

lemma subseq_insert_at: "subseq xs (insert_at i x xs)"
proof -
  have "subseq (take i xs @ drop i xs) (take i xs @ x # drop i xs)"
    unfolding subseq_append' by auto
  then show ?thesis by (simp add: insert_at_def)
qed

lemma subseq_erase: "subseq (erase i xs) xs"
proof -
  have "subseq (drop (Suc i) xs) (drop i xs)"
  proof (cases "i < length xs")
    case True
    then show ?thesis by (auto simp flip: Cons_nth_drop_Suc)
  next
    case False
    then show ?thesis by simp
  qed
  then have "subseq (take i xs @ drop (Suc i) xs) (take i xs @ drop i xs)"
    unfolding subseq_append' .
  then show ?thesis by (simp add: erase_def)
qed

lemma erase_insert_at: "i \<le> length xs \<Longrightarrow> erase i (insert_at i x xs) = xs"
  by (simp add: erase_def insert_at_def)

lemma length_insert_at [simp]: "length (insert_at i x xs) = Suc (length xs)"
  by (simp add: insert_at_def)

lemma length_erase: "i < length xs \<Longrightarrow> length (erase i xs) = length xs - 1"
  by (simp add: erase_def)


lemma buildOrderedOpMayaIndices_lists [simp]:
  "m_xformops (buildOrderedOpMayaIndices s) = m_xformops s"
  "m_orderedOps (buildOrderedOpMayaIndices s) = m_orderedOps s"
  by (simp_all add: buildOrderedOpMayaIndices_def)

text \<open>What one \<open>addOp\<close> does to the two parallel lists.\<close>

lemma addOp_lists:
  assumes "addOp ty pr n i b s = Some (r, s')"
  shows "(r = - 1 \<and> s' = s)
       \<or> (0 \<le> r \<and> nat r \<le> length (m_orderedOps s) \<and> nat r \<le> length (m_xformops s)
          \<and> (\<exists>op. m_xformops s' = insert_at (nat r) op (m_xformops s))
          \<and> m_orderedOps s' = insert_at (nat r) (GetOps MayaStack ! i) (m_orderedOps s)
          \<and> m_orderedOpMayaIndices s' = insert_at (nat r) i (m_orderedOpMayaIndices s))"
  using assms unfolding addOp_def Let_def
  by (auto split: if_splits option.splits prod.splits)

lemma removeLoop_found: "removeLoop n i True s = Some (b, s') \<Longrightarrow> b"
  by (induction i arbitrary: s) (auto split: if_splits)

lemma removeLoop_aligned:
  assumes "removeLoop n i f s = Some (b, s')" "length (m_xformops s) = length (m_orderedOps s)"
  shows "length (m_xformops s') = length (m_orderedOps s')
       \<and> subseq (zip (m_xformops s') (m_orderedOps s')) (zip (m_xformops s) (m_orderedOps s))
       \<and> (\<not> b \<longrightarrow> s' = s)"
  using assms
proof (induction n i f s arbitrary: b s' rule: removeLoop.induct)
  case (1 opName foundOne s)
  let ?e = "eraseFromLists 0 s"
  have le: "length (m_xformops ?e) = length (m_orderedOps ?e)"
    using 1(2) by (simp add: eraseFromLists_def erase_def)
  have se: "subseq (zip (m_xformops ?e) (m_orderedOps ?e)) (zip (m_xformops s) (m_orderedOps s))"
    using 1(2) by (simp add: eraseFromLists_def zip_erase subseq_erase)
  from 1(1) 1(2) le se show ?case
    by (auto split: if_splits)
next
  case (2 opName i foundOne s)
  let ?e = "eraseFromLists (Suc i) s"
  have le: "length (m_xformops ?e) = length (m_orderedOps ?e)"
    using 2(4) by (simp add: eraseFromLists_def erase_def)
  have se: "subseq (zip (m_xformops ?e) (m_orderedOps ?e)) (zip (m_xformops s) (m_orderedOps s))"
    using 2(4) by (simp add: eraseFromLists_def zip_erase subseq_erase)
  show ?case
  proof (cases "opName = GetName (m_orderedOps s ! Suc i)")
    case True
    show ?thesis
    proof (cases foundOne)
      case True
      with \<open>opName = GetName (m_orderedOps s ! Suc i)\<close> 2(3) le se show ?thesis
        by (auto split: if_splits)
    next
      case False
      with \<open>opName = GetName (m_orderedOps s ! Suc i)\<close> 2(3)
      have run: "removeLoop opName i True ?e = Some (b, s')" and inr: "\<not> Suc i \<ge> length (m_orderedOps s)"
        "\<not> (Suc i \<ge> length (m_xformops s)
               \<or> (m_orderedOpMayaIndices s \<noteq> [] \<and> Suc i \<ge> length (m_orderedOpMayaIndices s)))"
        by (auto split: if_splits)
      from "2.IH"(1)[OF inr(1) \<open>opName = GetName (m_orderedOps s ! Suc i)\<close> inr(2) False run le]
      have "length (m_xformops s') = length (m_orderedOps s')"
        "subseq (zip (m_xformops s') (m_orderedOps s')) (zip (m_xformops ?e) (m_orderedOps ?e))"
        "\<not> b \<longrightarrow> s' = ?e" by auto
      moreover have "b" using removeLoop_found[OF run] .
      ultimately show ?thesis using se by (auto intro: subseq_order.trans)
    qed
  next
    case False
    with 2(3) have run: "removeLoop opName i foundOne s = Some (b, s')"
      and inr: "\<not> Suc i \<ge> length (m_orderedOps s)"
      by (auto split: if_splits)
    from "2.IH"(2)[OF inr False run 2(4)] show ?thesis .
  qed
qed


lemma addOp_aligned:
  assumes "addOp ty pr n i b s = Some (r, s1)" "length (m_xformops s) = length (m_orderedOps s)"
  shows "length (m_xformops s1) = length (m_orderedOps s1)
       \<and> subseq (zip (m_xformops s) (m_orderedOps s)) (zip (m_xformops s1) (m_orderedOps s1))
       \<and> (r = - 1 \<longrightarrow> s1 = s)
       \<and> (r \<noteq> - 1 \<longrightarrow> length (m_xformops s1) = Suc (length (m_xformops s))
              \<and> erase (nat r) (m_xformops s1) = m_xformops s
              \<and> erase (nat r) (m_orderedOps s1) = m_orderedOps s)"
  using addOp_lists[OF assms(1)] assms(2)
  by (auto simp: zip_insert_at subseq_insert_at erase_insert_at)

text \<open>
  The newer copy. From lists of equal length, \<open>insertOp\<close> and \<open>removeOp\<close> leave the operation list and
  the classification list of equal length and index-aligned: the old pairs of operation and
  classification are a subsequence of the new ones after an insertion, the new pairs are a
  subsequence of the old ones after a removal. A successful insertion adds one pair, or two for
  a paired role; a failed insertion, the rollback of a half-inserted pair included, and a failed
  removal leave both lists as they were.
\<close>

theorem lists_stay_aligned:
  assumes al: "length (m_xformops s) = length (m_orderedOps s)"
  shows "(insertOp ty pr n f b s = Some (st, s') \<longrightarrow>
            length (m_xformops s') = length (m_orderedOps s')
            \<and> subseq (zip (m_xformops s) (m_orderedOps s)) (zip (m_xformops s') (m_orderedOps s'))
            \<and> (st = kFailure \<longrightarrow> m_xformops s' = m_xformops s \<and> m_orderedOps s' = m_orderedOps s)
            \<and> (st = kSuccess \<longrightarrow> length (m_xformops s') = length (m_xformops s)
                    + (if snd (FindOpIndexPair MayaStack n) = NO_INDEX then 1 else 2)))
       \<and> (removeOp n f s = Some (st, s'') \<longrightarrow>
            length (m_xformops s'') = length (m_orderedOps s'')
            \<and> subseq (zip (m_xformops s'') (m_orderedOps s'')) (zip (m_xformops s) (m_orderedOps s))
            \<and> (st = kFailure \<longrightarrow> m_xformops s'' = m_xformops s \<and> m_orderedOps s'' = m_orderedOps s))"
proof (intro conjI impI)
  assume ins: "insertOp ty pr n f b s = Some (st, s')"
  let ?s0 = "buildOrderedOpMayaIndices s"
  let ?p = "FindOpIndexPair MayaStack n"
  have al0: "length (m_xformops ?s0) = length (m_orderedOps ?s0)" using al by simp
  have R: "length (m_xformops s') = length (m_orderedOps s')
        \<and> subseq (zip (m_xformops s) (m_orderedOps s)) (zip (m_xformops s') (m_orderedOps s'))
        \<and> (st = kFailure \<longrightarrow> m_xformops s' = m_xformops s \<and> m_orderedOps s' = m_orderedOps s)
        \<and> (st = kSuccess \<longrightarrow> length (m_xformops s') = length (m_xformops s)
                    + (if snd ?p = NO_INDEX then 1 else 2))"
  proof (cases "snd ?p = NO_INDEX")
    case True
    from insertOp_single[OF ins True] obtain r s2 where
      a: "addOp ty pr n (fst ?p) b ?s0 = Some (r, s2)"
      and c: "if r = - 1 then st = kFailure \<and> s' = s2
               else st = kSuccess \<and> s' = setFlag f (s2\<lparr>m_prim := SetXformOpOrder (m_prim s2) (m_xformops s2)
                                                (kInheritsTransform \<notin> m_flags s2)\<rparr>)" by blast
    from addOp_aligned[OF a al0] c True show ?thesis
      by (cases "r = - 1") (auto simp: setFlag_def)
  next
    case False
    from insertOp_pair[OF ins False] obtain r1 s1 where
      a: "addOp ty pr n (snd ?p) b ?s0 = Some (r1, s1)"
      and c: "if r1 = - 1 then st = kFailure \<and> s' = s1
               else \<exists>r2 s2. addOp ty pr n (fst ?p) b s1 = Some (r2, s2)
                 \<and> (if r2 = - 1
                     then st = kFailure
                          \<and> s' = s2\<lparr>m_orderedOps := erase (nat r1) (m_orderedOps s2),
                                    m_xformops := erase (nat r1) (m_xformops s2),
                                    m_orderedOpMayaIndices := erase (nat r1) (m_orderedOpMayaIndices s2)\<rparr>
                     else st = kSuccess
                          \<and> s' = setFlag f (s2\<lparr>m_prim := SetXformOpOrder (m_prim s2) (m_xformops s2)
                                                (kInheritsTransform \<notin> m_flags s2)\<rparr>))" by blast
    note A1 = addOp_aligned[OF a al0]
    show ?thesis
    proof (cases "r1 = - 1")
      case True
      with c A1 show ?thesis by auto
    next
      case r1: False
      with c obtain r2 s2 where a2: "addOp ty pr n (fst ?p) b s1 = Some (r2, s2)"
        and c2: "if r2 = - 1
                     then st = kFailure
                          \<and> s' = s2\<lparr>m_orderedOps := erase (nat r1) (m_orderedOps s2),
                                    m_xformops := erase (nat r1) (m_xformops s2),
                                    m_orderedOpMayaIndices := erase (nat r1) (m_orderedOpMayaIndices s2)\<rparr>
                     else st = kSuccess
                          \<and> s' = setFlag f (s2\<lparr>m_prim := SetXformOpOrder (m_prim s2) (m_xformops s2)
                                                (kInheritsTransform \<notin> m_flags s2)\<rparr>)" by auto
      from A1 have al1: "length (m_xformops s1) = length (m_orderedOps s1)" by simp
      note A2 = addOp_aligned[OF a2 al1]
      show ?thesis
      proof (cases "r2 = - 1")
        case True
        with c2 A2 A1 r1 al False show ?thesis by auto
      next
        case r2: False
        have "subseq (zip (m_xformops s) (m_orderedOps s)) (zip (m_xformops s2) (m_orderedOps s2))"
          using A1 A2 by (auto intro: subseq_order.trans)
        with c2 A2 A1 r1 r2 False show ?thesis by (auto simp: setFlag_def)
      qed
    qed
  qed
  from R show "length (m_xformops s') = length (m_orderedOps s')" by simp
  from R show "subseq (zip (m_xformops s) (m_orderedOps s)) (zip (m_xformops s') (m_orderedOps s'))" by simp
  from R show "m_xformops s' = m_xformops s" if "st = kFailure" using that by simp
  from R show "m_orderedOps s' = m_orderedOps s" if "st = kFailure" using that by simp
  from R show "length (m_xformops s') = length (m_xformops s)
                    + (if snd ?p = NO_INDEX then 1 else 2)" if "st = kSuccess" using that by simp
next
  assume rem: "removeOp n f s = Some (st, s'')"
  then obtain b s1 where run: "removeLoop n (length (m_orderedOps s) - 1) False s = Some (b, s1)"
    and res: "s'' = (if b then (clearFlag f s1)\<lparr>m_prim := SetXformOpOrder (m_prim (clearFlag f s1))
                  (m_xformops (clearFlag f s1)) (kInheritsTransform \<notin> m_flags (clearFlag f s1))\<rparr>
               else clearFlag f s1)"
    and stb: "st = (if b then kSuccess else kFailure)"
    by (auto simp: removeOp_def Let_def split: if_splits option.splits prod.splits)
  note A = removeLoop_aligned[OF run al]
  from A res al show "length (m_xformops s'') = length (m_orderedOps s'')" by (simp add: clearFlag_def)
  from A res al show "subseq (zip (m_xformops s'') (m_orderedOps s'')) (zip (m_xformops s) (m_orderedOps s))"
    by (simp add: clearFlag_def)
  from A res stb show "m_xformops s'' = m_xformops s" if "st = kFailure"
    using that by (auto simp: clearFlag_def split: if_splits)
  from A res stb show "m_orderedOps s'' = m_orderedOps s" if "st = kFailure"
    using that by (auto simp: clearFlag_def split: if_splits)
qed


theorem lists_stay_aligned_witness:
  "length (m_xformops freshState) = length (m_orderedOps freshState)
   \<and> (\<exists>s'. insertOp TypeTranslate PrecisionFloat Tok_rotatePivot kPrimHasRotatePivot False freshState
             = Some (kSuccess, s')
         \<and> length (m_xformops s') = 2 \<and> length (m_orderedOps s') = 2)
   \<and> (\<exists>s'. insertOp TypeTranslate PrecisionFloat Tok_rotatePivot kPrimHasRotatePivot False rollbackState
             = Some (kFailure, s')
         \<and> m_xformops s' = [] \<and> m_orderedOps s' = [])
   \<and> (\<exists>s''. removeOp Tok_pivot kPrimHasPivot (pivotScene (MVector 1 2 3)) = Some (kSuccess, s'')
         \<and> length (m_xformops s'') = length (m_orderedOps s''))"
proof -
  have a1: "length (m_xformops freshState) = length (m_orderedOps freshState)"
    by (simp add: freshState_def)
  have a2: "length (m_xformops rollbackState) = length (m_orderedOps rollbackState)"
    by (simp add: rollbackState_def freshState_def)
  have a3: "length (m_xformops (pivotScene (MVector 1 2 3))) = length (m_orderedOps (pivotScene (MVector 1 2 3)))"
    by (simp add: pivotScene_def)
  obtain s1 where r1: "insertOp TypeTranslate PrecisionFloat Tok_rotatePivot kPrimHasRotatePivot False freshState
             = Some (kSuccess, s1)"
    by (simp add: freshState_def emptyPrim_def scene_defs run_defs)
  obtain s2 where r2: "insertOp TypeTranslate PrecisionFloat Tok_rotatePivot kPrimHasRotatePivot False rollbackState
             = Some (kFailure, s2)"
    by (simp add: rollbackState_def freshState_def emptyPrim_def scene_defs run_defs)
  obtain s3 where r3: "removeOp Tok_pivot kPrimHasPivot (pivotScene (MVector 1 2 3)) = Some (kSuccess, s3)"
    by (simp add: scene_defs run_defs)
  from lists_stay_aligned[OF a1, where ty = TypeTranslate and pr = PrecisionFloat and n = Tok_rotatePivot
      and f = kPrimHasRotatePivot and b = False and st = kSuccess and s' = s1 and s'' = s1] r1
  have c1: "length (m_xformops s1) = 2 \<and> length (m_orderedOps s1) = 2"
    by (simp add: FindOpIndexPair_pivots NO_INDEX_def freshState_def)
  from lists_stay_aligned[OF a2, where ty = TypeTranslate and pr = PrecisionFloat and n = Tok_rotatePivot
      and f = kPrimHasRotatePivot and b = False and st = kFailure and s' = s2 and s'' = s2] r2
  have c2: "m_xformops s2 = [] \<and> m_orderedOps s2 = []"
    by (simp add: rollbackState_def freshState_def)
  from lists_stay_aligned[OF a3, where ty = TypeTranslate and pr = PrecisionFloat and n = Tok_pivot
      and f = kPrimHasPivot and b = False and st = kSuccess and s' = s3 and s'' = s3] r3
  have c3: "length (m_xformops s3) = length (m_orderedOps s3)" by simp
  show ?thesis
    using a1 r1 c1 r2 c2 r3 c3 by (intro conjI exI[of _ s1] exI[of _ s2] exI[of _ s3]) simp_all
qed


section \<open>Splitting the combined pivot\<close>



section \<open>A second push changes nothing\<close>

text \<open>
  Each codec write is an update of the attribute of its operation, and applying it twice is
  applying it once; this holds for \<open>pushDouble\<close> too, whose comparison does not depend on
  what it stores unless it stores at the default time. One step of the loop of \<open>pushToPrim\<close>
  is therefore idempotent, and a step leaves settled what an earlier step on another attribute
  settled. When the operations that are written (those that are not inverted twins) have
  distinct attributes, a \<open>pushToPrim\<close> that returns leaves a state that a second
  \<open>pushToPrim\<close> returns unchanged; it returns whenever the classification list is at least as
  long as the operation list.
\<close>

lemma updAttr_same: "attrs prim k = Some a \<Longrightarrow> w a = a \<Longrightarrow> updAttr k w prim = prim"
  by (simp add: updAttr_def fun_upd_idem)

lemma updAttr_id [simp]: "updAttr k (\<lambda>a. a) prim = prim"
  by (simp add: updAttr_def fun_upd_idem split: option.splits)

lemma updAttr_idem: "(\<And>a. w (w a) = w a) \<Longrightarrow> updAttr k w (updAttr k w prim) = updAttr k w prim"
  by (simp add: updAttr_def split: option.splits)

lemma updAttr_other:
  "k \<noteq> k' \<Longrightarrow> updAttr k w prim = prim \<Longrightarrow> updAttr k w (updAttr k' w' prim) = updAttr k' w' prim"
proof (cases "attrs prim k")
  case None
  assume "k \<noteq> k'"
  with None show ?thesis by (simp add: updAttr_def split: option.splits)
next
  case (Some a)
  assume ne: "k \<noteq> k'" and fx: "updAttr k w prim = prim"
  from fx Some have "(attrs prim)(k \<mapsto> w a) = attrs prim"
    by (simp add: updAttr_def) (metis UsdPrim.select_convs(2) UsdPrim.surjective UsdPrim.update_convs(2))
  then have "w a = a" using Some by (metis fun_upd_same option.inject)
  with ne Some show ?thesis
    by (auto simp add: updAttr_def fun_upd_idem fun_upd_twist split: option.splits)
qed

lemma set_if_changed_updAttr:
  "set_if_changed prim op v rt wt = updAttr (opAttr op) (storeIfChanged v rt wt) prim"
  by (auto simp add: set_if_changed_def updAttr_def storeIfChanged_def op_Get_def op_Set_def fun_upd_idem
      split: option.splits)

lemma op_Set_updAttr:
  "op_Set prim op v t = updAttr (opAttr op) (\<lambda>a. if valueFits (typeName a) v then attr_Set v t a else a) prim"
  by (auto simp add: updAttr_def op_Set_def fun_upd_idem split: option.splits)

lemma attr_Set_twice [simp]: "attr_Set v t (attr_Set v t a) = attr_Set v t a"
  by (cases t) (simp_all add: attr_Set_def addSample_def)

lemma typeName_attr_Set [simp]: "typeName (attr_Set v t a) = typeName a"
  by (simp add: attr_Set_def)

lemma storeIfChanged_idem:
  "storeIfChanged v rt wt (storeIfChanged v rt wt a) = storeIfChanged v rt wt a"
  by (auto simp add: storeIfChanged_def)

lemma typeName_storeIfChanged [simp]: "typeName (storeIfChanged v rt wt a) = typeName a"
  by (simp add: storeIfChanged_def)

lemma pushVector_updAttr: "snd (pushVector v prim op tc) = updAttr (opAttr op) (writeVector v tc) prim"
proof (cases "attrs prim (opAttr op)")
  case None
  then show ?thesis by (simp add: pushVector_def GetTypeName_def updAttr_def)
next
  case (Some a)
  then have "updAttr (opAttr op) (storeIfChanged v' rt wt) prim
      = prim\<lparr>attrs := (attrs prim)(opAttr op \<mapsto> storeIfChanged v' rt wt a)\<rparr>" for v' rt wt
    by (simp add: updAttr_def)
  with Some show ?thesis
    by (cases "typeName a")
       (simp_all add: pushVector_def GetTypeName_def set_if_changed_updAttr writeVector_def updAttr_def fun_upd_idem)
qed

lemma pushPoint_updAttr: "snd (pushPoint v prim op tc) = updAttr (opAttr op) (writeVector v tc) prim"
  using pushVector_updAttr[of v prim op tc] by (simp add: pushPoint_def pushVector_def)

lemma pushShear_updAttr: "snd (pushShear v prim op tc) = updAttr (opAttr op) (writeShear v tc) prim"
proof (cases "attrs prim (opAttr op)")
  case None
  then show ?thesis by (simp add: pushShear_def GetTypeName_def updAttr_def)
next
  case (Some a)
  then show ?thesis
    by (cases "typeName a")
       (simp_all add: pushShear_def GetTypeName_def set_if_changed_updAttr writeShear_def updAttr_def fun_upd_idem)
qed

lemma pushDouble_updAttr: "pushDouble v prim op tc = updAttr (opAttr op) (writeDouble v tc) prim"
proof (cases "attrs prim (opAttr op)")
  case None
  then show ?thesis by (simp add: pushDouble_def GetTypeName_def updAttr_def)
next
  case (Some a)
  then show ?thesis
    by (cases "typeName a")
       (simp_all add: pushDouble_def GetTypeName_def set_if_changed_updAttr writeDouble_def updAttr_def fun_upd_idem)
qed

lemma pushRotation_updAttr:
  "snd (pushRotation v prim op tc) = updAttr (opAttr op) (writeRotation v (GetOpType op) tc) prim"
  by (cases "GetOpType op")
     (simp_all add: pushRotation_def pushRotationVec_def writeRotation_def pushDouble_updAttr pushVector_updAttr)

lemma write_idem:
  "writeVector v tc (writeVector v tc a) = writeVector v tc a"
  "writeShear v tc (writeShear v tc a) = writeShear v tc a"
  "writeDouble r tc (writeDouble r tc a) = writeDouble r tc a"
  by (simp_all add: writeVector_def writeShear_def writeDouble_def storeIfChanged_idem)

lemma writeRotation_idem: "writeRotation e ty tc (writeRotation e ty tc a) = writeRotation e ty tc a"
  by (simp add: writeRotation_def write_idem)

lemma pushOp_parts:
  "pushOp ext op c s =
     s\<lparr>m_prim := updAttr (opAttr op) (attrWrite ext op c s) (m_prim s),
       fromUsd := fromAfter c (base s) (fromUsd s),
       tweak := tweakAfter c (tweak s)\<rparr>"
  by (simp add: pushOp_def attrWrite_def fromAfter_def tweakAfter_def Let_def
      internal_pushVector_def internal_pushPoint_def internal_pushShear_def internal_pushRotation_def
      pushVector_updAttr pushPoint_updAttr pushShear_updAttr pushRotation_updAttr op_Set_updAttr)

lemma attrWrite_idem: "attrWrite ext op c s (attrWrite ext op c s a) = attrWrite ext op c s a"
  by (simp add: attrWrite_def Let_def write_idem writeRotation_idem)

lemma attrWrite_cong:
  assumes "base t = base s" "m_flags t = m_flags s" "m_time t = m_time s"
    "m_rotateOrientationFromUsd (fromUsd t) = m_rotateOrientationFromUsd (fromUsd s)"
  shows "attrWrite ext op c t = attrWrite ext op c s"
proof -
  have "getTimeCode t = getTimeCode s" "pushPrimToMatrix t = pushPrimToMatrix s"
    using assms by (simp_all add: getTimeCode_def readAnimatedValues_def pushPrimToMatrix_def)
  with assms(1,4) show ?thesis by (simp only: attrWrite_def)
qed

lemma fromAfter_orientation [simp]:
  "m_rotateOrientationFromUsd (fromAfter c b f) = m_rotateOrientationFromUsd f"
  by (simp add: fromAfter_def Let_def)

lemma fromAfter_idem: "fromAfter c b (fromAfter c b f) = fromAfter c b f"
  by (simp add: fromAfter_def Let_def)

lemma tweakAfter_idem: "tweakAfter c (tweakAfter c t) = tweakAfter c t"
  by (simp add: tweakAfter_def Let_def)

lemma pushOp_idem: "pushOp ext op c (pushOp ext op c s) = pushOp ext op c s"
proof -
  let ?t = "pushOp ext op c s"
  have w: "attrWrite ext op c ?t = attrWrite ext op c s"
    by (rule attrWrite_cong) (simp_all add: pushOp_parts)
  have "pushOp ext op c ?t =
     ?t\<lparr>m_prim := updAttr (opAttr op) (attrWrite ext op c s) (m_prim ?t),
        fromUsd := fromAfter c (base ?t) (fromUsd ?t),
        tweak := tweakAfter c (tweak ?t)\<rparr>"
    using pushOp_parts[of ext op c ?t] by (simp only: w)
  also have "\<dots> = ?t"
    by (simp add: pushOp_parts[of ext op c s] updAttr_idem attrWrite_idem fromAfter_idem tweakAfter_idem)
  finally show ?thesis .
qed

lemma fromAfter_commute: "fromAfter c b (fromAfter c' b f) = fromAfter c' b (fromAfter c b f)"
  by (simp add: fromAfter_def Let_def)

lemma tweakAfter_commute: "tweakAfter c (tweakAfter c' t) = tweakAfter c' (tweakAfter c t)"
  by (simp add: tweakAfter_def Let_def)

lemma IsValid_updAttr [simp]: "IsValid (updAttr k w prim) = IsValid prim"
  by (simp add: updAttr_def split: option.splits)

lemma pushOp_twin: "IsInvertedTwin c \<Longrightarrow> pushOp ext op c s = s"
  by (simp add: pushOp_def)

lemma pushOp_pres:
  assumes fx: "pushOp ext op c s = s"
    and sep: "IsInvertedTwin c \<or> IsInvertedTwin c' \<or> opAttr op \<noteq> opAttr op'"
  shows "pushOp ext op c (pushOp ext op' c' s) = pushOp ext op' c' s"
proof (cases "IsInvertedTwin c \<or> IsInvertedTwin c'")
  case True
  with fx show ?thesis by (auto simp add: pushOp_twin)
next
  case False
  with sep have ne: "opAttr op \<noteq> opAttr op'" by simp
  let ?t = "pushOp ext op' c' s"
  have "m_prim (pushOp ext op c s) = m_prim s" "fromUsd (pushOp ext op c s) = fromUsd s"
    "tweak (pushOp ext op c s) = tweak s"
    using fx by simp_all
  then have p: "updAttr (opAttr op) (attrWrite ext op c s) (m_prim s) = m_prim s"
    and f: "fromAfter c (base s) (fromUsd s) = fromUsd s"
    and tw: "tweakAfter c (tweak s) = tweak s"
    by (simp_all add: pushOp_parts)
  have w: "attrWrite ext op c ?t = attrWrite ext op c s"
    by (rule attrWrite_cong) (simp_all add: pushOp_parts)
  have P: "updAttr (opAttr op) (attrWrite ext op c s) (m_prim ?t) = m_prim ?t"
    using updAttr_other[OF ne p] by (simp add: pushOp_parts)
  have F: "fromAfter c (base ?t) (fromUsd ?t) = fromUsd ?t"
    using fromAfter_commute[of c "base s" c' "fromUsd s"] f by (simp add: pushOp_parts)
  have T: "tweakAfter c (tweak ?t) = tweak ?t"
    using tweakAfter_commute[of c c' "tweak s"] tw by (simp add: pushOp_parts)
  have "pushOp ext op c ?t =
     ?t\<lparr>m_prim := updAttr (opAttr op) (attrWrite ext op c s) (m_prim ?t),
        fromUsd := fromAfter c (base ?t) (fromUsd ?t),
        tweak := tweakAfter c (tweak ?t)\<rparr>"
    using pushOp_parts[of ext op c ?t] by (simp only: w)
  also have "\<dots> = ?t" by (simp only: P F T) simp
  finally show ?thesis .
qed

lemma pushLoop_frame:
  "pushLoop ext ops cs s = Some s'
   \<Longrightarrow> m_xformops s' = m_xformops s \<and> m_orderedOps s' = m_orderedOps s
       \<and> IsValid (m_prim s') = IsValid (m_prim s)"
  by (induction ext ops cs s rule: pushLoop.induct) (simp_all add: pushOp_parts)

lemma pushLoop_length: "pushLoop ext ops cs s = Some s' \<Longrightarrow> length ops \<le> length cs"
  by (induction ext ops cs s rule: pushLoop.induct) simp_all

lemma pushLoop_total: "length ops \<le> length cs \<Longrightarrow> \<exists>s'. pushLoop ext ops cs s = Some s'"
  by (induction ext ops cs s rule: pushLoop.induct) simp_all

lemma pushLoop_keeps:
  "pushLoop ext ops cs s = Some s' \<Longrightarrow> pushOp ext op c s = s
   \<Longrightarrow> (\<And>op' c'. (op', c') \<in> set (zip ops cs)
         \<Longrightarrow> IsInvertedTwin c \<or> IsInvertedTwin c' \<or> opAttr op \<noteq> opAttr op')
   \<Longrightarrow> pushOp ext op c s' = s'"
proof (induction ext ops cs s rule: pushLoop.induct)
  case (3 ext op1 ops c1 cs s)
  have "pushOp ext op c (pushOp ext op1 c1 s) = pushOp ext op1 c1 s"
    using "3.prems"(2) by (rule pushOp_pres) (rule "3.prems"(3), simp)
  moreover from "3.prems"(1) have "pushLoop ext ops cs (pushOp ext op1 c1 s) = Some s'" by simp
  ultimately show ?case using "3.prems"(3) by (intro "3.IH") simp_all
qed simp_all

lemma pushLoop_settles:
  "pushLoop ext ops cs s = Some s' \<Longrightarrow> distinct (writers ops cs)
   \<Longrightarrow> (op, c) \<in> set (zip ops cs) \<Longrightarrow> pushOp ext op c s' = s'"
proof (induction ext ops cs s rule: pushLoop.induct)
  case (3 ext op1 ops c1 cs s)
  from "3.prems"(1) have run: "pushLoop ext ops cs (pushOp ext op1 c1 s) = Some s'" by simp
  from "3.prems"(2) have dt: "distinct (writers ops cs)"
    by (simp add: writers_def split: if_splits)
  show ?case
  proof (cases "(op, c) \<in> set (zip ops cs)")
    case True
    with run dt show ?thesis by (rule "3.IH")
  next
    case False
    with "3.prems"(3) have eq: "op = op1" "c = c1" by simp_all
    have sep: "IsInvertedTwin c1 \<or> IsInvertedTwin c' \<or> opAttr op1 \<noteq> opAttr op'"
      if "(op', c') \<in> set (zip ops cs)" for op' c'
    proof (cases "IsInvertedTwin c1 \<or> IsInvertedTwin c'")
      case False
      with that have "opAttr op' \<in> set (writers ops cs)" by (force simp add: writers_def)
      moreover from False "3.prems"(2) have "opAttr op1 \<notin> set (writers ops cs)"
        by (simp add: writers_def)
      ultimately show ?thesis by auto
    qed blast
    from run pushOp_idem[of ext op1 c1 s] sep show ?thesis
      unfolding eq by (rule pushLoop_keeps)
  qed
qed simp_all

lemma pushLoop_fixed:
  "(\<And>op c. (op, c) \<in> set (zip ops cs) \<Longrightarrow> pushOp ext op c s = s) \<Longrightarrow> length ops \<le> length cs
   \<Longrightarrow> pushLoop ext ops cs s = Some s"
  by (induction ext ops cs s rule: pushLoop.induct) simp_all

lemma pushToPrim_twice:
  assumes run: "pushToPrim ext s = Some s'"
    and dt: "distinct (writers (m_xformops s) (m_orderedOps s))"
  shows "pushToPrim ext s' = Some s'"
proof (cases "IsValid (m_prim s)")
  case False
  with run show ?thesis by (simp add: pushToPrim_def)
next
  case True
  with run have loop: "pushLoop ext (m_xformops s) (m_orderedOps s) s = Some s'"
    by (simp add: pushToPrim_def)
  note fr = pushLoop_frame[OF loop]
  have "pushLoop ext (m_xformops s) (m_orderedOps s) s' = Some s'"
    using pushLoop_settles[OF loop dt] pushLoop_length[OF loop] by (rule pushLoop_fixed)
  with fr True show ?thesis by (simp add: pushToPrim_def)
qed

lemma pushToPrim_returns:
  "length (m_xformops s) \<le> length (m_orderedOps s) \<Longrightarrow> \<exists>s'. pushToPrim ext s = Some s'"
  by (simp add: pushToPrim_def pushLoop_total)

section \<open>Writing a scalar at a time other than the default\<close>

text \<open>
  C3. Every codec write should compare the new value with the stored one and skip the store when
  they are equal, so that a second \<open>pushToPrim\<close> changes nothing. \<open>pushDouble\<close> reads the
  old value at the default time and stores at the time it is given. Evaluated at time 5: where
  the operation holds 45 at time 5 and 90 by default, writing 90 is skipped and the operation
  keeps 45; where it resolves to 90 at time 5 and holds 0 by default, writing 90 stores a new
  sample at time 5. Through \<open>pushToPrim\<close>, the host rotation of 90 degrees is recorded as
  the from-source value while the operation still reads 45 at the entity's time.
\<close>

theorem pushDouble_compares_at_default_time:
  "op_Get (rotateXPrim staleSample [5]) rotateXOp (TimeCode 5) = Some (VtReal 45)
   \<and> pushDouble 90 (rotateXPrim staleSample [5]) rotateXOp (TimeCode 5) = rotateXPrim staleSample [5]
   \<and> op_Get (rotateXPrim heldSample [1]) rotateXOp (TimeCode 5) = Some (VtReal 90)
   \<and> pushDouble 90 (rotateXPrim heldSample [1]) rotateXOp (TimeCode 5)
       = rotateXPrim (heldSample(TimeCode 5 := Some (VtReal 90))) [5, 1]
   \<and> pushToPrim plainExt rotatedState
       = Some (rotatedState\<lparr>fromUsd := identityFromUsd\<lparr>m_rotationFromUsd := rotationValue (base rotatedState)\<rparr>\<rparr>)
   \<and> readDouble (m_prim rotatedState) rotateXOp (getTimeCode rotatedState) = 45
   \<and> ex (rotationValue (base rotatedState)) * radToDeg = 90"
  by (simp add: pushDouble_def GetTypeName_def rotateXPrim_def rotateXOp_def staleSample_def heldSample_def
      set_if_changed_def op_Get_def op_Set_def valueFits_def attr_Set_def addSample_def
      pushToPrim_def rotatedState_def freshState_def pushOp_def opClass_def Let_def
      internal_pushRotation_def pushRotation_def GetOpType_def getTimeCode_def readAnimatedValues_def
      identityBase_def zeroTweak_def identityFromUsd_def zeroEuler_def degToRad_def radToDeg_def
      readDouble_def getReal_def fun_eq_iff)

end
